theory Spec2Isabelle
  imports Complex_Main
begin

section \<open>Values of three.js and of the robot description\<close>

text \<open>
  The solver works on three.js vectors and quaternions. Their components are JavaScript
  numbers; the model reads them as reals. The one place where the source can produce a
  NaN from finite inputs is \<^verbatim>\<open>Math.asin\<close>, so the rotation angle alone is a
  \<open>number\<close>: a real, or \<open>None\<close> for NaN. The rounding of the runtime's arithmetic is in
  the operations of three.js, which are parameters of the model; one record of them has it.
\<close>

record Vector3 =
  vx :: real
  vy :: real
  vz :: real

record Quaternion =
  qx :: real
  qy :: real
  qz :: real
  qw :: real

record Euler =
  ex :: real
  ey :: real
  ez :: real
  order :: string

type_synonym number = "real option"

definition js_lt :: "number \<Rightarrow> number \<Rightarrow> bool" where
  "js_lt a b = (case a of None \<Rightarrow> False | Some p \<Rightarrow> (case b of None \<Rightarrow> False | Some q \<Rightarrow> p < q))"

definition js_gt :: "number \<Rightarrow> number \<Rightarrow> bool" where
  "js_gt a b = (case a of None \<Rightarrow> False | Some p \<Rightarrow> (case b of None \<Rightarrow> False | Some q \<Rightarrow> p > q))"

definition Math_asin :: "number \<Rightarrow> number" where
  "Math_asin a =
     (case a of None \<Rightarrow> None
      | Some r \<Rightarrow> if - 1 \<le> r \<and> r \<le> 1 then Some (arcsin r) else None)"

text \<open>model.ts\<close>

datatype AxisName = Axis_x | Axis_y | Axis_z

record IKConfig =
  tolerance :: real
  maxIterations :: real
  updateURDFRobot :: bool

record JointLimit =
  lower :: real
  upper :: real

text \<open>
  What the chain reads of a \<^verbatim>\<open>URDFJoint\<close> of urdf-loader. The source guards \<^verbatim>\<open>axis\<close>
  and \<^verbatim>\<open>limit\<close> with \<^verbatim>\<open>||\<close>, so both may be absent (\<open>None\<close>). An object of three.js
  holds its orientation twice, as Euler angles (\<^verbatim>\<open>rotation\<close>) and as a quaternion.
\<close>

record URDFJoint =
  u_jointType :: string
  u_axis :: "Vector3 option"
  u_limit :: "JointLimit option"
  u_position :: Vector3
  u_rotation :: Euler
  u_quaternion :: Quaternion

section \<open>IKChain.ts: the joint\<close>

definition DEFAULT_AXIS :: Vector3 where
  "DEFAULT_AXIS = \<lparr>vx = 0, vy = 1, vz = 0\<rparr>"

record IKJoint =
  urdfJoint :: "URDFJoint option"
  position :: Vector3
  quaternion :: Quaternion

definition isRootJoint :: "IKJoint \<Rightarrow> bool" where
  "isRootJoint j = (urdfJoint j = None)"

definition axis :: "IKJoint \<Rightarrow> Vector3" where
  "axis j =
     (case urdfJoint j of None \<Rightarrow> DEFAULT_AXIS
      | Some u \<Rightarrow> (case u_axis u of None \<Rightarrow> DEFAULT_AXIS | Some a \<Rightarrow> a))"

text \<open>
  \<^verbatim>\<open>Object.entries(this.axis).find(([key, value]) => value)?.[0] || ''\<close>: the first of x, y, z
  whose component is truthy, that is nonzero; \<open>None\<close> is the empty name.
\<close>

definition axisName :: "IKJoint \<Rightarrow> AxisName option" where
  "axisName j =
     map_option fst
       (find (\<lambda>(key, v). v \<noteq> 0)
          [(Axis_x, vx (axis j)), (Axis_y, vy (axis j)), (Axis_z, vz (axis j))])"

text \<open>
  The getter never returns a falsy value: a joint with no description, or whose description
  carries no limit, gets the object \<^verbatim>\<open>{lower: 0, upper: 0}\<close>. The result is an option only so
  that the solver's test \<^verbatim>\<open>if (ikJoint.limit)\<close> stays a test in the model.
\<close>

definition limit :: "IKJoint \<Rightarrow> JointLimit option" where
  "limit j =
     (case urdfJoint j of None \<Rightarrow> Some \<lparr>lower = 0, upper = 0\<rparr>
      | Some u \<Rightarrow> (case u_limit u of None \<Rightarrow> Some \<lparr>lower = 0, upper = 0\<rparr> | Some l \<Rightarrow> Some l))"

definition isHinge :: "IKJoint \<Rightarrow> bool" where
  "isHinge j = (case urdfJoint j of None \<Rightarrow> False | Some u \<Rightarrow> u_jointType u = ''revolute'')"

definition isFixed :: "IKJoint \<Rightarrow> bool" where
  "isFixed j = (case urdfJoint j of None \<Rightarrow> False | Some u \<Rightarrow> u_jointType u = ''fixed'')"

section \<open>ccdIKSolver.ts: the angle helpers\<close>

definition Vector3_component :: "AxisName \<Rightarrow> Vector3 \<Rightarrow> real" where
  "Vector3_component n v = (case n of Axis_x \<Rightarrow> vx v | Axis_y \<Rightarrow> vy v | Axis_z \<Rightarrow> vz v)"

definition Quaternion_component :: "AxisName \<Rightarrow> Quaternion \<Rightarrow> real" where
  "Quaternion_component n q = (case n of Axis_x \<Rightarrow> qx q | Axis_y \<Rightarrow> qy q | Axis_z \<Rightarrow> qz q)"

text \<open>
  \<^verbatim>\<open>Math.asin(ikJoint.quaternion[axisName] / axis[axisName]) * 2\<close>. With the empty name both
  reads are \<^verbatim>\<open>undefined\<close> and the quotient is NaN. The quotient goes to the inverse sine as
  it is.
\<close>

definition asin_argument :: "IKJoint \<Rightarrow> number" where
  "asin_argument j =
     (case axisName j of None \<Rightarrow> None
      | Some n \<Rightarrow> Some (Quaternion_component n (quaternion j) / Vector3_component n (axis j)))"

definition getIKJointRotationAngle :: "IKJoint \<Rightarrow> number" where
  "getIKJointRotationAngle j = map_option (\<lambda>a. a * 2) (Math_asin (asin_argument j))"

definition clampIKJointRotationAngle :: "number \<Rightarrow> JointLimit \<Rightarrow> number \<times> bool" where
  "clampIKJointRotationAngle ikJointRotationAngle l =
     (if js_lt ikJointRotationAngle (Some (lower l)) then (Some (lower l), True)
      else if js_gt ikJointRotationAngle (Some (upper l)) then (Some (upper l), True)
      else (ikJointRotationAngle, False))"

section \<open>The operations of three.js\<close>

text \<open>
  three.js is a library outside the repository. Every operation of it that the chain and the
  solver call is a field of the record \<open>three\<close>, which the functions below take as their
  first argument; a theorem about them holds for every such record. The type \<open>'w\<close> stands
  for the transform caches of the scene graph (\<^verbatim>\<open>matrix\<close> and \<^verbatim>\<open>matrixWorld\<close> of every object);
  a joint is named by its index in the chain. Each field is the value the operation
  computes; that an operation writes its result into its receiver is modelled where the
  solver calls it. Older releases of three.js compute \<^verbatim>\<open>worldToLocal\<close> from the cached world
  matrix of the object, newer ones refresh the world matrices of the object and its
  ancestors first; so this operation takes the joints and returns the caches along with
  the vector.
\<close>

record 'w three =
  Object3D_worldToLocal :: "'w \<Rightarrow> IKJoint list \<Rightarrow> nat \<Rightarrow> Vector3 \<Rightarrow> Vector3 \<times> 'w"
  Object3D_updateWorldMatrix :: "'w \<Rightarrow> IKJoint list \<Rightarrow> nat \<Rightarrow> 'w"
  Object3D_updateMatrixWorld :: "'w \<Rightarrow> IKJoint list \<Rightarrow> nat \<Rightarrow> 'w"
  Vector3_setFromMatrixPosition :: "'w \<Rightarrow> nat \<Rightarrow> Vector3"
  Vector3_normalize :: "Vector3 \<Rightarrow> Vector3"
  Vector3_length :: "Vector3 \<Rightarrow> real"
  Vector3_applyQuaternion :: "Vector3 \<Rightarrow> Quaternion \<Rightarrow> Vector3"
  Quaternion_setFromUnitVectors :: "Vector3 \<Rightarrow> Vector3 \<Rightarrow> Quaternion"
  Quaternion_multiply :: "Quaternion \<Rightarrow> Quaternion \<Rightarrow> Quaternion"
  Quaternion_invert :: "Quaternion \<Rightarrow> Quaternion"
  Quaternion_setFromAxisAngle :: "Vector3 \<Rightarrow> real \<Rightarrow> Quaternion"
  Quaternion_setFromEuler :: "Euler \<Rightarrow> Quaternion"
  Euler_setFromQuaternion :: "Euler \<Rightarrow> Quaternion \<Rightarrow> Euler"

text \<open>
  The vectors of three.js are objects that their methods overwrite. The model keeps them in
  a store: a vector is an address into \<open>vectors\<close>, \<^verbatim>\<open>new Vector3\<close> and \<^verbatim>\<open>clone\<close> extend the store,
  and a method that writes its receiver updates the store at the receiver's address. The
  quaternion of a joint belongs to that joint alone and stays a field of it.
\<close>

record 'w scene =
  matrixWorld :: 'w
  vectors :: "Vector3 list"

definition new_Vector3 :: "Vector3 \<Rightarrow> 'w scene \<Rightarrow> nat \<times> 'w scene" where
  "new_Vector3 v s = (length (vectors s), s\<lparr>vectors := vectors s @ [v]\<rparr>)"

definition clone :: "nat \<Rightarrow> 'w scene \<Rightarrow> nat \<times> 'w scene" where
  "clone a s = new_Vector3 (vectors s ! a) s"

definition assign :: "nat \<Rightarrow> Vector3 \<Rightarrow> 'w scene \<Rightarrow> 'w scene" where
  "assign a v s = s\<lparr>vectors := (vectors s)[a := v]\<rparr>"

text \<open>\<^verbatim>\<open>joint.worldToLocal(v)\<close> overwrites \<open>v\<close>.\<close>

definition worldToLocal :: "'w three \<Rightarrow> IKJoint list \<Rightarrow> nat \<Rightarrow> nat \<Rightarrow> 'w scene \<Rightarrow> 'w scene" where
  "worldToLocal T js i a s =
     (let r = Object3D_worldToLocal T (matrixWorld s) js i (vectors s ! a)
      in assign a (fst r) (s\<lparr>matrixWorld := snd r\<rparr>))"

definition normalize :: "'w three \<Rightarrow> nat \<Rightarrow> 'w scene \<Rightarrow> 'w scene" where
  "normalize T a s = assign a (Vector3_normalize T (vectors s ! a)) s"

text \<open>
  \<^verbatim>\<open>joint.getWorldPosition(v)\<close> refreshes the world matrices of the joint and its ancestors
  (\<^verbatim>\<open>updateWorldMatrix(true, false)\<close>), then writes the position into \<open>v\<close>.
\<close>

definition getWorldPosition :: "'w three \<Rightarrow> IKJoint list \<Rightarrow> nat \<Rightarrow> nat \<Rightarrow> 'w scene \<Rightarrow> 'w scene" where
  "getWorldPosition T js i a s =
     (let s1 = s\<lparr>matrixWorld := Object3D_updateWorldMatrix T (matrixWorld s) js i\<rparr>
      in assign a (Vector3_setFromMatrixPosition T (matrixWorld s1) i) s1)"

definition updateMatrixWorld :: "'w three \<Rightarrow> IKJoint list \<Rightarrow> nat \<Rightarrow> 'w scene \<Rightarrow> 'w scene" where
  "updateMatrixWorld T js i s = s\<lparr>matrixWorld := Object3D_updateMatrixWorld T (matrixWorld s) js i\<rparr>"

section \<open>ccdIKSolver.ts: the solver\<close>

datatype error = TypeError | MalformedChain

text \<open>
  \<open>TypeError\<close> is what the runtime raises on a property read of \<^verbatim>\<open>undefined\<close>.
  \<open>MalformedChain\<close> is the error the specification names; no path of the source raises it.
\<close>

text \<open>
  \<^verbatim>\<open>const { ikJoints, endEffector } = ikChain\<close>: of a chain the solver takes the list of its
  joints and its end effector. The record holds the joints in the order of that list and
  names the end effector by its place in it.
\<close>

record IKChain =
  ikJoints :: "IKJoint list"
  endEffector :: "nat option"

text \<open>
  \<^verbatim>\<open>endEffector.worldToLocal(targetPos.clone()).length()\<close>. The closure of the source reads
  the end effector and the target; the model passes it the joints as well, for the
  operation of three.js.
\<close>

definition calcEndEffectorTargetDistance ::
  "'w three \<Rightarrow> IKJoint list \<Rightarrow> nat \<Rightarrow> nat \<Rightarrow> 'w scene \<Rightarrow> real \<times> 'w scene" where
  "calcEndEffectorTargetDistance T js e targetPos s =
     (let (a, s1) = clone targetPos s;
          s2 = worldToLocal T js e a s1
      in (Vector3_length T (vectors s2 ! a), s2))"

text \<open>The first rotation of a joint that is not fixed: turn the effector toward the target.\<close>

definition aimJoint :: "'w three \<Rightarrow> nat \<Rightarrow> nat \<Rightarrow> nat \<Rightarrow> nat \<Rightarrow> IKJoint list \<times> 'w scene \<Rightarrow> IKJoint \<times> 'w scene" where
  "aimJoint T e targetPos endEffectorWorldPos i st =
     (let (js, s) = st;
          ikJoint = js ! i;
          s1 = getWorldPosition T js e endEffectorWorldPos s;
          (directionToEndEffector, s2) = clone endEffectorWorldPos s1;
          s3 = normalize T directionToEndEffector (worldToLocal T js i directionToEndEffector s2);
          (directionToTarget, s4) = clone targetPos s3;
          s5 = normalize T directionToTarget (worldToLocal T js i directionToTarget s4);
          jointToTargetQt =
            Quaternion_setFromUnitVectors T (vectors s5 ! directionToEndEffector) (vectors s5 ! directionToTarget)
      in (ikJoint\<lparr>quaternion := Quaternion_multiply T (quaternion ikJoint) jointToTargetQt\<rparr>, s5))"

text \<open>The second rotation, of hinges and of the root: bring the axis back onto itself.\<close>

definition axisCorrection :: "'w three \<Rightarrow> nat \<Rightarrow> IKJoint \<times> 'w scene \<Rightarrow> IKJoint \<times> 'w scene" where
  "axisCorrection T jointAxisInverseQt st =
     (let (ikJoint, s) = st;
          inverseQt = Quaternion_invert T (quaternion ikJoint);
          s1 = assign jointAxisInverseQt (Vector3_applyQuaternion T (axis ikJoint) inverseQt) s;
          jointToTargetQt = Quaternion_setFromUnitVectors T (axis ikJoint) (vectors s1 ! jointAxisInverseQt)
      in (ikJoint\<lparr>quaternion := Quaternion_multiply T (quaternion ikJoint) jointToTargetQt\<rparr>, s1))"

text \<open>
  The limit step, under the test \<^verbatim>\<open>if (ikJoint.limit)\<close>. When the flag is set the clamped
  angle is one of the two bounds, so the case \<open>None\<close> under a set flag is never taken.
\<close>

definition limitStep :: "'w three \<Rightarrow> IKJoint \<Rightarrow> IKJoint" where
  "limitStep T ikJoint =
     (case limit ikJoint of None \<Rightarrow> ikJoint
      | Some l \<Rightarrow>
          (let ikJointRotationAngle = getIKJointRotationAngle ikJoint;
               (clampedRotationAngle, isClamped) = clampIKJointRotationAngle ikJointRotationAngle l
           in if isClamped
              then (case clampedRotationAngle of None \<Rightarrow> ikJoint
                    | Some c \<Rightarrow> ikJoint\<lparr>quaternion := Quaternion_setFromAxisAngle T (axis ikJoint) c\<rparr>)
              else ikJoint))"

text \<open>The body of the \<^verbatim>\<open>for\<close> loop at index \<open>i\<close>.\<close>

definition adjustJoint ::
  "'w three \<Rightarrow> nat \<Rightarrow> nat \<Rightarrow> nat \<Rightarrow> nat \<Rightarrow> nat \<Rightarrow> IKJoint list \<times> 'w scene \<Rightarrow> IKJoint list \<times> 'w scene" where
  "adjustJoint T e targetPos endEffectorWorldPos jointAxisInverseQt i st =
     (let (js, s) = st;
          (js', s') =
            (if \<not> isFixed (js ! i)
             then (let (j1, s1) = aimJoint T e targetPos endEffectorWorldPos i (js, s);
                       (j2, s2) = (if isHinge j1 \<or> isRootJoint j1
                                   then axisCorrection T jointAxisInverseQt (j1, s1) else (j1, s1))
                   in (js[i := limitStep T j2], s2))
             else (js, s))
      in (js', updateMatrixWorld T js' i s'))"

text \<open>
  \<^verbatim>\<open>for (let i = ikJoints.length - 2; i >= 0; i--)\<close>: \<open>sweep \<dots> k\<close> runs the body at
  \<open>k - 1\<close>, \dots, \<open>0\<close>.
\<close>

fun sweep ::
  "'w three \<Rightarrow> nat \<Rightarrow> nat \<Rightarrow> nat \<Rightarrow> nat \<Rightarrow> nat \<Rightarrow> IKJoint list \<times> 'w scene \<Rightarrow> IKJoint list \<times> 'w scene" where
  "sweep T e targetPos endEffectorWorldPos jointAxisInverseQt 0 st = st"
| "sweep T e targetPos endEffectorWorldPos jointAxisInverseQt (Suc i) st =
     sweep T e targetPos endEffectorWorldPos jointAxisInverseQt i
       (adjustJoint T e targetPos endEffectorWorldPos jointAxisInverseQt i st)"

text \<open>One pass of the \<^verbatim>\<open>while\<close> body: a sweep, then the distance again.\<close>

definition iteration_body ::
  "'w three \<Rightarrow> nat \<Rightarrow> nat \<Rightarrow> nat \<Rightarrow> nat \<Rightarrow> IKJoint list \<times> 'w scene \<Rightarrow> (IKJoint list \<times> 'w scene) \<times> real" where
  "iteration_body T e targetPos endEffectorWorldPos jointAxisInverseQt st =
     (let (js, s) = sweep T e targetPos endEffectorWorldPos jointAxisInverseQt (length (fst st) - 1) st;
          (d, s') = calcEndEffectorTargetDistance T js e targetPos s
      in ((js, s'), d))"

text \<open>
  \<^verbatim>\<open>while (endEffectorTargetDistance > config.tolerance && iteration <= config.maxIterations)\<close>.
  The result keeps the final distance and the final value of \<open>iteration\<close>, the number of
  sweeps made.
\<close>

function CCD_while ::
  "'w three \<Rightarrow> nat \<Rightarrow> nat \<Rightarrow> nat \<Rightarrow> nat \<Rightarrow> IKConfig \<Rightarrow> (IKJoint list \<times> 'w scene) \<times> real \<times> nat
     \<Rightarrow> (IKJoint list \<times> 'w scene) \<times> real \<times> nat" where
  "CCD_while T e targetPos endEffectorWorldPos jointAxisInverseQt cfg (st, endEffectorTargetDistance, iteration) =
     (if endEffectorTargetDistance > tolerance cfg \<and> real iteration \<le> maxIterations cfg
      then (let (st', d) = iteration_body T e targetPos endEffectorWorldPos jointAxisInverseQt st
            in CCD_while T e targetPos endEffectorWorldPos jointAxisInverseQt cfg (st', d, iteration + 1))
      else (st, endEffectorTargetDistance, iteration))"
  by pat_completeness auto

termination
proof (relation "measure (\<lambda>(T, e, targetPos, w, q, cfg, st, d, iteration).
                   nat (\<lfloor>maxIterations cfg\<rfloor> + 1 - int iteration))")
  show "wf (measure (\<lambda>(T :: 'w three, e :: nat, targetPos :: nat, w :: nat, q :: nat, cfg, st :: IKJoint list \<times> 'w scene, d :: real, iteration).
                   nat (\<lfloor>maxIterations cfg\<rfloor> + 1 - int iteration)))"
    by simp
next
  fix T :: "'w three" and e targetPos w q :: nat and cfg :: IKConfig
    and st st' :: "IKJoint list \<times> 'w scene" and d d' :: real and iteration :: nat and x
  assume "d > tolerance cfg \<and> real iteration \<le> maxIterations cfg"
  then have "int iteration \<le> \<lfloor>maxIterations cfg\<rfloor>"
    by (simp add: le_floor_iff)
  then show "((T, e, targetPos, w, q, cfg, st', d', iteration + 1), (T, e, targetPos, w, q, cfg, st, d, iteration))
      \<in> measure (\<lambda>(T, e, targetPos, w, q, cfg, st, d, iteration).
                   nat (\<lfloor>maxIterations cfg\<rfloor> + 1 - int iteration))"
    by simp
qed

text \<open>
  The function up to the end of its loop. \<^verbatim>\<open>endEffector\<close> is \<^verbatim>\<open>undefined\<close> on a chain that was
  never built, and the first distance then raises.
\<close>

definition CCDIKSolver_run ::
  "'w three \<Rightarrow> IKChain \<Rightarrow> nat \<Rightarrow> IKConfig \<Rightarrow> 'w scene \<Rightarrow> error + ((IKJoint list \<times> 'w scene) \<times> real \<times> nat)" where
  "CCDIKSolver_run T ikChain targetPos cfg s =
     (case endEffector ikChain of None \<Rightarrow> Inl TypeError
      | Some e \<Rightarrow>
          (let (endEffectorTargetDistance, s1) =
                 calcEndEffectorTargetDistance T (ikJoints ikChain) e targetPos s;
               (endEffectorWorldPos, s2) = new_Vector3 \<lparr>vx = 0, vy = 0, vz = 0\<rparr> s1;
               (jointAxisInverseQt, s3) = new_Vector3 \<lparr>vx = 0, vy = 0, vz = 0\<rparr> s2
           in Inr (CCD_while T e targetPos endEffectorWorldPos jointAxisInverseQt cfg
                     ((ikJoints ikChain, s3), endEffectorTargetDistance, 0))))"

definition CCDIKSolver :: "'w three \<Rightarrow> IKChain \<Rightarrow> nat \<Rightarrow> IKConfig \<Rightarrow> 'w scene \<Rightarrow> error + (IKChain \<times> 'w scene)" where
  "CCDIKSolver T ikChain targetPos cfg s =
     (case CCDIKSolver_run T ikChain targetPos cfg s of Inl err \<Rightarrow> Inl err
      | Inr ((js, s'), d, iteration) \<Rightarrow> Inr (ikChain\<lparr>ikJoints := js\<rparr>, s'))"

text \<open>The number of sweeps a call makes: the final value of \<open>iteration\<close>.\<close>

definition CCDIKSolver_sweeps :: "'w three \<Rightarrow> IKChain \<Rightarrow> nat \<Rightarrow> IKConfig \<Rightarrow> 'w scene \<Rightarrow> error + nat" where
  "CCDIKSolver_sweeps T ikChain targetPos cfg s =
     (case CCDIKSolver_run T ikChain targetPos cfg s of Inl err \<Rightarrow> Inl err
      | Inr ((js, s'), d, iteration) \<Rightarrow> Inr iteration)"

section \<open>IKChain.ts: building the chain\<close>

text \<open>
  The robot description is a tree of three.js objects; a node that is a \<^verbatim>\<open>URDFJoint\<close>
  (\<^verbatim>\<open>isURDFJoint\<close>) carries the joint's data.
\<close>

datatype Object3D = Object3D (urdf_of: "URDFJoint option") (children: "Object3D list")

definition isURDFJoint :: "Object3D \<Rightarrow> bool" where
  "isURDFJoint obj = (urdf_of obj \<noteq> None)"

text \<open>
  The constructor of \<^verbatim>\<open>IKJoint\<close>: a new object sits at the origin with the identity rotation;
  with a description it copies \<^verbatim>\<open>position\<close> and \<^verbatim>\<open>rotation\<close>, and three.js sets the quaternion
  from the Euler angles copied.
\<close>

definition new_IKJoint :: "'w three \<Rightarrow> URDFJoint option \<Rightarrow> IKJoint" where
  "new_IKJoint T u =
     (case u of
        None \<Rightarrow> \<lparr>urdfJoint = None, position = \<lparr>vx = 0, vy = 0, vz = 0\<rparr>,
                 quaternion = \<lparr>qx = 0, qy = 0, qz = 0, qw = 1\<rparr>\<rparr>
      | Some d \<Rightarrow> \<lparr>urdfJoint = Some d, position = u_position d,
                   quaternion = Quaternion_setFromEuler T (u_rotation d)\<rparr>)"

text \<open>
  \<^verbatim>\<open>parent.children[0].children.find((child) => child.isURDFJoint)\<close>: a parent without
  children makes \<^verbatim>\<open>children[0]\<close> undefined, and the read of its \<^verbatim>\<open>children\<close> raises.
\<close>

definition nextURDFJoint :: "Object3D \<Rightarrow> error + Object3D option" where
  "nextURDFJoint parent =
     (case children parent of [] \<Rightarrow> Inl TypeError
      | c # _ \<Rightarrow> Inr (find isURDFJoint (children c)))"

text \<open>
  \<^verbatim>\<open>parent.children.find((child) => child.isURDFJoint && this._nextURDFJoint(child))\<close>: the
  first child that is a joint and has a next joint.
\<close>

fun find_base :: "Object3D list \<Rightarrow> error + Object3D option" where
  "find_base [] = Inr None"
| "find_base (child # rest) =
     (if isURDFJoint child
      then (case nextURDFJoint child of Inl err \<Rightarrow> Inl err
            | Inr None \<Rightarrow> find_base rest
            | Inr (Some n) \<Rightarrow> Inr (Some child))
      else find_base rest)"

definition baseURDFJoint :: "Object3D \<Rightarrow> error + Object3D option" where
  "baseURDFJoint parent = find_base (children parent)"

text \<open>
  The chain object. A joint is an object with an identity: the model keeps every joint the
  chain has created in \<open>joints\<close>, names a joint by its address there, and keeps the scene
  graph under the root joint as a tree of addresses. \<^verbatim>\<open>_endEffector\<close> and the cached list
  \<^verbatim>\<open>_ikJoints\<close> hold addresses; \<open>None\<close> is \<^verbatim>\<open>undefined\<close>.
\<close>

datatype IKNode = IKNode (node_joint: nat) (node_children: "IKNode list")

record IKChain_object =
  joints :: "IKJoint list"
  private_rootJoint :: IKNode
  private_endEffector :: "nat option"
  private_ikJoints :: "nat list option"

text \<open>\<^verbatim>\<open>Object3D.traverse\<close>: the callback on the object, then on the subtree of each child in order.\<close>

fun Object3D_traverse :: "IKNode \<Rightarrow> nat list" where
  "Object3D_traverse (IKNode a cs) = a # concat (map Object3D_traverse cs)"

text \<open>\<^verbatim>\<open>parent.add(child)\<close> with a new object: the child is appended to the children of the parent.\<close>

fun Object3D_add :: "nat \<Rightarrow> nat \<Rightarrow> IKNode \<Rightarrow> IKNode" where
  "Object3D_add parent child (IKNode a cs) =
     (if a = parent then IKNode a (cs @ [IKNode child []])
      else IKNode a (map (Object3D_add parent child) cs))"

text \<open>\<^verbatim>\<open>new IKChain()\<close>: the root joint alone, no end effector and no cached list.\<close>

definition new_IKChain :: "'w three \<Rightarrow> IKChain_object" where
  "new_IKChain T =
     \<lparr>joints = [new_IKJoint T None], private_rootJoint = IKNode 0 [],
      private_endEffector = None, private_ikJoints = None\<rparr>"

text \<open>
  The getter \<^verbatim>\<open>ikJoints\<close>: the first read walks the tree under the root joint and caches the
  list; every later read returns the cached list. Nothing in the class resets the cache.
  The tree of the model holds joints only, and the getter skips any other object under the
  root joint.
\<close>

definition get_ikJoints :: "IKChain_object \<Rightarrow> nat list \<times> IKChain_object" where
  "get_ikJoints this =
     (case private_ikJoints this of
        Some l \<Rightarrow> (l, this)
      | None \<Rightarrow> (let l = Object3D_traverse (private_rootJoint this)
                 in (l, this\<lparr>private_ikJoints := Some l\<rparr>)))"

lemma find_in_set: "find P xs = Some y \<Longrightarrow> y \<in> set xs"
  by (induction xs) (auto split: if_splits)

lemma size_child: "c \<in> set (children obj) \<Longrightarrow> size c < size obj"
  by (cases obj) (auto simp: less_Suc_eq_le size_list_estimation')

lemma nextURDFJoint_smaller: "nextURDFJoint obj = Inr (Some n) \<Longrightarrow> size n < size obj"
proof -
  assume a: "nextURDFJoint obj = Inr (Some n)"
  then obtain c cs where c: "children obj = c # cs" and n: "find isURDFJoint (children c) = Some n"
    by (auto simp: nextURDFJoint_def split: list.splits)
  have "size n < size c" using n by (intro size_child find_in_set)
  moreover have "size c < size obj" using c by (intro size_child) simp
  ultimately show ?thesis by simp
qed

text \<open>
  \<^verbatim>\<open>_traverseURDFJoints\<close>, a method that changes the chain: the new joint is created and added
  under its parent before the next joint is looked for, so an error leaves the joints made
  so far in the chain. The result is the error raised, if any, and the chain afterwards.
  The description's joint is \<^verbatim>\<open>undefined\<close> (\<open>None\<close>) when the search for the base found none;
  the joint made from it is a joint without a description, and the search for its next
  joint raises.
\<close>

function traverseURDFJoints ::
  "'w three \<Rightarrow> nat \<Rightarrow> Object3D option \<Rightarrow> IKChain_object \<Rightarrow> error option \<times> IKChain_object" where
  "traverseURDFJoints T parentIKJoint joint this =
     (let ikJoint = length (joints this);
          this1 = this\<lparr>joints := joints this @ [new_IKJoint T (Option.bind joint urdf_of)],
                       private_rootJoint := Object3D_add parentIKJoint ikJoint (private_rootJoint this)\<rparr>
      in case joint of
           None \<Rightarrow> (Some TypeError, this1)
         | Some j \<Rightarrow>
             (case nextURDFJoint j of
                Inl err \<Rightarrow> (Some err, this1)
              | Inr None \<Rightarrow> (None, this1\<lparr>private_endEffector := Some ikJoint\<rparr>)
              | Inr (Some nextUrdfJoint) \<Rightarrow> traverseURDFJoints T ikJoint (Some nextUrdfJoint) this1))"
  by pat_completeness auto

termination
  by (relation "measure (\<lambda>(T, parentIKJoint, joint, this). case joint of None \<Rightarrow> 0 | Some j \<Rightarrow> size j)")
     (auto simp: nextURDFJoint_smaller)

text \<open>
  \<^verbatim>\<open>createFromURDF\<close>. The base joint is looked for first, so an error of that search leaves
  the chain as it was. The group that the method returns holds the robot and the root joint
  and is no part of the chain.
\<close>

definition createFromURDF :: "'w three \<Rightarrow> Object3D \<Rightarrow> IKChain_object \<Rightarrow> error option \<times> IKChain_object" where
  "createFromURDF T robot this =
     (case baseURDFJoint robot of
        Inl err \<Rightarrow> (Some err, this)
      | Inr base \<Rightarrow> traverseURDFJoints T (node_joint (private_rootJoint this)) base this)"

section \<open>IKSolver.ts: the orchestrator\<close>

text \<open>
  The target is a three.js object of which the solver reads \<^verbatim>\<open>position\<close>; the model keeps the
  address of that vector.
\<close>

record IKSolver =
  ikChain :: "IKChain option"
  target :: "nat option"
  config :: IKConfig

text \<open>
  \<^verbatim>\<open>Partial<IKConfig>\<close>: each field given or left out. The spread \<^verbatim>\<open>...config\<close> after the three
  defaults overwrites a default exactly where the field is given.
\<close>

record PartialIKConfig =
  p_tolerance :: "real option"
  p_maxIterations :: "real option"
  p_updateURDFRobot :: "bool option"

definition spread :: "'a \<Rightarrow> 'a option \<Rightarrow> 'a" where
  "spread dflt given = (case given of None \<Rightarrow> dflt | Some v \<Rightarrow> v)"

definition new_IKSolver :: "PartialIKConfig \<Rightarrow> IKSolver" where
  "new_IKSolver cfg =
     \<lparr>ikChain = None, target = None,
      config = \<lparr>tolerance = spread (1 / 100) (p_tolerance cfg),
                maxIterations = spread 10 (p_maxIterations cfg),
                updateURDFRobot = spread False (p_updateURDFRobot cfg)\<rparr>\<rparr>"

text \<open>
  \<^verbatim>\<open>ikJoint.urdfJoint?.quaternion.copy(ikJoint.quaternion)\<close>; three.js then refreshes the Euler
  angles of the description's joint from its new quaternion.
\<close>

definition writeBack :: "'w three \<Rightarrow> IKJoint \<Rightarrow> IKJoint" where
  "writeBack T ikJoint =
     (case urdfJoint ikJoint of None \<Rightarrow> ikJoint
      | Some u \<Rightarrow>
          ikJoint\<lparr>urdfJoint :=
            Some (u\<lparr>u_quaternion := quaternion ikJoint,
                    u_rotation := Euler_setFromQuaternion T (u_rotation u) (quaternion ikJoint)\<rparr>)\<rparr>)"

definition updateURDFRobot_of :: "'w three \<Rightarrow> IKSolver \<Rightarrow> IKSolver" where
  "updateURDFRobot_of T this =
     (case ikChain this of None \<Rightarrow> this
      | Some c \<Rightarrow> this\<lparr>ikChain := Some (c\<lparr>ikJoints := map (writeBack T) (ikJoints c)\<rparr>)\<rparr>)"

definition solve :: "'w three \<Rightarrow> IKSolver \<Rightarrow> 'w scene \<Rightarrow> error + (IKSolver \<times> 'w scene)" where
  "solve T this s =
     (case ikChain this of None \<Rightarrow> Inr (this, s)
      | Some c \<Rightarrow>
          (case target this of None \<Rightarrow> Inr (this, s)
           | Some t \<Rightarrow>
               (case CCDIKSolver T c t (config this) s of
                  Inl err \<Rightarrow> Inl err
                | Inr (c', s') \<Rightarrow>
                    (let this' = this\<lparr>ikChain := Some c'\<rparr>
                     in Inr (if updateURDFRobot (config this') then updateURDFRobot_of T this' else this', s')))))"

section \<open>The operations over the reals\<close>

text \<open>
  One record of operations, for runs on concrete chains: the arithmetic of three.js read over
  the reals. The world matrix of a joint is kept as the rotation and the translation it is
  composed of (all scales are 1), and the group that holds the root joint is not moved, so
  the root's parent has the identity transform. \<^verbatim>\<open>worldToLocal\<close> first refreshes the world
  matrices of the joint and its ancestors (\<^verbatim>\<open>updateWorldMatrix(true, false)\<close>), as three.js does
  since release 0.150. No general theorem below depends on this record.
\<close>

type_synonym pose = "Quaternion \<times> Vector3"

definition R_length :: "Vector3 \<Rightarrow> real" where
  "R_length v = sqrt (vx v * vx v + vy v * vy v + vz v * vz v)"

definition R_multiplyScalar :: "Vector3 \<Rightarrow> real \<Rightarrow> Vector3" where
  "R_multiplyScalar v k = \<lparr>vx = vx v * k, vy = vy v * k, vz = vz v * k\<rparr>"

definition R_normalize :: "Vector3 \<Rightarrow> Vector3" where
  "R_normalize v = R_multiplyScalar v (1 / (if R_length v = 0 then 1 else R_length v))"

definition R_add :: "Vector3 \<Rightarrow> Vector3 \<Rightarrow> Vector3" where
  "R_add a b = \<lparr>vx = vx a + vx b, vy = vy a + vy b, vz = vz a + vz b\<rparr>"

definition R_sub :: "Vector3 \<Rightarrow> Vector3 \<Rightarrow> Vector3" where
  "R_sub a b = \<lparr>vx = vx a - vx b, vy = vy a - vy b, vz = vz a - vz b\<rparr>"

definition R_applyQuaternion :: "Vector3 \<Rightarrow> Quaternion \<Rightarrow> Vector3" where
  "R_applyQuaternion v q =
     (let tx = 2 * (qy q * vz v - qz q * vy v);
          ty = 2 * (qz q * vx v - qx q * vz v);
          tz = 2 * (qx q * vy v - qy q * vx v)
      in \<lparr>vx = vx v + qw q * tx + qy q * tz - qz q * ty,
          vy = vy v + qw q * ty + qz q * tx - qx q * tz,
          vz = vz v + qw q * tz + qx q * ty - qy q * tx\<rparr>)"

definition R_multiply :: "Quaternion \<Rightarrow> Quaternion \<Rightarrow> Quaternion" where
  "R_multiply a b =
     \<lparr>qx = qx a * qw b + qw a * qx b + qy a * qz b - qz a * qy b,
      qy = qy a * qw b + qw a * qy b + qz a * qx b - qx a * qz b,
      qz = qz a * qw b + qw a * qz b + qx a * qy b - qy a * qx b,
      qw = qw a * qw b - qx a * qx b - qy a * qy b - qz a * qz b\<rparr>"

definition R_invert :: "Quaternion \<Rightarrow> Quaternion" where
  "R_invert q = \<lparr>qx = - qx q, qy = - qy q, qz = - qz q, qw = qw q\<rparr>"

definition R_qnormalize :: "Quaternion \<Rightarrow> Quaternion" where
  "R_qnormalize q =
     (let l = sqrt (qx q * qx q + qy q * qy q + qz q * qz q + qw q * qw q)
      in if l = 0 then \<lparr>qx = 0, qy = 0, qz = 0, qw = 1\<rparr>
         else \<lparr>qx = qx q * (1 / l), qy = qy q * (1 / l), qz = qz q * (1 / l), qw = qw q * (1 / l)\<rparr>)"

definition Number_EPSILON :: real where
  "Number_EPSILON = 1 / 2 ^ 52"

definition R_setFromUnitVectors :: "Vector3 \<Rightarrow> Vector3 \<Rightarrow> Quaternion" where
  "R_setFromUnitVectors vFrom vTo =
     (let r = vx vFrom * vx vTo + vy vFrom * vy vTo + vz vFrom * vz vTo + 1
      in R_qnormalize
           (if r < Number_EPSILON
            then (if \<bar>vx vFrom\<bar> > \<bar>vz vFrom\<bar>
                  then \<lparr>qx = - vy vFrom, qy = vx vFrom, qz = 0, qw = 0\<rparr>
                  else \<lparr>qx = 0, qy = - vz vFrom, qz = vy vFrom, qw = 0\<rparr>)
            else \<lparr>qx = vy vFrom * vz vTo - vz vFrom * vy vTo,
                  qy = vz vFrom * vx vTo - vx vFrom * vz vTo,
                  qz = vx vFrom * vy vTo - vy vFrom * vx vTo,
                  qw = r\<rparr>))"

definition R_setFromAxisAngle :: "Vector3 \<Rightarrow> real \<Rightarrow> Quaternion" where
  "R_setFromAxisAngle a angle =
     \<lparr>qx = vx a * sin (angle / 2), qy = vy a * sin (angle / 2), qz = vz a * sin (angle / 2),
      qw = cos (angle / 2)\<rparr>"

definition R_setFromEuler :: "Euler \<Rightarrow> Quaternion" where
  "R_setFromEuler E =
     (let c1 = cos (ex E / 2); c2 = cos (ey E / 2); c3 = cos (ez E / 2);
          s1 = sin (ex E / 2); s2 = sin (ey E / 2); s3 = sin (ez E / 2)
      in if order E = ''XYZ'' then
           \<lparr>qx = s1 * c2 * c3 + c1 * s2 * s3, qy = c1 * s2 * c3 - s1 * c2 * s3,
            qz = c1 * c2 * s3 + s1 * s2 * c3, qw = c1 * c2 * c3 - s1 * s2 * s3\<rparr>
         else if order E = ''YXZ'' then
           \<lparr>qx = s1 * c2 * c3 + c1 * s2 * s3, qy = c1 * s2 * c3 - s1 * c2 * s3,
            qz = c1 * c2 * s3 - s1 * s2 * c3, qw = c1 * c2 * c3 + s1 * s2 * s3\<rparr>
         else if order E = ''ZXY'' then
           \<lparr>qx = s1 * c2 * c3 - c1 * s2 * s3, qy = c1 * s2 * c3 + s1 * c2 * s3,
            qz = c1 * c2 * s3 + s1 * s2 * c3, qw = c1 * c2 * c3 - s1 * s2 * s3\<rparr>
         else if order E = ''ZYX'' then
           \<lparr>qx = s1 * c2 * c3 - c1 * s2 * s3, qy = c1 * s2 * c3 + s1 * c2 * s3,
            qz = c1 * c2 * s3 - s1 * s2 * c3, qw = c1 * c2 * c3 + s1 * s2 * s3\<rparr>
         else if order E = ''YZX'' then
           \<lparr>qx = s1 * c2 * c3 + c1 * s2 * s3, qy = c1 * s2 * c3 + s1 * c2 * s3,
            qz = c1 * c2 * s3 - s1 * s2 * c3, qw = c1 * c2 * c3 - s1 * s2 * s3\<rparr>
         else if order E = ''XZY'' then
           \<lparr>qx = s1 * c2 * c3 - c1 * s2 * s3, qy = c1 * s2 * c3 - s1 * c2 * s3,
            qz = c1 * c2 * s3 + s1 * s2 * c3, qw = c1 * c2 * c3 + s1 * s2 * s3\<rparr>
         else \<lparr>qx = 0, qy = 0, qz = 0, qw = 1\<rparr>)"

definition Math_atan2 :: "real \<Rightarrow> real \<Rightarrow> real" where
  "Math_atan2 b a =
     (if a > 0 then arctan (b / a)
      else if a < 0 then (if b \<ge> 0 then arctan (b / a) + pi else arctan (b / a) - pi)
      else if b > 0 then pi / 2 else if b < 0 then - (pi / 2) else 0)"

definition clamp1 :: "real \<Rightarrow> real" where
  "clamp1 v = max (- 1) (min 1 v)"

text \<open>
  The Euler angles of a quaternion, through the rotation matrix \<open>m\<close> of the quaternion, in the
  order the Euler object has; an unknown order leaves the angles as they are.
\<close>

definition R_eulerFromQuaternion :: "Euler \<Rightarrow> Quaternion \<Rightarrow> Euler" where
  "R_eulerFromQuaternion E q =
     (let m11 = 1 - (2 * qy q * qy q + 2 * qz q * qz q);
          m12 = 2 * qx q * qy q - 2 * qw q * qz q;
          m13 = 2 * qx q * qz q + 2 * qw q * qy q;
          m21 = 2 * qx q * qy q + 2 * qw q * qz q;
          m22 = 1 - (2 * qx q * qx q + 2 * qz q * qz q);
          m23 = 2 * qy q * qz q - 2 * qw q * qx q;
          m31 = 2 * qx q * qz q - 2 * qw q * qy q;
          m32 = 2 * qy q * qz q + 2 * qw q * qx q;
          m33 = 1 - (2 * qx q * qx q + 2 * qy q * qy q);
          lim = 9999999 / 10000000
      in if order E = ''XYZ'' then
           (if \<bar>m13\<bar> < lim
            then E\<lparr>ex := Math_atan2 (- m23) m33, ey := arcsin (clamp1 m13), ez := Math_atan2 (- m12) m11\<rparr>
            else E\<lparr>ex := Math_atan2 m32 m22, ey := arcsin (clamp1 m13), ez := 0\<rparr>)
         else if order E = ''YXZ'' then
           (if \<bar>m23\<bar> < lim
            then E\<lparr>ex := arcsin (- clamp1 m23), ey := Math_atan2 m13 m33, ez := Math_atan2 m21 m22\<rparr>
            else E\<lparr>ex := arcsin (- clamp1 m23), ey := Math_atan2 (- m31) m11, ez := 0\<rparr>)
         else if order E = ''ZXY'' then
           (if \<bar>m32\<bar> < lim
            then E\<lparr>ex := arcsin (clamp1 m32), ey := Math_atan2 (- m31) m33, ez := Math_atan2 (- m12) m22\<rparr>
            else E\<lparr>ex := arcsin (clamp1 m32), ey := 0, ez := Math_atan2 m21 m11\<rparr>)
         else if order E = ''ZYX'' then
           (if \<bar>m31\<bar> < lim
            then E\<lparr>ex := Math_atan2 m32 m33, ey := arcsin (- clamp1 m31), ez := Math_atan2 m21 m11\<rparr>
            else E\<lparr>ex := 0, ey := arcsin (- clamp1 m31), ez := Math_atan2 (- m12) m22\<rparr>)
         else if order E = ''YZX'' then
           (if \<bar>m21\<bar> < lim
            then E\<lparr>ex := Math_atan2 (- m23) m22, ey := Math_atan2 (- m31) m11, ez := arcsin (clamp1 m21)\<rparr>
            else E\<lparr>ex := 0, ey := Math_atan2 m13 m33, ez := arcsin (clamp1 m21)\<rparr>)
         else if order E = ''XZY'' then
           (if \<bar>m12\<bar> < lim
            then E\<lparr>ex := Math_atan2 m32 m22, ey := Math_atan2 m13 m11, ez := arcsin (- clamp1 m12)\<rparr>
            else E\<lparr>ex := Math_atan2 (- m23) m33, ey := 0, ez := arcsin (- clamp1 m12)\<rparr>)
         else E)"

definition pose_identity :: pose where
  "pose_identity = (\<lparr>qx = 0, qy = 0, qz = 0, qw = 1\<rparr>, \<lparr>vx = 0, vy = 0, vz = 0\<rparr>)"

text \<open>The world pose of a joint from the world pose of its parent and its own local transform.\<close>

definition pose_compose :: "pose \<Rightarrow> IKJoint \<Rightarrow> pose" where
  "pose_compose P j =
     (R_multiply (fst P) (quaternion j), R_add (snd P) (R_applyQuaternion (position j) (fst P)))"

fun refresh :: "pose \<Rightarrow> IKJoint list \<Rightarrow> pose list" where
  "refresh P [] = []"
| "refresh P (j # js) = pose_compose P j # refresh (pose_compose P j) js"

text \<open>\<^verbatim>\<open>updateMatrixWorld\<close> recomputes the joint and everything below it.\<close>

definition R_updateMatrixWorld :: "pose list \<Rightarrow> IKJoint list \<Rightarrow> nat \<Rightarrow> pose list" where
  "R_updateMatrixWorld w js i =
     take i w @ refresh (if i = 0 then pose_identity else w ! (i - 1)) (drop i js)"

text \<open>\<^verbatim>\<open>updateWorldMatrix(true, false)\<close> recomputes the ancestors from the top, then the joint.\<close>

definition R_updateWorldMatrix :: "pose list \<Rightarrow> IKJoint list \<Rightarrow> nat \<Rightarrow> pose list" where
  "R_updateWorldMatrix w js i = refresh pose_identity (take (Suc i) js) @ drop (Suc i) w"

definition R_toLocal :: "pose list \<Rightarrow> nat \<Rightarrow> Vector3 \<Rightarrow> Vector3" where
  "R_toLocal w i v = R_applyQuaternion (R_sub v (snd (w ! i))) (R_invert (fst (w ! i)))"

definition R_worldToLocal :: "pose list \<Rightarrow> IKJoint list \<Rightarrow> nat \<Rightarrow> Vector3 \<Rightarrow> Vector3 \<times> pose list" where
  "R_worldToLocal w js i v =
     (let w' = R_updateWorldMatrix w js i in (R_toLocal w' i v, w'))"

definition R_setFromMatrixPosition :: "pose list \<Rightarrow> nat \<Rightarrow> Vector3" where
  "R_setFromMatrixPosition w i = snd (w ! i)"

definition three_reals :: "(pose list) three" where
  "three_reals =
     \<lparr>Object3D_worldToLocal = R_worldToLocal,
      Object3D_updateWorldMatrix = R_updateWorldMatrix,
      Object3D_updateMatrixWorld = R_updateMatrixWorld,
      Vector3_setFromMatrixPosition = R_setFromMatrixPosition,
      Vector3_normalize = R_normalize,
      Vector3_length = R_length,
      Vector3_applyQuaternion = R_applyQuaternion,
      Quaternion_setFromUnitVectors = R_setFromUnitVectors,
      Quaternion_multiply = R_multiply,
      Quaternion_invert = R_invert,
      Quaternion_setFromAxisAngle = R_setFromAxisAngle,
      Quaternion_setFromEuler = R_setFromEuler,
      Euler_setFromQuaternion = R_eulerFromQuaternion\<rparr>"

section \<open>The operations in double precision\<close>

text \<open>
  A second record of operations, for runs on concrete chains: the arithmetic of three.js as
  the runtime performs it, in IEEE 754 binary64 with rounding to nearest, ties to even. A
  number is the real that the double stands for, and every operation rounds its exact
  result: \<^verbatim>\<open>a * b + c\<close> is \<open>fadd (fmul a b) c\<close>, and sums and products nest to the left as the
  source evaluates them. The exponent range is not bounded, so \<open>rnd\<close> is the rounding of the
  runtime for results of a magnitude from \<open>2 ^ -1022\<close> to below \<open>2 ^ 1024\<close>, and for 0; and a
  division by zero gives 0 here where the runtime gives an infinity or NaN. \<^verbatim>\<open>Math.sqrt\<close>
  rounds correctly, and \<^verbatim>\<open>Math.sin\<close>, \<^verbatim>\<open>Math.cos\<close>, \<^verbatim>\<open>Math.asin\<close> and \<^verbatim>\<open>Math.atan2\<close> are taken to do so.
  The world matrix of a joint is a \<^verbatim>\<open>Matrix4\<close>, with the field \<open>nrc\<close> for row \<open>r\<close> and column \<open>c\<close>
  (\<^verbatim>\<open>elements[4 * (c - 1) + (r - 1)]\<close>); the scale of every joint is \<open>(1, 1, 1)\<close>, and the group
  that holds the root joint is not moved, so the root's parent has the identity matrix. The
  routines are read from a current release of three.js, in which \<^verbatim>\<open>worldToLocal\<close> refreshes
  the world matrices first. No general theorem below depends on this record.
\<close>

definition round_even :: "real \<Rightarrow> int" where
  "round_even y =
     (let f = \<lfloor>y\<rfloor>
      in if y - of_int f < 1 / 2 then f
         else if 1 / 2 < y - of_int f then f + 1
         else if even f then f else f + 1)"

text \<open>The double nearest to \<open>x\<close>: 53 significant bits at the binary exponent of \<open>x\<close>.\<close>

definition rnd :: "real \<Rightarrow> real" where
  "rnd x =
     (if x = 0 then 0
      else (let e = \<lfloor>log 2 \<bar>x\<bar>\<rfloor> - 52
            in of_int (round_even (x / 2 powr of_int e)) * 2 powr of_int e))"

definition fadd :: "real \<Rightarrow> real \<Rightarrow> real" where
  "fadd a b = rnd (a + b)"

definition fsub :: "real \<Rightarrow> real \<Rightarrow> real" where
  "fsub a b = rnd (a - b)"

definition fmul :: "real \<Rightarrow> real \<Rightarrow> real" where
  "fmul a b = rnd (a * b)"

definition fdiv :: "real \<Rightarrow> real \<Rightarrow> real" where
  "fdiv a b = rnd (a / b)"

definition fsqrt :: "real \<Rightarrow> real" where
  "fsqrt a = rnd (sqrt a)"

definition fsin :: "real \<Rightarrow> real" where
  "fsin a = rnd (sin a)"

definition fcos :: "real \<Rightarrow> real" where
  "fcos a = rnd (cos a)"

definition fasin :: "real \<Rightarrow> real" where
  "fasin a = rnd (arcsin a)"

definition fatan2 :: "real \<Rightarrow> real \<Rightarrow> real" where
  "fatan2 b a = rnd (Math_atan2 b a)"

record Matrix4 =
  n11 :: real
  n12 :: real
  n13 :: real
  n14 :: real
  n21 :: real
  n22 :: real
  n23 :: real
  n24 :: real
  n31 :: real
  n32 :: real
  n33 :: real
  n34 :: real
  n41 :: real
  n42 :: real
  n43 :: real
  n44 :: real

definition D_identity :: Matrix4 where
  "D_identity =
     \<lparr>n11 = 1, n12 = 0, n13 = 0, n14 = 0,
      n21 = 0, n22 = 1, n23 = 0, n24 = 0,
      n31 = 0, n32 = 0, n33 = 1, n34 = 0,
      n41 = 0, n42 = 0, n43 = 0, n44 = 1\<rparr>"

definition D_zero :: Matrix4 where
  "D_zero =
     \<lparr>n11 = 0, n12 = 0, n13 = 0, n14 = 0,
      n21 = 0, n22 = 0, n23 = 0, n24 = 0,
      n31 = 0, n32 = 0, n33 = 0, n34 = 0,
      n41 = 0, n42 = 0, n43 = 0, n44 = 0\<rparr>"

text \<open>\<^verbatim>\<open>Matrix4.compose(position, quaternion, scale)\<close>.\<close>

definition D_compose :: "Vector3 \<Rightarrow> Quaternion \<Rightarrow> Vector3 \<Rightarrow> Matrix4" where
  "D_compose p q s =
     (let x = qx q;
          y = qy q;
          z = qz q;
          w = qw q;
          x2 = fadd x x;
          y2 = fadd y y;
          z2 = fadd z z;
          xx = fmul x x2;
          xy = fmul x y2;
          xz = fmul x z2;
          yy = fmul y y2;
          yz = fmul y z2;
          zz = fmul z z2;
          wx = fmul w x2;
          wy = fmul w y2;
          wz = fmul w z2;
          sx = vx s;
          sy = vy s;
          sz = vz s
      in \<lparr>n11 = fmul (fsub 1 (fadd yy zz)) sx,
          n12 = fmul (fsub xy wz) sy,
          n13 = fmul (fadd xz wy) sz,
          n14 = vx p,
          n21 = fmul (fadd xy wz) sx,
          n22 = fmul (fsub 1 (fadd xx zz)) sy,
          n23 = fmul (fsub yz wx) sz,
          n24 = vy p,
          n31 = fmul (fsub xz wy) sx,
          n32 = fmul (fadd yz wx) sy,
          n33 = fmul (fsub 1 (fadd xx yy)) sz,
          n34 = vz p,
          n41 = 0,
          n42 = 0,
          n43 = 0,
          n44 = 1\<rparr>)"

text \<open>\<^verbatim>\<open>Matrix4.multiplyMatrices(a, b)\<close>.\<close>

definition D_multiplyMatrices :: "Matrix4 \<Rightarrow> Matrix4 \<Rightarrow> Matrix4" where
  "D_multiplyMatrices a b =
     \<lparr>n11 = fadd (fadd (fadd (fmul (n11 a) (n11 b)) (fmul (n12 a) (n21 b))) (fmul (n13 a) (n31 b))) (fmul (n14 a) (n41 b)),
      n12 = fadd (fadd (fadd (fmul (n11 a) (n12 b)) (fmul (n12 a) (n22 b))) (fmul (n13 a) (n32 b))) (fmul (n14 a) (n42 b)),
      n13 = fadd (fadd (fadd (fmul (n11 a) (n13 b)) (fmul (n12 a) (n23 b))) (fmul (n13 a) (n33 b))) (fmul (n14 a) (n43 b)),
      n14 = fadd (fadd (fadd (fmul (n11 a) (n14 b)) (fmul (n12 a) (n24 b))) (fmul (n13 a) (n34 b))) (fmul (n14 a) (n44 b)),
      n21 = fadd (fadd (fadd (fmul (n21 a) (n11 b)) (fmul (n22 a) (n21 b))) (fmul (n23 a) (n31 b))) (fmul (n24 a) (n41 b)),
      n22 = fadd (fadd (fadd (fmul (n21 a) (n12 b)) (fmul (n22 a) (n22 b))) (fmul (n23 a) (n32 b))) (fmul (n24 a) (n42 b)),
      n23 = fadd (fadd (fadd (fmul (n21 a) (n13 b)) (fmul (n22 a) (n23 b))) (fmul (n23 a) (n33 b))) (fmul (n24 a) (n43 b)),
      n24 = fadd (fadd (fadd (fmul (n21 a) (n14 b)) (fmul (n22 a) (n24 b))) (fmul (n23 a) (n34 b))) (fmul (n24 a) (n44 b)),
      n31 = fadd (fadd (fadd (fmul (n31 a) (n11 b)) (fmul (n32 a) (n21 b))) (fmul (n33 a) (n31 b))) (fmul (n34 a) (n41 b)),
      n32 = fadd (fadd (fadd (fmul (n31 a) (n12 b)) (fmul (n32 a) (n22 b))) (fmul (n33 a) (n32 b))) (fmul (n34 a) (n42 b)),
      n33 = fadd (fadd (fadd (fmul (n31 a) (n13 b)) (fmul (n32 a) (n23 b))) (fmul (n33 a) (n33 b))) (fmul (n34 a) (n43 b)),
      n34 = fadd (fadd (fadd (fmul (n31 a) (n14 b)) (fmul (n32 a) (n24 b))) (fmul (n33 a) (n34 b))) (fmul (n34 a) (n44 b)),
      n41 = fadd (fadd (fadd (fmul (n41 a) (n11 b)) (fmul (n42 a) (n21 b))) (fmul (n43 a) (n31 b))) (fmul (n44 a) (n41 b)),
      n42 = fadd (fadd (fadd (fmul (n41 a) (n12 b)) (fmul (n42 a) (n22 b))) (fmul (n43 a) (n32 b))) (fmul (n44 a) (n42 b)),
      n43 = fadd (fadd (fadd (fmul (n41 a) (n13 b)) (fmul (n42 a) (n23 b))) (fmul (n43 a) (n33 b))) (fmul (n44 a) (n43 b)),
      n44 = fadd (fadd (fadd (fmul (n41 a) (n14 b)) (fmul (n42 a) (n24 b))) (fmul (n43 a) (n34 b))) (fmul (n44 a) (n44 b))\<rparr>"

text \<open>
  \<^verbatim>\<open>Matrix4.invert()\<close>, by cofactors: \<open>t11\<close> is
  \<^verbatim>\<open>n23 * n34 * n42 - n24 * n33 * n42 + n24 * n32 * n43 - n22 * n34 * n43 - n23 * n32 * n44 + n22 * n33 * n44\<close>
  in the source, and so on; each line below is one product of the source, in its order.
\<close>

definition D_invertMatrix :: "Matrix4 \<Rightarrow> Matrix4" where
  "D_invertMatrix m =
     (let t11 =
            fadd (fsub (fsub (fadd (fsub
              (fmul (fmul (n23 m) (n34 m)) (n42 m))
              (fmul (fmul (n24 m) (n33 m)) (n42 m)))
              (fmul (fmul (n24 m) (n32 m)) (n43 m)))
              (fmul (fmul (n22 m) (n34 m)) (n43 m)))
              (fmul (fmul (n23 m) (n32 m)) (n44 m)))
              (fmul (fmul (n22 m) (n33 m)) (n44 m));
          t12 =
            fsub (fadd (fadd (fsub (fsub
              (fmul (fmul (n14 m) (n33 m)) (n42 m))
              (fmul (fmul (n13 m) (n34 m)) (n42 m)))
              (fmul (fmul (n14 m) (n32 m)) (n43 m)))
              (fmul (fmul (n12 m) (n34 m)) (n43 m)))
              (fmul (fmul (n13 m) (n32 m)) (n44 m)))
              (fmul (fmul (n12 m) (n33 m)) (n44 m));
          t13 =
            fadd (fsub (fsub (fadd (fsub
              (fmul (fmul (n13 m) (n24 m)) (n42 m))
              (fmul (fmul (n14 m) (n23 m)) (n42 m)))
              (fmul (fmul (n14 m) (n22 m)) (n43 m)))
              (fmul (fmul (n12 m) (n24 m)) (n43 m)))
              (fmul (fmul (n13 m) (n22 m)) (n44 m)))
              (fmul (fmul (n12 m) (n23 m)) (n44 m));
          t14 =
            fsub (fadd (fadd (fsub (fsub
              (fmul (fmul (n14 m) (n23 m)) (n32 m))
              (fmul (fmul (n13 m) (n24 m)) (n32 m)))
              (fmul (fmul (n14 m) (n22 m)) (n33 m)))
              (fmul (fmul (n12 m) (n24 m)) (n33 m)))
              (fmul (fmul (n13 m) (n22 m)) (n34 m)))
              (fmul (fmul (n12 m) (n23 m)) (n34 m));
          det = fadd (fadd (fadd (fmul (n11 m) t11) (fmul (n21 m) t12)) (fmul (n31 m) t13)) (fmul (n41 m) t14)
      in if det = 0 then D_zero
         else (let detInv = fdiv 1 det
               in \<lparr>n11 = fmul t11 detInv,
                   n12 = fmul t12 detInv,
                   n13 = fmul t13 detInv,
                   n14 = fmul t14 detInv,
                   n21 = fmul
                     (fsub (fadd (fadd (fsub (fsub
                        (fmul (fmul (n24 m) (n33 m)) (n41 m))
                        (fmul (fmul (n23 m) (n34 m)) (n41 m)))
                        (fmul (fmul (n24 m) (n31 m)) (n43 m)))
                        (fmul (fmul (n21 m) (n34 m)) (n43 m)))
                        (fmul (fmul (n23 m) (n31 m)) (n44 m)))
                        (fmul (fmul (n21 m) (n33 m)) (n44 m)))
                     detInv,
                   n22 = fmul
                     (fadd (fsub (fsub (fadd (fsub
                        (fmul (fmul (n13 m) (n34 m)) (n41 m))
                        (fmul (fmul (n14 m) (n33 m)) (n41 m)))
                        (fmul (fmul (n14 m) (n31 m)) (n43 m)))
                        (fmul (fmul (n11 m) (n34 m)) (n43 m)))
                        (fmul (fmul (n13 m) (n31 m)) (n44 m)))
                        (fmul (fmul (n11 m) (n33 m)) (n44 m)))
                     detInv,
                   n23 = fmul
                     (fsub (fadd (fadd (fsub (fsub
                        (fmul (fmul (n14 m) (n23 m)) (n41 m))
                        (fmul (fmul (n13 m) (n24 m)) (n41 m)))
                        (fmul (fmul (n14 m) (n21 m)) (n43 m)))
                        (fmul (fmul (n11 m) (n24 m)) (n43 m)))
                        (fmul (fmul (n13 m) (n21 m)) (n44 m)))
                        (fmul (fmul (n11 m) (n23 m)) (n44 m)))
                     detInv,
                   n24 = fmul
                     (fadd (fsub (fsub (fadd (fsub
                        (fmul (fmul (n13 m) (n24 m)) (n31 m))
                        (fmul (fmul (n14 m) (n23 m)) (n31 m)))
                        (fmul (fmul (n14 m) (n21 m)) (n33 m)))
                        (fmul (fmul (n11 m) (n24 m)) (n33 m)))
                        (fmul (fmul (n13 m) (n21 m)) (n34 m)))
                        (fmul (fmul (n11 m) (n23 m)) (n34 m)))
                     detInv,
                   n31 = fmul
                     (fadd (fsub (fsub (fadd (fsub
                        (fmul (fmul (n22 m) (n34 m)) (n41 m))
                        (fmul (fmul (n24 m) (n32 m)) (n41 m)))
                        (fmul (fmul (n24 m) (n31 m)) (n42 m)))
                        (fmul (fmul (n21 m) (n34 m)) (n42 m)))
                        (fmul (fmul (n22 m) (n31 m)) (n44 m)))
                        (fmul (fmul (n21 m) (n32 m)) (n44 m)))
                     detInv,
                   n32 = fmul
                     (fsub (fadd (fadd (fsub (fsub
                        (fmul (fmul (n14 m) (n32 m)) (n41 m))
                        (fmul (fmul (n12 m) (n34 m)) (n41 m)))
                        (fmul (fmul (n14 m) (n31 m)) (n42 m)))
                        (fmul (fmul (n11 m) (n34 m)) (n42 m)))
                        (fmul (fmul (n12 m) (n31 m)) (n44 m)))
                        (fmul (fmul (n11 m) (n32 m)) (n44 m)))
                     detInv,
                   n33 = fmul
                     (fadd (fsub (fsub (fadd (fsub
                        (fmul (fmul (n12 m) (n24 m)) (n41 m))
                        (fmul (fmul (n14 m) (n22 m)) (n41 m)))
                        (fmul (fmul (n14 m) (n21 m)) (n42 m)))
                        (fmul (fmul (n11 m) (n24 m)) (n42 m)))
                        (fmul (fmul (n12 m) (n21 m)) (n44 m)))
                        (fmul (fmul (n11 m) (n22 m)) (n44 m)))
                     detInv,
                   n34 = fmul
                     (fsub (fadd (fadd (fsub (fsub
                        (fmul (fmul (n14 m) (n22 m)) (n31 m))
                        (fmul (fmul (n12 m) (n24 m)) (n31 m)))
                        (fmul (fmul (n14 m) (n21 m)) (n32 m)))
                        (fmul (fmul (n11 m) (n24 m)) (n32 m)))
                        (fmul (fmul (n12 m) (n21 m)) (n34 m)))
                        (fmul (fmul (n11 m) (n22 m)) (n34 m)))
                     detInv,
                   n41 = fmul
                     (fsub (fadd (fadd (fsub (fsub
                        (fmul (fmul (n23 m) (n32 m)) (n41 m))
                        (fmul (fmul (n22 m) (n33 m)) (n41 m)))
                        (fmul (fmul (n23 m) (n31 m)) (n42 m)))
                        (fmul (fmul (n21 m) (n33 m)) (n42 m)))
                        (fmul (fmul (n22 m) (n31 m)) (n43 m)))
                        (fmul (fmul (n21 m) (n32 m)) (n43 m)))
                     detInv,
                   n42 = fmul
                     (fadd (fsub (fsub (fadd (fsub
                        (fmul (fmul (n12 m) (n33 m)) (n41 m))
                        (fmul (fmul (n13 m) (n32 m)) (n41 m)))
                        (fmul (fmul (n13 m) (n31 m)) (n42 m)))
                        (fmul (fmul (n11 m) (n33 m)) (n42 m)))
                        (fmul (fmul (n12 m) (n31 m)) (n43 m)))
                        (fmul (fmul (n11 m) (n32 m)) (n43 m)))
                     detInv,
                   n43 = fmul
                     (fsub (fadd (fadd (fsub (fsub
                        (fmul (fmul (n13 m) (n22 m)) (n41 m))
                        (fmul (fmul (n12 m) (n23 m)) (n41 m)))
                        (fmul (fmul (n13 m) (n21 m)) (n42 m)))
                        (fmul (fmul (n11 m) (n23 m)) (n42 m)))
                        (fmul (fmul (n12 m) (n21 m)) (n43 m)))
                        (fmul (fmul (n11 m) (n22 m)) (n43 m)))
                     detInv,
                   n44 = fmul
                     (fadd (fsub (fsub (fadd (fsub
                        (fmul (fmul (n12 m) (n23 m)) (n31 m))
                        (fmul (fmul (n13 m) (n22 m)) (n31 m)))
                        (fmul (fmul (n13 m) (n21 m)) (n32 m)))
                        (fmul (fmul (n11 m) (n23 m)) (n32 m)))
                        (fmul (fmul (n12 m) (n21 m)) (n33 m)))
                        (fmul (fmul (n11 m) (n22 m)) (n33 m)))
                     detInv\<rparr>))"

text \<open>\<^verbatim>\<open>Vector3.applyMatrix4(m)\<close>, with the perspective divide.\<close>

definition D_applyMatrix4 :: "Vector3 \<Rightarrow> Matrix4 \<Rightarrow> Vector3" where
  "D_applyMatrix4 v m =
     (let w = fdiv 1 (fadd (fadd (fadd (fmul (n41 m) (vx v)) (fmul (n42 m) (vy v))) (fmul (n43 m) (vz v))) (n44 m))
      in \<lparr>vx = fmul (fadd (fadd (fadd (fmul (n11 m) (vx v)) (fmul (n12 m) (vy v))) (fmul (n13 m) (vz v))) (n14 m)) w,
          vy = fmul (fadd (fadd (fadd (fmul (n21 m) (vx v)) (fmul (n22 m) (vy v))) (fmul (n23 m) (vz v))) (n24 m)) w,
          vz = fmul (fadd (fadd (fadd (fmul (n31 m) (vx v)) (fmul (n32 m) (vy v))) (fmul (n33 m) (vz v))) (n34 m)) w\<rparr>)"

definition D_length :: "Vector3 \<Rightarrow> real" where
  "D_length v = fsqrt (fadd (fadd (fmul (vx v) (vx v)) (fmul (vy v) (vy v))) (fmul (vz v) (vz v)))"

text \<open>\<^verbatim>\<open>divideScalar(this.length() || 1)\<close>, which is \<^verbatim>\<open>multiplyScalar(1 / scalar)\<close>.\<close>

definition D_normalize :: "Vector3 \<Rightarrow> Vector3" where
  "D_normalize v =
     (let s = fdiv 1 (if D_length v = 0 then 1 else D_length v)
      in \<lparr>vx = fmul (vx v) s, vy = fmul (vy v) s, vz = fmul (vz v) s\<rparr>)"

definition D_applyQuaternion :: "Vector3 \<Rightarrow> Quaternion \<Rightarrow> Vector3" where
  "D_applyQuaternion v q =
     (let tx = fmul 2 (fsub (fmul (qy q) (vz v)) (fmul (qz q) (vy v)));
          ty = fmul 2 (fsub (fmul (qz q) (vx v)) (fmul (qx q) (vz v)));
          tz = fmul 2 (fsub (fmul (qx q) (vy v)) (fmul (qy q) (vx v)))
      in \<lparr>vx = fsub (fadd (fadd (vx v) (fmul (qw q) tx)) (fmul (qy q) tz)) (fmul (qz q) ty),
          vy = fsub (fadd (fadd (vy v) (fmul (qw q) ty)) (fmul (qz q) tx)) (fmul (qx q) tz),
          vz = fsub (fadd (fadd (vz v) (fmul (qw q) tz)) (fmul (qx q) ty)) (fmul (qy q) tx)\<rparr>)"

definition D_multiply :: "Quaternion \<Rightarrow> Quaternion \<Rightarrow> Quaternion" where
  "D_multiply a b =
     \<lparr>qx = fsub (fadd (fadd (fmul (qx a) (qw b)) (fmul (qw a) (qx b))) (fmul (qy a) (qz b))) (fmul (qz a) (qy b)),
      qy = fsub (fadd (fadd (fmul (qy a) (qw b)) (fmul (qw a) (qy b))) (fmul (qz a) (qx b))) (fmul (qx a) (qz b)),
      qz = fsub (fadd (fadd (fmul (qz a) (qw b)) (fmul (qw a) (qz b))) (fmul (qx a) (qy b))) (fmul (qy a) (qx b)),
      qw = fsub (fsub (fsub (fmul (qw a) (qw b)) (fmul (qx a) (qx b))) (fmul (qy a) (qy b))) (fmul (qz a) (qz b))\<rparr>"

text \<open>\<^verbatim>\<open>Quaternion.invert()\<close> is the conjugate; a negation is exact.\<close>

definition D_invert :: "Quaternion \<Rightarrow> Quaternion" where
  "D_invert q = \<lparr>qx = - qx q, qy = - qy q, qz = - qz q, qw = qw q\<rparr>"

definition D_qnormalize :: "Quaternion \<Rightarrow> Quaternion" where
  "D_qnormalize q =
     (let l = fsqrt (fadd (fadd (fadd (fmul (qx q) (qx q)) (fmul (qy q) (qy q))) (fmul (qz q) (qz q))) (fmul (qw q) (qw q)))
      in if l = 0 then \<lparr>qx = 0, qy = 0, qz = 0, qw = 1\<rparr>
         else (let l1 = fdiv 1 l
               in \<lparr>qx = fmul (qx q) l1, qy = fmul (qy q) l1, qz = fmul (qz q) l1, qw = fmul (qw q) l1\<rparr>))"

definition D_setFromUnitVectors :: "Vector3 \<Rightarrow> Vector3 \<Rightarrow> Quaternion" where
  "D_setFromUnitVectors vFrom vTo =
     (let r = fadd (fadd (fadd (fmul (vx vFrom) (vx vTo)) (fmul (vy vFrom) (vy vTo))) (fmul (vz vFrom) (vz vTo))) 1
      in D_qnormalize
           (if r < Number_EPSILON
            then (if \<bar>vx vFrom\<bar> > \<bar>vz vFrom\<bar>
                  then \<lparr>qx = - vy vFrom, qy = vx vFrom, qz = 0, qw = 0\<rparr>
                  else \<lparr>qx = 0, qy = - vz vFrom, qz = vy vFrom, qw = 0\<rparr>)
            else \<lparr>qx = fsub (fmul (vy vFrom) (vz vTo)) (fmul (vz vFrom) (vy vTo)),
                  qy = fsub (fmul (vz vFrom) (vx vTo)) (fmul (vx vFrom) (vz vTo)),
                  qz = fsub (fmul (vx vFrom) (vy vTo)) (fmul (vy vFrom) (vx vTo)),
                  qw = r\<rparr>))"

definition D_setFromAxisAngle :: "Vector3 \<Rightarrow> real \<Rightarrow> Quaternion" where
  "D_setFromAxisAngle a angle =
     (let halfAngle = fdiv angle 2;
          s = fsin halfAngle
      in \<lparr>qx = fmul (vx a) s, qy = fmul (vy a) s, qz = fmul (vz a) s, qw = fcos halfAngle\<rparr>)"

definition D_setFromEuler :: "Euler \<Rightarrow> Quaternion" where
  "D_setFromEuler E =
     (let c1 = fcos (fdiv (ex E) 2); c2 = fcos (fdiv (ey E) 2); c3 = fcos (fdiv (ez E) 2);
          s1 = fsin (fdiv (ex E) 2); s2 = fsin (fdiv (ey E) 2); s3 = fsin (fdiv (ez E) 2)
      in if order E = ''XYZ'' then
           \<lparr>qx = fadd (fmul (fmul s1 c2) c3) (fmul (fmul c1 s2) s3),
            qy = fsub (fmul (fmul c1 s2) c3) (fmul (fmul s1 c2) s3),
            qz = fadd (fmul (fmul c1 c2) s3) (fmul (fmul s1 s2) c3),
            qw = fsub (fmul (fmul c1 c2) c3) (fmul (fmul s1 s2) s3)\<rparr>
         else if order E = ''YXZ'' then
           \<lparr>qx = fadd (fmul (fmul s1 c2) c3) (fmul (fmul c1 s2) s3),
            qy = fsub (fmul (fmul c1 s2) c3) (fmul (fmul s1 c2) s3),
            qz = fsub (fmul (fmul c1 c2) s3) (fmul (fmul s1 s2) c3),
            qw = fadd (fmul (fmul c1 c2) c3) (fmul (fmul s1 s2) s3)\<rparr>
         else if order E = ''ZXY'' then
           \<lparr>qx = fsub (fmul (fmul s1 c2) c3) (fmul (fmul c1 s2) s3),
            qy = fadd (fmul (fmul c1 s2) c3) (fmul (fmul s1 c2) s3),
            qz = fadd (fmul (fmul c1 c2) s3) (fmul (fmul s1 s2) c3),
            qw = fsub (fmul (fmul c1 c2) c3) (fmul (fmul s1 s2) s3)\<rparr>
         else if order E = ''ZYX'' then
           \<lparr>qx = fsub (fmul (fmul s1 c2) c3) (fmul (fmul c1 s2) s3),
            qy = fadd (fmul (fmul c1 s2) c3) (fmul (fmul s1 c2) s3),
            qz = fsub (fmul (fmul c1 c2) s3) (fmul (fmul s1 s2) c3),
            qw = fadd (fmul (fmul c1 c2) c3) (fmul (fmul s1 s2) s3)\<rparr>
         else if order E = ''YZX'' then
           \<lparr>qx = fadd (fmul (fmul s1 c2) c3) (fmul (fmul c1 s2) s3),
            qy = fadd (fmul (fmul c1 s2) c3) (fmul (fmul s1 c2) s3),
            qz = fsub (fmul (fmul c1 c2) s3) (fmul (fmul s1 s2) c3),
            qw = fsub (fmul (fmul c1 c2) c3) (fmul (fmul s1 s2) s3)\<rparr>
         else if order E = ''XZY'' then
           \<lparr>qx = fsub (fmul (fmul s1 c2) c3) (fmul (fmul c1 s2) s3),
            qy = fsub (fmul (fmul c1 s2) c3) (fmul (fmul s1 c2) s3),
            qz = fadd (fmul (fmul c1 c2) s3) (fmul (fmul s1 s2) c3),
            qw = fadd (fmul (fmul c1 c2) c3) (fmul (fmul s1 s2) s3)\<rparr>
         else \<lparr>qx = 0, qy = 0, qz = 0, qw = 1\<rparr>)"

text \<open>
  \<^verbatim>\<open>Euler.setFromQuaternion\<close>: the rotation matrix of the quaternion
  (\<^verbatim>\<open>makeRotationFromQuaternion\<close>, a \<^verbatim>\<open>compose\<close>), then \<^verbatim>\<open>setFromRotationMatrix\<close> in the order the Euler
  object has.
\<close>

definition D_eulerFromQuaternion :: "Euler \<Rightarrow> Quaternion \<Rightarrow> Euler" where
  "D_eulerFromQuaternion E q =
     (let m = D_compose \<lparr>vx = 0, vy = 0, vz = 0\<rparr> q \<lparr>vx = 1, vy = 1, vz = 1\<rparr>;
          m11 = n11 m; m12 = n12 m; m13 = n13 m;
          m21 = n21 m; m22 = n22 m; m23 = n23 m;
          m31 = n31 m; m32 = n32 m; m33 = n33 m;
          lim = rnd (9999999 / 10000000)
      in if order E = ''XYZ'' then
           (if \<bar>m13\<bar> < lim
            then E\<lparr>ex := fatan2 (- m23) m33, ey := fasin (clamp1 m13), ez := fatan2 (- m12) m11\<rparr>
            else E\<lparr>ex := fatan2 m32 m22, ey := fasin (clamp1 m13), ez := 0\<rparr>)
         else if order E = ''YXZ'' then
           (if \<bar>m23\<bar> < lim
            then E\<lparr>ex := fasin (- clamp1 m23), ey := fatan2 m13 m33, ez := fatan2 m21 m22\<rparr>
            else E\<lparr>ex := fasin (- clamp1 m23), ey := fatan2 (- m31) m11, ez := 0\<rparr>)
         else if order E = ''ZXY'' then
           (if \<bar>m32\<bar> < lim
            then E\<lparr>ex := fasin (clamp1 m32), ey := fatan2 (- m31) m33, ez := fatan2 (- m12) m22\<rparr>
            else E\<lparr>ex := fasin (clamp1 m32), ey := 0, ez := fatan2 m21 m11\<rparr>)
         else if order E = ''ZYX'' then
           (if \<bar>m31\<bar> < lim
            then E\<lparr>ex := fatan2 m32 m33, ey := fasin (- clamp1 m31), ez := fatan2 m21 m11\<rparr>
            else E\<lparr>ex := 0, ey := fasin (- clamp1 m31), ez := fatan2 (- m12) m22\<rparr>)
         else if order E = ''YZX'' then
           (if \<bar>m21\<bar> < lim
            then E\<lparr>ex := fatan2 (- m23) m22, ey := fatan2 (- m31) m11, ez := fasin (clamp1 m21)\<rparr>
            else E\<lparr>ex := 0, ey := fatan2 m13 m33, ez := fasin (clamp1 m21)\<rparr>)
         else if order E = ''XZY'' then
           (if \<bar>m12\<bar> < lim
            then E\<lparr>ex := fatan2 m32 m22, ey := fatan2 m13 m11, ez := fasin (- clamp1 m12)\<rparr>
            else E\<lparr>ex := fatan2 (- m23) m33, ey := 0, ez := fasin (- clamp1 m12)\<rparr>)
         else E)"

text \<open>
  \<^verbatim>\<open>updateMatrix\<close> composes the local matrix of a joint, and its world matrix is the product
  of its parent's world matrix and that. \<open>D_refresh P js\<close> does so down the joints \<open>js\<close>, from
  the world matrix \<open>P\<close> of the parent of the first.
\<close>

fun D_refresh :: "Matrix4 \<Rightarrow> IKJoint list \<Rightarrow> Matrix4 list" where
  "D_refresh P [] = []"
| "D_refresh P (j # js) =
     D_multiplyMatrices P (D_compose (position j) (quaternion j) \<lparr>vx = 1, vy = 1, vz = 1\<rparr>)
       # D_refresh (D_multiplyMatrices P (D_compose (position j) (quaternion j) \<lparr>vx = 1, vy = 1, vz = 1\<rparr>)) js"

text \<open>\<^verbatim>\<open>updateMatrixWorld\<close> recomputes the joint and everything below it.\<close>

definition D_updateMatrixWorld :: "Matrix4 list \<Rightarrow> IKJoint list \<Rightarrow> nat \<Rightarrow> Matrix4 list" where
  "D_updateMatrixWorld w js i =
     take i w @ D_refresh (if i = 0 then D_identity else w ! (i - 1)) (drop i js)"

text \<open>\<^verbatim>\<open>updateWorldMatrix(true, false)\<close> recomputes the ancestors from the top, then the joint.\<close>

definition D_updateWorldMatrix :: "Matrix4 list \<Rightarrow> IKJoint list \<Rightarrow> nat \<Rightarrow> Matrix4 list" where
  "D_updateWorldMatrix w js i = D_refresh D_identity (take (Suc i) js) @ drop (Suc i) w"

text \<open>
  \<^verbatim>\<open>worldToLocal(v)\<close>: \<^verbatim>\<open>updateWorldMatrix(true, false)\<close>, then \<open>v\<close> through the inverse of the
  joint's world matrix.
\<close>

definition D_worldToLocal :: "Matrix4 list \<Rightarrow> IKJoint list \<Rightarrow> nat \<Rightarrow> Vector3 \<Rightarrow> Vector3 \<times> Matrix4 list" where
  "D_worldToLocal w js i v =
     (let w' = D_updateWorldMatrix w js i
      in (D_applyMatrix4 v (D_invertMatrix (w' ! i)), w'))"

definition D_setFromMatrixPosition :: "Matrix4 list \<Rightarrow> nat \<Rightarrow> Vector3" where
  "D_setFromMatrixPosition w i = \<lparr>vx = n14 (w ! i), vy = n24 (w ! i), vz = n34 (w ! i)\<rparr>"

definition three_doubles :: "(Matrix4 list) three" where
  "three_doubles =
     \<lparr>Object3D_worldToLocal = D_worldToLocal,
      Object3D_updateWorldMatrix = D_updateWorldMatrix,
      Object3D_updateMatrixWorld = D_updateMatrixWorld,
      Vector3_setFromMatrixPosition = D_setFromMatrixPosition,
      Vector3_normalize = D_normalize,
      Vector3_length = D_length,
      Vector3_applyQuaternion = D_applyQuaternion,
      Quaternion_setFromUnitVectors = D_setFromUnitVectors,
      Quaternion_multiply = D_multiply,
      Quaternion_invert = D_invert,
      Quaternion_setFromAxisAngle = D_setFromAxisAngle,
      Quaternion_setFromEuler = D_setFromEuler,
      Euler_setFromQuaternion = D_eulerFromQuaternion\<rparr>"

section \<open>Concrete joints, descriptions and scenes\<close>

text \<open>
  A continuous joint about the unit axis \<open>(3/5, 4/5, 0)\<close>, turned half a turn about x: the
  quaternion and the axis are both of length 1.
\<close>

definition j_skew :: IKJoint where
  "j_skew =
     \<lparr>urdfJoint = Some \<lparr>u_jointType = ''continuous'', u_axis = Some \<lparr>vx = 3 / 5, vy = 4 / 5, vz = 0\<rparr>,
         u_limit = Some \<lparr>lower = - 1, upper = 1\<rparr>, u_position = \<lparr>vx = 0, vy = 0, vz = 1\<rparr>,
         u_rotation = \<lparr>ex = pi, ey = 0, ez = 0, order = ''XYZ''\<rparr>,
         u_quaternion = \<lparr>qx = 1, qy = 0, qz = 0, qw = 0\<rparr>\<rparr>,
      position = \<lparr>vx = 0, vy = 0, vz = 1\<rparr>, quaternion = \<lparr>qx = 1, qy = 0, qz = 0, qw = 0\<rparr>\<rparr>"

text \<open>A hinge about y with the limit \<open>[1, 2]\<close>, not turned.\<close>

definition j_hinge :: IKJoint where
  "j_hinge =
     \<lparr>urdfJoint = Some \<lparr>u_jointType = ''revolute'', u_axis = Some \<lparr>vx = 0, vy = 1, vz = 0\<rparr>,
         u_limit = Some \<lparr>lower = 1, upper = 2\<rparr>, u_position = \<lparr>vx = 0, vy = 0, vz = 1\<rparr>,
         u_rotation = \<lparr>ex = 0, ey = 0, ez = 0, order = ''XYZ''\<rparr>,
         u_quaternion = \<lparr>qx = 0, qy = 0, qz = 0, qw = 1\<rparr>\<rparr>,
      position = \<lparr>vx = 0, vy = 0, vz = 1\<rparr>, quaternion = \<lparr>qx = 0, qy = 0, qz = 0, qw = 1\<rparr>\<rparr>"

text \<open>
  Three joint descriptions: a fixed joint at the origin of its parent, a hinge about y one
  unit along z with the limit \<open>[-1, 1]\<close>, and a hinge whose axis is the zero vector.
\<close>

definition u_fixed :: URDFJoint where
  "u_fixed =
     \<lparr>u_jointType = ''fixed'', u_axis = Some \<lparr>vx = 1, vy = 0, vz = 0\<rparr>,
      u_limit = Some \<lparr>lower = 0, upper = 0\<rparr>, u_position = \<lparr>vx = 0, vy = 0, vz = 0\<rparr>,
      u_rotation = \<lparr>ex = 0, ey = 0, ez = 0, order = ''XYZ''\<rparr>,
      u_quaternion = \<lparr>qx = 0, qy = 0, qz = 0, qw = 1\<rparr>\<rparr>"

definition u_hinge :: URDFJoint where
  "u_hinge =
     \<lparr>u_jointType = ''revolute'', u_axis = Some \<lparr>vx = 0, vy = 1, vz = 0\<rparr>,
      u_limit = Some \<lparr>lower = - 1, upper = 1\<rparr>, u_position = \<lparr>vx = 0, vy = 0, vz = 1\<rparr>,
      u_rotation = \<lparr>ex = 0, ey = 0, ez = 0, order = ''XYZ''\<rparr>,
      u_quaternion = \<lparr>qx = 0, qy = 0, qz = 0, qw = 1\<rparr>\<rparr>"

definition u_zero :: URDFJoint where
  "u_zero =
     \<lparr>u_jointType = ''revolute'', u_axis = Some \<lparr>vx = 0, vy = 0, vz = 0\<rparr>,
      u_limit = Some \<lparr>lower = - 1, upper = 1\<rparr>, u_position = \<lparr>vx = 0, vy = 0, vz = 1\<rparr>,
      u_rotation = \<lparr>ex = 0, ey = 0, ez = 0, order = ''XYZ''\<rparr>,
      u_quaternion = \<lparr>qx = 0, qy = 0, qz = 0, qw = 1\<rparr>\<rparr>"

text \<open>
  A joint of the description has its child link as its first child, and the joints that the
  link carries are children of the link. \<open>arm_robot\<close> is a straight arm: the fixed joint, then
  the hinge. In \<open>fork_robot\<close> the base link carries two joints that each lead on to a further
  joint, and the first link carries two joints as well. \<open>flat_robot\<close> is the straight arm with
  the zero-axis hinge at its end.
\<close>

definition arm_robot :: Object3D where
  "arm_robot =
     Object3D None
       [Object3D (Some u_fixed) [Object3D None [Object3D (Some u_hinge) [Object3D None []]]]]"

definition fork_robot :: Object3D where
  "fork_robot =
     Object3D None
       [Object3D (Some u_fixed)
          [Object3D None [Object3D (Some u_hinge) [Object3D None []],
                          Object3D (Some u_zero) [Object3D None []]]],
        Object3D (Some u_hinge)
          [Object3D None [Object3D (Some u_fixed) [Object3D None []]]]]"

definition flat_robot :: Object3D where
  "flat_robot =
     Object3D None
       [Object3D (Some u_fixed) [Object3D None [Object3D (Some u_zero) [Object3D None []]]]]"

text \<open>
  \<open>stub_robot\<close> is the straight arm with one more joint ahead of it under the robot, a joint
  that has no child link. \<open>built robot\<close> is the chain object after
  \<^verbatim>\<open>new IKChain().createFromURDF(robot)\<close>, and \<open>read_then_built robot\<close> the one after a read of
  \<^verbatim>\<open>ikJoints\<close> on the new chain and then the build.
\<close>

definition stub_robot :: Object3D where
  "stub_robot =
     Object3D None
       [Object3D (Some u_hinge) [],
        Object3D (Some u_fixed) [Object3D None [Object3D (Some u_hinge) [Object3D None []]]]]"

definition built :: "Object3D \<Rightarrow> IKChain_object" where
  "built robot = snd (createFromURDF three_reals robot (new_IKChain three_reals))"

definition read_then_built :: "Object3D \<Rightarrow> IKChain_object" where
  "read_then_built robot =
     snd (createFromURDF three_reals robot (snd (get_ikJoints (new_IKChain three_reals))))"

definition arm_chain :: IKChain where
  "arm_chain =
     \<lparr>ikJoints =
        [\<lparr>urdfJoint = None, position = \<lparr>vx = 0, vy = 0, vz = 0\<rparr>,
          quaternion = \<lparr>qx = 0, qy = 0, qz = 0, qw = 1\<rparr>\<rparr>,
         \<lparr>urdfJoint = Some u_fixed, position = \<lparr>vx = 0, vy = 0, vz = 0\<rparr>,
          quaternion = \<lparr>qx = 0, qy = 0, qz = 0, qw = 1\<rparr>\<rparr>,
         \<lparr>urdfJoint = Some u_hinge, position = \<lparr>vx = 0, vy = 0, vz = 1\<rparr>,
          quaternion = \<lparr>qx = 0, qy = 0, qz = 0, qw = 1\<rparr>\<rparr>],
      endEffector = Some 2\<rparr>"

text \<open>The root joint of \<open>arm_chain\<close>.\<close>

definition arm_root :: IKJoint where
  "arm_root = \<lparr>urdfJoint = None, position = \<lparr>vx = 0, vy = 0, vz = 0\<rparr>,
          quaternion = \<lparr>qx = 0, qy = 0, qz = 0, qw = 1\<rparr>\<rparr>"

definition flat_chain :: IKChain where
  "flat_chain =
     \<lparr>ikJoints =
        [\<lparr>urdfJoint = None, position = \<lparr>vx = 0, vy = 0, vz = 0\<rparr>,
          quaternion = \<lparr>qx = 0, qy = 0, qz = 0, qw = 1\<rparr>\<rparr>,
         \<lparr>urdfJoint = Some u_fixed, position = \<lparr>vx = 0, vy = 0, vz = 0\<rparr>,
          quaternion = \<lparr>qx = 0, qy = 0, qz = 0, qw = 1\<rparr>\<rparr>,
         \<lparr>urdfJoint = Some u_zero, position = \<lparr>vx = 0, vy = 0, vz = 1\<rparr>,
          quaternion = \<lparr>qx = 0, qy = 0, qz = 0, qw = 1\<rparr>\<rparr>],
      endEffector = Some 2\<rparr>"

text \<open>
  The world poses of the three joints of \<open>arm_chain\<close> as built, and two scenes that hold them:
  in \<open>far_scene\<close> the vector at address 0 is the point \<open>(0, 0, 5)\<close>, four units beyond the
  end effector; in \<open>near_scene\<close> it is the end effector's own position \<open>(0, 0, 1)\<close>.
\<close>

definition arm_poses :: "pose list" where
  "arm_poses =
     [(\<lparr>qx = 0, qy = 0, qz = 0, qw = 1\<rparr>, \<lparr>vx = 0, vy = 0, vz = 0\<rparr>),
      (\<lparr>qx = 0, qy = 0, qz = 0, qw = 1\<rparr>, \<lparr>vx = 0, vy = 0, vz = 0\<rparr>),
      (\<lparr>qx = 0, qy = 0, qz = 0, qw = 1\<rparr>, \<lparr>vx = 0, vy = 0, vz = 1\<rparr>)]"

definition far_scene :: "(pose list) scene" where
  "far_scene = \<lparr>matrixWorld = arm_poses, vectors = [\<lparr>vx = 0, vy = 0, vz = 5\<rparr>]\<rparr>"

definition near_scene :: "(pose list) scene" where
  "near_scene = \<lparr>matrixWorld = arm_poses, vectors = [\<lparr>vx = 0, vy = 0, vz = 1\<rparr>]\<rparr>"

definition default_config :: IKConfig where
  "default_config = \<lparr>tolerance = 1 / 100, maxIterations = 10, updateURDFRobot = False\<rparr>"

text \<open>
  \<open>behind_scene\<close> is the scene at the head of the solver's loop when the target is the point
  \<open>(0, 0, -5)\<close>, straight behind the arm: the target at address 0, the clone the first distance
  was measured on, and the two scratch vectors at addresses 2 and 3. \<open>root_aimed\<close> is the root
  joint turned half a turn about its axis.
\<close>

definition behind_scene :: "(pose list) scene" where
  "behind_scene = \<lparr>matrixWorld = arm_poses,
     vectors = [\<lparr>vx = 0, vy = 0, vz = - 5\<rparr>, \<lparr>vx = 0, vy = 0, vz = - 6\<rparr>,
                \<lparr>vx = 0, vy = 0, vz = 0\<rparr>, \<lparr>vx = 0, vy = 0, vz = 0\<rparr>]\<rparr>"

definition root_aimed :: IKJoint where
  "root_aimed = arm_root\<lparr>quaternion := \<lparr>qx = 0, qy = - 1, qz = 0, qw = 0\<rparr>\<rparr>"

text \<open>
  A chain for a run in double precision: the root joint, a hinge about x at the origin of
  the root, and a fixed joint one unit along z as the end effector. The hinge has the limit
  \<open>[0, 0]\<close> and is turned: its quaternion is that of the rotation by 0.7 about x in doubles,
  \<open>(sin 0.35, 0, 0, cos 0.35)\<close>. \<open>tilt_target\<close> is the world position of the end effector
  then, and \<open>tilt_scene\<close> holds it at address 0, with the world matrices as three.js makes
  them with a new object. \<open>tilt_config\<close> has the tolerance \<open>2 ^ -53\<close>, about \<open>1.1e-16\<close>.
  \<open>tilt_world_0\<close>, \<open>tilt_world_1\<close> and \<open>tilt_world_2\<close> are the world matrices of the three joints
  once refreshed, and \<open>tilt_inverse\<close> is the inverse of the last as \<^verbatim>\<open>invert\<close> computes it.
\<close>

definition u_tilt :: URDFJoint where
  "u_tilt =
     \<lparr>u_jointType = ''revolute'', u_axis = Some \<lparr>vx = 1, vy = 0, vz = 0\<rparr>,
      u_limit = Some \<lparr>lower = 0, upper = 0\<rparr>, u_position = \<lparr>vx = 0, vy = 0, vz = 0\<rparr>,
      u_rotation = \<lparr>ex = 3152519739159347 / 4503599627370496, ey = 0, ez = 0, order = ''XYZ''\<rparr>,
      u_quaternion = \<lparr>qx = 6177097751530123 / 18014398509481984, qy = 0, qz = 0,
                      qw = 8461117199082935 / 9007199254740992\<rparr>\<rparr>"

definition u_tip :: URDFJoint where
  "u_tip =
     \<lparr>u_jointType = ''fixed'', u_axis = Some \<lparr>vx = 1, vy = 0, vz = 0\<rparr>,
      u_limit = Some \<lparr>lower = 0, upper = 0\<rparr>, u_position = \<lparr>vx = 0, vy = 0, vz = 1\<rparr>,
      u_rotation = \<lparr>ex = 0, ey = 0, ez = 0, order = ''XYZ''\<rparr>,
      u_quaternion = \<lparr>qx = 0, qy = 0, qz = 0, qw = 1\<rparr>\<rparr>"

definition tilt_chain :: IKChain where
  "tilt_chain =
     \<lparr>ikJoints =
        [\<lparr>urdfJoint = None, position = \<lparr>vx = 0, vy = 0, vz = 0\<rparr>,
          quaternion = \<lparr>qx = 0, qy = 0, qz = 0, qw = 1\<rparr>\<rparr>,
         \<lparr>urdfJoint = Some u_tilt, position = \<lparr>vx = 0, vy = 0, vz = 0\<rparr>,
          quaternion = \<lparr>qx = 6177097751530123 / 18014398509481984, qy = 0, qz = 0, qw = 8461117199082935 / 9007199254740992\<rparr>\<rparr>,
         \<lparr>urdfJoint = Some u_tip, position = \<lparr>vx = 0, vy = 0, vz = 1\<rparr>,
          quaternion = \<lparr>qx = 0, qy = 0, qz = 0, qw = 1\<rparr>\<rparr>],
      endEffector = Some 2\<rparr>"

definition tilt_target :: Vector3 where
  "tilt_target = \<lparr>vx = 0, vy = - (725324634047287 / 1125899906842624), vz = 3444542989651657 / 4503599627370496\<rparr>"

definition tilt_scene :: "(Matrix4 list) scene" where
  "tilt_scene = \<lparr>matrixWorld = [D_identity, D_identity, D_identity], vectors = [tilt_target]\<rparr>"

definition tilt_config :: IKConfig where
  "tilt_config = \<lparr>tolerance = 1 / 2 ^ 53, maxIterations = 10, updateURDFRobot = False\<rparr>"

definition tilt_world_0 :: Matrix4 where
  "tilt_world_0 =
     \<lparr>n11 = 1, n12 = 0, n13 = 0, n14 = 0,
      n21 = 0, n22 = 1, n23 = 0, n24 = 0,
      n31 = 0, n32 = 0, n33 = 1, n34 = 0,
      n41 = 0, n42 = 0, n43 = 0, n44 = 1\<rparr>"

definition tilt_world_1 :: Matrix4 where
  "tilt_world_1 =
     \<lparr>n11 = 1, n12 = 0, n13 = 0, n14 = 0,
      n21 = 0, n22 = 3444542989651657 / 4503599627370496, n23 = - (725324634047287 / 1125899906842624), n24 = 0,
      n31 = 0, n32 = 725324634047287 / 1125899906842624, n33 = 3444542989651657 / 4503599627370496, n34 = 0,
      n41 = 0, n42 = 0, n43 = 0, n44 = 1\<rparr>"

definition tilt_world_2 :: Matrix4 where
  "tilt_world_2 =
     \<lparr>n11 = 1, n12 = 0, n13 = 0, n14 = 0,
      n21 = 0, n22 = 3444542989651657 / 4503599627370496, n23 = - (725324634047287 / 1125899906842624), n24 = - (725324634047287 / 1125899906842624),
      n31 = 0, n32 = 725324634047287 / 1125899906842624, n33 = 3444542989651657 / 4503599627370496, n34 = 3444542989651657 / 4503599627370496,
      n41 = 0, n42 = 0, n43 = 0, n44 = 1\<rparr>"

definition tilt_inverse :: Matrix4 where
  "tilt_inverse =
     \<lparr>n11 = 1, n12 = 0, n13 = 0, n14 = 0,
      n21 = 0, n22 = 1722271494825829 / 2251799813685248, n23 = 5802597072378297 / 9007199254740992, n24 = 0,
      n31 = 0, n32 = - (5802597072378297 / 9007199254740992), n33 = 1722271494825829 / 2251799813685248, n34 = - 1,
      n41 = 0, n42 = 0, n43 = 0, n44 = 1\<rparr>"


section \<open>Notions used in the statements and proofs\<close>

text \<open>
  These are not functions of the source. \<open>keeps_fixed\<close> relates the joints before and after
  a piece of the solver: the same number of joints, and every fixed joint as it was.
  \<open>keeps_vector\<close> says that the store has only grown and still holds the same vector at
  one address. A chain object is \<open>well_formed\<close> when the tree under its root joint holds no
  joint twice and only joints that the chain has made.
\<close>

definition well_formed :: "IKChain_object \<Rightarrow> bool" where
  "well_formed this =
     (distinct (Object3D_traverse (private_rootJoint this))
      \<and> list_all (\<lambda>a. a < length (joints this)) (Object3D_traverse (private_rootJoint this)))"

definition keeps_fixed :: "IKJoint list \<Rightarrow> IKJoint list \<Rightarrow> bool" where
  "keeps_fixed js js' = (length js' = length js \<and> (\<forall>k. isFixed (js ! k) \<longrightarrow> js' ! k = js ! k))"

definition keeps_vector :: "nat \<Rightarrow> 'w scene \<Rightarrow> 'w scene \<Rightarrow> bool" where
  "keeps_vector a s s' = (length (vectors s) \<le> length (vectors s') \<and> vectors s' ! a = vectors s ! a)"

text \<open>
  The first measurement: the target in the frame of the end effector, with the caches
  after it. The scene at the head of the \<^verbatim>\<open>while\<close> loop has these caches, and its store
  has the clone of the target that was measured on, then the two scratch vectors.
\<close>

definition first_measure :: "'w three \<Rightarrow> IKJoint list \<Rightarrow> nat \<Rightarrow> nat \<Rightarrow> 'w scene \<Rightarrow> Vector3 \<times> 'w" where
  "first_measure T js e t s = Object3D_worldToLocal T (matrixWorld s) js e (vectors s ! t)"

definition loop_start :: "'w three \<Rightarrow> IKJoint list \<Rightarrow> nat \<Rightarrow> nat \<Rightarrow> 'w scene \<Rightarrow> 'w scene" where
  "loop_start T js e t s =
     s\<lparr>matrixWorld := snd (first_measure T js e t s),
       vectors := vectors s @ [fst (first_measure T js e t s),
                               \<lparr>vx = 0, vy = 0, vz = 0\<rparr>, \<lparr>vx = 0, vy = 0, vz = 0\<rparr>]\<rparr>"

text \<open>
  The state and the distance after \<open>k\<close> passes of the loop body from the head of the loop,
  whether or not the loop would have stopped before: what the solver would measure after
  \<open>k\<close> sweeps.
\<close>

definition after_sweeps ::
  "'w three \<Rightarrow> nat \<Rightarrow> nat \<Rightarrow> 'w scene \<Rightarrow> IKJoint list \<Rightarrow> nat \<Rightarrow> (IKJoint list \<times> 'w scene) \<times> real" where
  "after_sweeps T e t s js k =
     ((\<lambda>x. iteration_body T e t (Suc (length (vectors s))) (Suc (Suc (length (vectors s)))) (fst x)) ^^ k)
       ((js, loop_start T js e t s), Vector3_length T (fst (first_measure T js e t s)))"

definition distance_after :: "'w three \<Rightarrow> nat \<Rightarrow> nat \<Rightarrow> 'w scene \<Rightarrow> IKJoint list \<Rightarrow> nat \<Rightarrow> real" where
  "distance_after T e t s js k = snd (after_sweeps T e t s js k)"

section \<open>Lemmas: the angle helpers\<close>

lemma limit_never_None: "limit j \<noteq> None"
  by (simp add: limit_def split: option.splits)

lemma clamp_flag_number: "clampIKJointRotationAngle a l = (c, True) \<Longrightarrow> c \<noteq> None"
  by (auto simp: clampIKJointRotationAngle_def split: if_splits)

lemma root_axisName: "isRootJoint j \<Longrightarrow> axisName j = Some Axis_y \<and> axis j = DEFAULT_AXIS"
  by (simp add: isRootJoint_def axisName_def axis_def DEFAULT_AXIS_def)

lemma arcsin_zero_iff: "\<bar>r\<bar> \<le> 1 \<Longrightarrow> arcsin r = 0 \<longleftrightarrow> r = 0"
  using arcsin_eq_iff [of r 0] by simp

lemma j_hinge_angle: "getIKJointRotationAngle j_hinge = Some 0"
  by (simp add: getIKJointRotationAngle_def asin_argument_def axisName_def axis_def j_hinge_def
      Math_asin_def Quaternion_component_def Vector3_component_def)

section \<open>Lemmas: the solver\<close>

lemma keeps_fixed_refl: "keeps_fixed js js"
  by (simp add: keeps_fixed_def)

lemma keeps_fixed_trans: "keeps_fixed js js' \<Longrightarrow> keeps_fixed js' js'' \<Longrightarrow> keeps_fixed js js''"
  by (auto simp: keeps_fixed_def)

lemma keeps_fixed_update: "\<not> isFixed (js ! i) \<Longrightarrow> keeps_fixed js (js[i := j])"
  by (auto simp: keeps_fixed_def) (metis nth_list_update_neq)

lemma adjustJoint_keeps_fixed: "keeps_fixed (fst st) (fst (adjustJoint T e t w q i st))"
  by (cases st) (auto simp: adjustJoint_def Let_def keeps_fixed_refl keeps_fixed_update split: prod.splits)

lemma sweep_keeps_fixed: "keeps_fixed (fst st) (fst (sweep T e t w q n st))"
proof (induction n arbitrary: st)
  case 0
  show ?case by (simp add: keeps_fixed_refl)
next
  case (Suc n)
  show ?case
    using keeps_fixed_trans [OF adjustJoint_keeps_fixed Suc.IH] by simp
qed

lemma iteration_body_keeps_fixed: "keeps_fixed (fst st) (fst (fst (iteration_body T e t w q st)))"
  using sweep_keeps_fixed [of st T e t w q "length (fst st) - 1"]
  by (auto simp: iteration_body_def Let_def split: prod.splits)

declare CCD_while.simps [simp del]

lemma CCD_while_stop:
  "\<not> (d > tolerance cfg \<and> real it \<le> maxIterations cfg) \<Longrightarrow>
   CCD_while T e t w q cfg (st, d, it) = (st, d, it)"
  by (subst CCD_while.simps) auto

lemma CCD_while_step:
  "d > tolerance cfg \<Longrightarrow> real it \<le> maxIterations cfg \<Longrightarrow> iteration_body T e t w q st = (st', d') \<Longrightarrow>
   CCD_while T e t w q cfg (st, d, it) = CCD_while T e t w q cfg (st', d', Suc it)"
  by (subst CCD_while.simps) auto

lemma CCD_while_keeps_fixed:
  "keeps_fixed (fst (fst x)) (fst (fst (CCD_while T e t w q cfg x)))"
proof (induction T e t w q cfg x rule: CCD_while.induct)
  case (1 T e t w q cfg st d it)
  show ?case
  proof (cases "d > tolerance cfg \<and> real it \<le> maxIterations cfg")
    case False
    then show ?thesis by (simp add: CCD_while_stop keeps_fixed_refl)
  next
    case True
    obtain st' d' where b: "iteration_body T e t w q st = (st', d')"
      by (cases "iteration_body T e t w q st")
    have "keeps_fixed (fst st) (fst st')"
      using iteration_body_keeps_fixed [of st T e t w q] b by simp
    moreover have "keeps_fixed (fst st') (fst (fst (CCD_while T e t w q cfg (st', d', it + 1))))"
      using "1.IH" [OF True b [symmetric] refl] by simp
    ultimately show ?thesis
      using True b by (simp add: CCD_while_step [of cfg d it T e t w q st st' d'] keeps_fixed_trans)
  qed
qed

lemma keeps_vector_refl: "keeps_vector a s s"
  by (simp add: keeps_vector_def)

lemma keeps_vector_trans: "keeps_vector a s s' \<Longrightarrow> keeps_vector a s' s'' \<Longrightarrow> keeps_vector a s s''"
  by (auto simp: keeps_vector_def)

lemma keeps_vector_less: "keeps_vector a s s' \<Longrightarrow> b < length (vectors s) \<Longrightarrow> b < length (vectors s')"
  by (auto simp: keeps_vector_def)

lemma aimJoint_keeps_vector:
  assumes "t < length (vectors s)" and "w \<noteq> t"
  shows "keeps_vector t s (snd (aimJoint T e t w i (js, s)))"
  using assms
  by (simp add: aimJoint_def getWorldPosition_def clone_def new_Vector3_def worldToLocal_def
      normalize_def assign_def Let_def keeps_vector_def nth_append)

lemma axisCorrection_keeps_vector:
  assumes "q \<noteq> t"
  shows "keeps_vector t s (snd (axisCorrection T q (j, s)))"
  using assms by (simp add: axisCorrection_def assign_def Let_def keeps_vector_def)

lemma adjustJoint_keeps_vector:
  assumes "t < length (vectors s)" and "w \<noteq> t" and "q \<noteq> t"
  shows "keeps_vector t s (snd (adjustJoint T e t w q i (js, s)))"
proof -
  obtain j1 s1 where a: "aimJoint T e t w i (js, s) = (j1, s1)"
    by (cases "aimJoint T e t w i (js, s)")
  have 1: "keeps_vector t s s1"
    using aimJoint_keeps_vector [OF assms(1,2), of T e i js] a by simp
  have 2: "keeps_vector t s1 (snd (axisCorrection T q (j1, s1)))"
    by (rule axisCorrection_keeps_vector [OF assms(3)])
  have 3: "keeps_vector t s (snd (axisCorrection T q (j1, s1)))"
    by (rule keeps_vector_trans [OF 1 2])
  show ?thesis
    using 1 3 a
    by (auto simp: adjustJoint_def Let_def updateMatrixWorld_def keeps_vector_def split: prod.splits)
qed

lemma sweep_keeps_vector:
  assumes "t < length (vectors (snd st))" and "w \<noteq> t" and "q \<noteq> t"
  shows "keeps_vector t (snd st) (snd (sweep T e t w q n st))"
  using assms(1)
proof (induction n arbitrary: st)
  case 0
  show ?case by (simp add: keeps_vector_refl)
next
  case (Suc n)
  obtain js s where st: "st = (js, s)" by (cases st)
  let ?st' = "adjustJoint T e t w q n st"
  have 1: "keeps_vector t (snd st) (snd ?st')"
    using adjustJoint_keeps_vector [OF _ assms(2,3), of s T e n js] Suc.prems st by simp
  have "t < length (vectors (snd ?st'))"
    using keeps_vector_less [OF 1 Suc.prems] .
  from Suc.IH [OF this] 1 show ?case
    by (simp add: keeps_vector_trans)
qed

lemma calc_distance_value:
  "fst (calcEndEffectorTargetDistance T js e t s) = Vector3_length T (fst (first_measure T js e t s))"
  by (simp add: calcEndEffectorTargetDistance_def clone_def new_Vector3_def worldToLocal_def
      assign_def Let_def first_measure_def split: prod.splits)

lemma calc_distance_matrixWorld:
  "matrixWorld (snd (calcEndEffectorTargetDistance T js e t s)) = snd (first_measure T js e t s)"
  by (simp add: calcEndEffectorTargetDistance_def clone_def new_Vector3_def worldToLocal_def
      assign_def Let_def first_measure_def split: prod.splits)

lemma calc_distance_keeps_vector:
  assumes "t < length (vectors s)"
  shows "keeps_vector t s (snd (calcEndEffectorTargetDistance T js e t s))"
  using assms
  by (simp add: calcEndEffectorTargetDistance_def clone_def new_Vector3_def worldToLocal_def
      assign_def Let_def keeps_vector_def nth_append split: prod.splits)

lemma iteration_body_keeps_vector:
  assumes "t < length (vectors (snd st))" and "w \<noteq> t" and "q \<noteq> t"
  shows "keeps_vector t (snd st) (snd (fst (iteration_body T e t w q st)))"
proof -
  let ?n = "length (fst st) - 1"
  have 1: "keeps_vector t (snd st) (snd (sweep T e t w q ?n st))"
    by (rule sweep_keeps_vector [OF assms])
  have 2: "keeps_vector t (snd (sweep T e t w q ?n st))
             (snd (calcEndEffectorTargetDistance T js e t (snd (sweep T e t w q ?n st))))" for js
    by (rule calc_distance_keeps_vector [OF keeps_vector_less [OF 1 assms(1)]])
  show ?thesis
    using keeps_vector_trans [OF 1 2]
    by (simp add: iteration_body_def Let_def split: prod.splits) (metis snd_conv)
qed

lemma CCD_while_keeps_vector:
  "w \<noteq> t \<Longrightarrow> q \<noteq> t \<Longrightarrow> t < length (vectors (snd (fst x))) \<Longrightarrow>
   keeps_vector t (snd (fst x)) (snd (fst (CCD_while T e t w q cfg x)))"
proof (induction T e t w q cfg x rule: CCD_while.induct)
  case (1 T e t w q cfg st d it)
  show ?case
  proof (cases "d > tolerance cfg \<and> real it \<le> maxIterations cfg")
    case False
    then show ?thesis by (simp add: CCD_while_stop keeps_vector_refl)
  next
    case True
    obtain st' d' where b: "iteration_body T e t w q st = (st', d')"
      by (cases "iteration_body T e t w q st")
    have k: "keeps_vector t (snd st) (snd st')"
      using iteration_body_keeps_vector [of t st w q T e] "1.prems" b by simp
    have "t < length (vectors (snd st'))"
      using keeps_vector_less [OF k] "1.prems" by simp
    then have "keeps_vector t (snd st') (snd (fst (CCD_while T e t w q cfg (st', d', it + 1))))"
      using "1.IH" [OF True b [symmetric] refl] "1.prems" by simp
    with k show ?thesis
      using True b by (simp add: CCD_while_step [of cfg d it T e t w q st st' d'] keeps_vector_trans)
  qed
qed

lemma CCDIKSolver_run_unfold:
  assumes "endEffector chain = Some e"
  shows "CCDIKSolver_run T chain t cfg s =
           Inr (CCD_while T e t (Suc (length (vectors s))) (Suc (Suc (length (vectors s)))) cfg
                  ((ikJoints chain, loop_start T (ikJoints chain) e t s),
                   Vector3_length T (fst (first_measure T (ikJoints chain) e t s)), 0))"
  using assms
  by (simp add: CCDIKSolver_run_def calcEndEffectorTargetDistance_def clone_def new_Vector3_def
      worldToLocal_def assign_def Let_def loop_start_def first_measure_def split: prod.splits)

lemma CCDIKSolver_total:
  assumes "endEffector chain = Some e"
  shows "\<exists>chain' s'. CCDIKSolver T chain t cfg s = Inr (chain', s')"
  using CCDIKSolver_run_unfold [OF assms, of T t cfg s]
  by (simp add: CCDIKSolver_def split: prod.splits)

lemma CCDIKSolver_Inr_endEffector:
  "CCDIKSolver T chain t cfg s = Inr r \<Longrightarrow> \<exists>e. endEffector chain = Some e"
  by (cases "endEffector chain") (auto simp: CCDIKSolver_def CCDIKSolver_run_def)

lemma CCDIKSolver_keeps_fixed:
  assumes "CCDIKSolver T chain t cfg s = Inr (chain', s')"
  shows "keeps_fixed (ikJoints chain) (ikJoints chain')"
proof -
  obtain e where e: "endEffector chain = Some e"
    using CCDIKSolver_Inr_endEffector [OF assms] by blast
  let ?x = "((ikJoints chain, loop_start T (ikJoints chain) e t s),
             Vector3_length T (fst (first_measure T (ikJoints chain) e t s)), 0::nat)"
  let ?w = "Suc (length (vectors s))" and ?q = "Suc (Suc (length (vectors s)))"
  have "keeps_fixed (fst (fst ?x)) (fst (fst (CCD_while T e t ?w ?q cfg ?x)))"
    by (rule CCD_while_keeps_fixed)
  then show ?thesis
    using assms CCDIKSolver_run_unfold [OF e, of T t cfg s]
    by (auto simp: CCDIKSolver_def split: prod.splits)
qed

lemma writeBack_quaternion: "quaternion (writeBack T j) = quaternion j \<and> isFixed (writeBack T j) = isFixed j"
  by (simp add: writeBack_def isFixed_def split: option.splits)

lemma after_sweeps_Suc:
  "after_sweeps T e t s js (Suc k) =
     iteration_body T e t (Suc (length (vectors s))) (Suc (Suc (length (vectors s))))
       (fst (after_sweeps T e t s js k))"
  by (simp add: after_sweeps_def)

lemma iteration_allowed: "0 \<le> m \<Longrightarrow> real it \<le> m \<longleftrightarrow> it \<le> nat \<lfloor>m\<rfloor>"
proof -
  assume m: "0 \<le> m"
  have "real it \<le> m \<longleftrightarrow> int it \<le> \<lfloor>m\<rfloor>"
    by (simp add: le_floor_iff)
  also have "\<dots> \<longleftrightarrow> it \<le> nat \<lfloor>m\<rfloor>"
    using m by (simp add: nat_le_iff le_nat_iff)
  finally show ?thesis .
qed

lemma CCD_while_runs_out:
  assumes m: "0 \<le> maxIterations cfg"
    and step: "\<And>k. seq (Suc k) = iteration_body T e t w q (fst (seq k))"
  shows "it \<le> nat \<lfloor>maxIterations cfg\<rfloor> + 1 \<Longrightarrow>
         (\<And>k. it \<le> k \<Longrightarrow> k \<le> nat \<lfloor>maxIterations cfg\<rfloor> \<Longrightarrow> tolerance cfg < snd (seq k)) \<Longrightarrow>
         CCD_while T e t w q cfg (fst (seq it), snd (seq it), it)
           = (fst (seq (nat \<lfloor>maxIterations cfg\<rfloor> + 1)), snd (seq (nat \<lfloor>maxIterations cfg\<rfloor> + 1)),
              nat \<lfloor>maxIterations cfg\<rfloor> + 1)"
proof (induction "nat \<lfloor>maxIterations cfg\<rfloor> + 1 - it" arbitrary: it)
  case 0
  then have it: "it = nat \<lfloor>maxIterations cfg\<rfloor> + 1" by simp
  have "\<not> real it \<le> maxIterations cfg"
    using iteration_allowed [OF m, of it] it by simp
  then show ?case
    using it by (simp add: CCD_while_stop)
next
  case (Suc d)
  then have le: "it \<le> nat \<lfloor>maxIterations cfg\<rfloor>" by simp
  have far: "tolerance cfg < snd (seq it)"
    using Suc.prems(2) [of it] le by simp
  have ok: "real it \<le> maxIterations cfg"
    using iteration_allowed [OF m, of it] le by simp
  have b: "iteration_body T e t w q (fst (seq it)) = (fst (seq (Suc it)), snd (seq (Suc it)))"
    by (simp add: step)
  have "CCD_while T e t w q cfg (fst (seq (Suc it)), snd (seq (Suc it)), Suc it)
          = (fst (seq (nat \<lfloor>maxIterations cfg\<rfloor> + 1)), snd (seq (nat \<lfloor>maxIterations cfg\<rfloor> + 1)),
             nat \<lfloor>maxIterations cfg\<rfloor> + 1)"
  proof (rule Suc.hyps(1))
    show "d = nat \<lfloor>maxIterations cfg\<rfloor> + 1 - Suc it" using Suc.hyps(2) by simp
    show "Suc it \<le> nat \<lfloor>maxIterations cfg\<rfloor> + 1" using le by simp
    show "tolerance cfg < snd (seq k)" if "Suc it \<le> k" "k \<le> nat \<lfloor>maxIterations cfg\<rfloor>" for k
      using Suc.prems(2) [of k] that by simp
  qed
  then show ?case
    using CCD_while_step [OF far ok b] by simp
qed

lemma aimJoint_value:
  assumes "t < length (vectors s)" and "w < length (vectors s)" and "w \<noteq> t"
    and "Object3D_worldToLocal T (Object3D_updateWorldMatrix T (matrixWorld s) js e) js i
           (Vector3_setFromMatrixPosition T (Object3D_updateWorldMatrix T (matrixWorld s) js e) e)
         = (toEffector, w1)"
    and "Object3D_worldToLocal T w1 js i (vectors s ! t) = (toTarget, w2)"
  shows "fst (aimJoint T e t w i (js, s)) =
           (js ! i)\<lparr>quaternion :=
             Quaternion_multiply T (quaternion (js ! i))
               (Quaternion_setFromUnitVectors T (Vector3_normalize T toEffector)
                  (Vector3_normalize T toTarget))\<rparr>
         \<and> matrixWorld (snd (aimJoint T e t w i (js, s))) = w2"
  using assms
  by (simp add: aimJoint_def getWorldPosition_def clone_def new_Vector3_def worldToLocal_def
      normalize_def assign_def Let_def nth_append)

lemma axisCorrection_value:
  assumes "q < length (vectors s)"
  shows "fst (axisCorrection T q (j, s)) =
           j\<lparr>quaternion :=
             Quaternion_multiply T (quaternion j)
               (Quaternion_setFromUnitVectors T (axis j)
                  (Vector3_applyQuaternion T (axis j) (Quaternion_invert T (quaternion j))))\<rparr>
         \<and> matrixWorld (snd (axisCorrection T q (j, s))) = matrixWorld s"
  using assms by (simp add: axisCorrection_def assign_def Let_def)

lemma sweep_two:
  "sweep T e t w q 2 st = adjustJoint T e t w q 0 (adjustJoint T e t w q (Suc 0) st)"
  by (simp add: numeral_2_eq_2)

text \<open>A first distance within the tolerance: the loop is not entered.\<close>

lemma within_tolerance_no_sweep:
  assumes "endEffector chain = Some e"
    and "fst (calcEndEffectorTargetDistance T (ikJoints chain) e t s) \<le> tolerance cfg"
  shows "CCDIKSolver T chain t cfg s = Inr (chain, loop_start T (ikJoints chain) e t s)
         \<and> CCDIKSolver_sweeps T chain t cfg s = Inr 0"
proof -
  let ?js = "ikJoints chain"
  let ?d = "Vector3_length T (fst (first_measure T ?js e t s))"
  have d: "?d \<le> tolerance cfg"
    using assms(2) by (simp add: calc_distance_value)
  have run: "CCDIKSolver_run T chain t cfg s = Inr ((?js, loop_start T ?js e t s), ?d, 0)"
    using d by (simp add: CCDIKSolver_run_unfold [OF assms(1)] CCD_while_stop)
  show ?thesis
    using run by (simp add: CCDIKSolver_def CCDIKSolver_sweeps_def)
qed

text \<open>
  A joint that a sweep handles leaves the sweep as a result of the limit step: whatever
  holds of every result of the limit step on a joint of the same description holds of the
  joint after the loop, once the loop has been entered.
\<close>

lemma limitStep_urdfJoint: "urdfJoint (limitStep T j) = urdfJoint j"
  by (auto simp: limitStep_def Let_def split: option.splits prod.splits)

lemma aimJoint_urdfJoint: "urdfJoint (fst (aimJoint T e t w i (js, s))) = urdfJoint (js ! i)"
  by (simp add: aimJoint_def Let_def split: prod.splits)

lemma axisCorrection_urdfJoint: "urdfJoint (fst (axisCorrection T q (j, s))) = urdfJoint j"
  by (simp add: axisCorrection_def Let_def split: prod.splits)

lemma adjustJoint_length: "length (fst (adjustJoint T e t w q i st)) = length (fst st)"
  by (cases st) (auto simp: adjustJoint_def Let_def split: prod.splits)

lemma adjustJoint_other: "k \<noteq> i \<Longrightarrow> fst (adjustJoint T e t w q i st) ! k = fst st ! k"
  by (cases st) (auto simp: adjustJoint_def Let_def split: prod.splits)

lemma adjustJoint_limitStep:
  assumes "\<And>j. urdfJoint j = u \<Longrightarrow> P (limitStep T j)"
    and "i < length (fst st)" and "urdfJoint (fst st ! i) = u" and "\<not> isFixed (fst st ! i)"
  shows "P (fst (adjustJoint T e t w q i st) ! i) \<and> urdfJoint (fst (adjustJoint T e t w q i st) ! i) = u"
proof -
  obtain js s where st: "st = (js, s)" by (cases st)
  obtain j1 s1 where a: "aimJoint T e t w i (js, s) = (j1, s1)"
    by (cases "aimJoint T e t w i (js, s)")
  obtain j2 s2 where c: "(if isHinge j1 \<or> isRootJoint j1 then axisCorrection T q (j1, s1) else (j1, s1)) = (j2, s2)"
    by (cases "if isHinge j1 \<or> isRootJoint j1 then axisCorrection T q (j1, s1) else (j1, s1)")
  have u1: "urdfJoint j1 = u"
    using aimJoint_urdfJoint [of T e t w i js s] a assms(3) st by simp
  have u2: "urdfJoint j2 = u"
    using c u1 axisCorrection_urdfJoint [of T q j1 s1] by (auto split: if_splits)
  have "fst (adjustJoint T e t w q i st) = js[i := limitStep T j2]"
    using assms(4) st a c by (simp add: adjustJoint_def Let_def)
  then show ?thesis
    using assms(1) [OF u2] assms(2) st u2 by (simp add: limitStep_urdfJoint)
qed

lemma sweep_above:
  "k \<le> m \<Longrightarrow> fst (sweep T e t w q k st) ! m = fst st ! m \<and> length (fst (sweep T e t w q k st)) = length (fst st)"
proof (induction k arbitrary: st)
  case 0
  show ?case by simp
next
  case (Suc k)
  from Suc.prems have "k \<le> m" and "m \<noteq> k" by simp_all
  with Suc.IH [of "adjustJoint T e t w q k st"] show ?case
    by (simp add: adjustJoint_other adjustJoint_length)
qed

lemma sweep_limitStep:
  assumes "\<And>j. urdfJoint j = u \<Longrightarrow> P (limitStep T j)"
  shows "i < k \<Longrightarrow> i < length (fst st) \<Longrightarrow> urdfJoint (fst st ! i) = u \<Longrightarrow> \<not> isFixed (fst st ! i) \<Longrightarrow>
         P (fst (sweep T e t w q k st) ! i) \<and> urdfJoint (fst (sweep T e t w q k st) ! i) = u"
proof (induction k arbitrary: st)
  case 0
  then show ?case by simp
next
  case (Suc k)
  let ?st = "adjustJoint T e t w q k st"
  show ?case
  proof (cases "i = k")
    case True
    have "P (fst ?st ! i) \<and> urdfJoint (fst ?st ! i) = u"
      using adjustJoint_limitStep [where P = P and u = u and T = T, OF assms Suc.prems(2,3,4)] True by simp
    moreover have "fst (sweep T e t w q k ?st) ! i = fst ?st ! i"
      using sweep_above [where k = k and m = i and st = ?st and T = T and e = e and t = t and w = w and q = q] True
      by simp
    ultimately show ?thesis by simp
  next
    case False
    with Suc.prems(1) have lt: "i < k" by simp
    have same: "fst ?st ! i = fst st ! i"
      using False by (simp add: adjustJoint_other)
    have "P (fst (sweep T e t w q k ?st) ! i) \<and> urdfJoint (fst (sweep T e t w q k ?st) ! i) = u"
      using Suc.IH [OF lt, of ?st] Suc.prems(2,3,4) same by (simp add: adjustJoint_length)
    then show ?thesis by simp
  qed
qed

lemma isFixed_urdfJoint: "urdfJoint a = urdfJoint b \<Longrightarrow> isFixed a = isFixed b"
  by (simp add: isFixed_def)

lemma iteration_body_limitStep:
  assumes "\<And>j. urdfJoint j = u \<Longrightarrow> P (limitStep T j)"
    and "Suc i < length (fst st)" and "urdfJoint (fst st ! i) = u" and "\<not> isFixed (fst st ! i)"
    and "iteration_body T e t w q st = (st', d)"
  shows "P (fst st' ! i) \<and> urdfJoint (fst st' ! i) = u \<and> length (fst st') = length (fst st)"
proof -
  let ?r = "sweep T e t w q (length (fst st) - 1) st"
  have "fst st' = fst ?r"
    using assms(5) by (auto simp: iteration_body_def Let_def split: prod.splits)
  moreover have "P (fst ?r ! i) \<and> urdfJoint (fst ?r ! i) = u"
    using sweep_limitStep [where P = P and u = u and T = T and i = i and k = "length (fst st) - 1" and st = st,
        OF assms(1)] assms(2,3,4) by simp
  moreover have "length (fst ?r) = length (fst st)"
    using sweep_above [where k = "length (fst st) - 1" and m = "length (fst st) - 1" and st = st
        and T = T and e = e and t = t and w = w and q = q]
    by simp
  ultimately show ?thesis by simp
qed

lemma CCD_while_limitStep:
  "\<forall>j. urdfJoint j = u \<longrightarrow> P (limitStep T j) \<Longrightarrow>
   Suc i < length (fst st) \<Longrightarrow> urdfJoint (fst st ! i) = u \<Longrightarrow> \<not> isFixed (fst st ! i) \<Longrightarrow>
   P (fst st ! i) \<or> (d > tolerance cfg \<and> real it \<le> maxIterations cfg) \<Longrightarrow>
   P (fst (fst (CCD_while T e t w q cfg (st, d, it))) ! i)"
proof (induction T e t w q cfg "(st, d, it)" arbitrary: st d it rule: CCD_while.induct)
  case (1 T e t w q cfg st d it)
  have cl: "P (limitStep T j)" if "urdfJoint j = u" for j
    using "1.prems"(1) that by simp
  show ?case
  proof (cases "d > tolerance cfg \<and> real it \<le> maxIterations cfg")
    case False
    with "1.prems"(5) show ?thesis by (simp add: CCD_while_stop)
  next
    case True
    obtain st' d' where b: "iteration_body T e t w q st = (st', d')"
      by (cases "iteration_body T e t w q st")
    have r: "P (fst st' ! i) \<and> urdfJoint (fst st' ! i) = u \<and> length (fst st') = length (fst st)"
      using iteration_body_limitStep [where P = P and u = u and T = T, OF cl "1.prems"(2,3,4) b] .
    have nf: "\<not> isFixed (fst st' ! i)"
      using r "1.prems"(3,4) isFixed_urdfJoint [of "fst st' ! i" "fst st ! i"] by simp
    have "P (fst (fst (CCD_while T e t w q cfg (st', d', it + 1))) ! i)"
      using "1.hyps" [OF True b [symmetric] refl "1.prems"(1)] r nf "1.prems"(2) by simp
    then show ?thesis
      using True b by (simp add: CCD_while_step [of cfg d it T e t w q st st' d'])
  qed
qed

section \<open>Lemmas: building the chain\<close>

declare traverseURDFJoints.simps [simp del]

lemma nextURDFJoint_error: "nextURDFJoint obj = Inl err \<Longrightarrow> err = TypeError"
  by (auto simp: nextURDFJoint_def split: list.splits)

lemma find_base_error: "find_base objs = Inl err \<Longrightarrow> err = TypeError"
  by (induction objs) (auto split: if_splits sum.splits option.splits dest: nextURDFJoint_error)

lemma traverse_nonempty: "Object3D_traverse t \<noteq> []"
  by (cases t) simp

lemma node_joint_add: "node_joint (Object3D_add p c t) = node_joint t"
  by (cases t) simp

lemma add_absent: "p \<notin> set (Object3D_traverse t) \<Longrightarrow> Object3D_add p c t = t"
  by (induction t) (auto intro: map_idI)

lemma add_last:
  "distinct (Object3D_traverse t) \<Longrightarrow> p = node_joint t \<or> p = last (Object3D_traverse t) \<Longrightarrow>
   Object3D_traverse (Object3D_add p c t) = Object3D_traverse t @ [c]"
proof (induction t)
  case (IKNode a cs)
  show ?case
  proof (cases "a = p")
    case True
    then show ?thesis by simp
  next
    case False
    with IKNode.prems(2) have l: "p = last (a # concat (map Object3D_traverse cs))" by simp
    have ne: "cs \<noteq> []"
    proof
      assume "cs = []"
      with l False show False by simp
    qed
    then obtain ds d where cs: "cs = ds @ [d]"
      by (metis rev_exhaust)
    have pl: "p = last (Object3D_traverse d)"
      using l cs traverse_nonempty [of d] by simp
    then have pin: "p \<in> set (Object3D_traverse d)"
      using traverse_nonempty [of d] by simp
    have dd: "distinct (Object3D_traverse d)"
      using IKNode.prems(1) cs by simp
    have "set (concat (map Object3D_traverse ds)) \<inter> set (Object3D_traverse d) = {}"
      using IKNode.prems(1) cs by simp
    with pin have "p \<notin> set (Object3D_traverse x)" if "x \<in> set ds" for x
      using that by auto
    then have same: "map (Object3D_add p c) ds = ds"
      by (intro map_idI add_absent)
    have "Object3D_traverse (Object3D_add p c d) = Object3D_traverse d @ [c]"
      using IKNode.IH [of d] cs dd pl by simp
    with False cs same show ?thesis by simp
  qed
qed

lemma traverseURDFJoints_grows:
  "well_formed this \<Longrightarrow>
   p = node_joint (private_rootJoint this) \<or> p = last (Object3D_traverse (private_rootJoint this)) \<Longrightarrow>
   traverseURDFJoints T p joint this = (err, this') \<Longrightarrow>
   well_formed this' \<and> length (joints this) < length (joints this')
   \<and> Object3D_traverse (private_rootJoint this')
       = Object3D_traverse (private_rootJoint this) @ [length (joints this)..<length (joints this')]
   \<and> node_joint (private_rootJoint this') = node_joint (private_rootJoint this)
   \<and> private_ikJoints this' = private_ikJoints this
   \<and> take (length (joints this)) (joints this') = joints this
   \<and> err \<noteq> Some MalformedChain
   \<and> (err = None \<longrightarrow> private_endEffector this' = Some (length (joints this') - 1))"
proof (induction T p joint this arbitrary: err this' rule: traverseURDFJoints.induct)
  case (1 T p joint this)
  let ?n = "length (joints this)"
  let ?this1 = "this\<lparr>joints := joints this @ [new_IKJoint T (Option.bind joint urdf_of)],
                     private_rootJoint := Object3D_add p ?n (private_rootJoint this)\<rparr>"
  have unf: "traverseURDFJoints T p joint this =
      (case joint of
         None \<Rightarrow> (Some TypeError, ?this1)
       | Some j \<Rightarrow>
           (case nextURDFJoint j of
              Inl err \<Rightarrow> (Some err, ?this1)
            | Inr None \<Rightarrow> (None, ?this1\<lparr>private_endEffector := Some ?n\<rparr>)
            | Inr (Some nextUrdfJoint) \<Rightarrow> traverseURDFJoints T ?n (Some nextUrdfJoint) ?this1))"
    by (subst traverseURDFJoints.simps) (simp add: Let_def)
  have d: "distinct (Object3D_traverse (private_rootJoint this))"
    and b: "\<forall>a \<in> set (Object3D_traverse (private_rootJoint this)). a < ?n"
    using "1.prems"(1) by (simp_all add: well_formed_def list_all_iff)
  have tr: "Object3D_traverse (Object3D_add p ?n (private_rootJoint this))
      = Object3D_traverse (private_rootJoint this) @ [?n]"
    using add_last [OF d "1.prems"(2)] by simp
  have wf1: "well_formed ?this1"
    using d b by (auto simp: well_formed_def list_all_iff tr)
  have here: "well_formed ?this1 \<and> ?n < length (joints ?this1)
      \<and> Object3D_traverse (private_rootJoint ?this1)
          = Object3D_traverse (private_rootJoint this) @ [?n..<length (joints ?this1)]
      \<and> node_joint (private_rootJoint ?this1) = node_joint (private_rootJoint this)
      \<and> private_ikJoints ?this1 = private_ikJoints this
      \<and> take ?n (joints ?this1) = joints this"
    using wf1 tr by (simp add: node_joint_add)
  show ?case
  proof (cases joint)
    case None
    with "1.prems"(3) [unfolded unf] have "err = Some TypeError" "this' = ?this1"
      by simp_all
    with here show ?thesis by simp
  next
    case (Some j)
    show ?thesis
    proof (cases "nextURDFJoint j")
      case (Inl e)
      with Some "1.prems"(3) [unfolded unf] have "err = Some e" "this' = ?this1"
        by simp_all
      with here nextURDFJoint_error [OF Inl] show ?thesis by simp
    next
      case (Inr r)
      show ?thesis
      proof (cases r)
        case None
        with Some Inr "1.prems"(3) [unfolded unf] have "err = None" "this' = ?this1\<lparr>private_endEffector := Some ?n\<rparr>"
          by simp_all
        moreover have "well_formed (?this1\<lparr>private_endEffector := Some ?n\<rparr>)"
          using wf1 by (simp add: well_formed_def)
        ultimately show ?thesis using here by simp
      next
        case (Some n)
        with \<open>joint = Some j\<close> Inr "1.prems"(3) [unfolded unf]
        have run: "traverseURDFJoints T ?n (Some n) ?this1 = (err, this')"
          by simp
        have par: "?n = node_joint (private_rootJoint ?this1) \<or> ?n = last (Object3D_traverse (private_rootJoint ?this1))"
          using tr by simp
        have ih: "well_formed this' \<and> length (joints ?this1) < length (joints this')
            \<and> Object3D_traverse (private_rootJoint this')
                = Object3D_traverse (private_rootJoint ?this1) @ [length (joints ?this1)..<length (joints this')]
            \<and> node_joint (private_rootJoint this') = node_joint (private_rootJoint ?this1)
            \<and> private_ikJoints this' = private_ikJoints ?this1
            \<and> take (length (joints ?this1)) (joints this') = joints ?this1
            \<and> err \<noteq> Some MalformedChain
            \<and> (err = None \<longrightarrow> private_endEffector this' = Some (length (joints this') - 1))"
          using "1.IH" [OF refl refl \<open>joint = Some j\<close> Inr Some wf1 par run] .
        have len: "Suc ?n < length (joints this')" using ih by simp
        then have up: "[?n..<length (joints this')] = ?n # [Suc ?n..<length (joints this')]"
          by (simp add: upt_conv_Cons)
        have "take ?n (take (Suc ?n) (joints this')) = take ?n (joints this @ [new_IKJoint T (Option.bind joint urdf_of)])"
          using ih by simp
        then have tk: "take ?n (joints this') = joints this"
          by (simp add: min_def)
        show ?thesis using ih here tk up len by simp
      qed
    qed
  qed
qed

lemma traverseURDFJoints_effect:
  "traverseURDFJoints T p joint this = (err, this') \<Longrightarrow>
   length (joints this) < length (joints this')
   \<and> private_ikJoints this' = private_ikJoints this
   \<and> take (length (joints this)) (joints this') = joints this
   \<and> err \<noteq> Some MalformedChain
   \<and> (err = None \<longrightarrow> private_endEffector this' = Some (length (joints this') - 1))"
proof (induction T p joint this arbitrary: err this' rule: traverseURDFJoints.induct)
  case (1 T p joint this)
  let ?n = "length (joints this)"
  let ?this1 = "this\<lparr>joints := joints this @ [new_IKJoint T (Option.bind joint urdf_of)],
                     private_rootJoint := Object3D_add p ?n (private_rootJoint this)\<rparr>"
  have unf: "traverseURDFJoints T p joint this =
      (case joint of
         None \<Rightarrow> (Some TypeError, ?this1)
       | Some j \<Rightarrow>
           (case nextURDFJoint j of
              Inl err \<Rightarrow> (Some err, ?this1)
            | Inr None \<Rightarrow> (None, ?this1\<lparr>private_endEffector := Some ?n\<rparr>)
            | Inr (Some nextUrdfJoint) \<Rightarrow> traverseURDFJoints T ?n (Some nextUrdfJoint) ?this1))"
    by (subst traverseURDFJoints.simps) (simp add: Let_def)
  show ?case
  proof (cases joint)
    case None
    with "1.prems" [unfolded unf] have "err = Some TypeError" "this' = ?this1"
      by simp_all
    then show ?thesis by simp
  next
    case (Some j)
    show ?thesis
    proof (cases "nextURDFJoint j")
      case (Inl e)
      with Some "1.prems" [unfolded unf] have "err = Some e" "this' = ?this1"
        by simp_all
      with nextURDFJoint_error [OF Inl] show ?thesis by simp
    next
      case (Inr r)
      show ?thesis
      proof (cases r)
        case None
        with Some Inr "1.prems" [unfolded unf] have "err = None" "this' = ?this1\<lparr>private_endEffector := Some ?n\<rparr>"
          by simp_all
        then show ?thesis by simp
      next
        case (Some n)
        with \<open>joint = Some j\<close> Inr "1.prems" [unfolded unf]
        have run: "traverseURDFJoints T ?n (Some n) ?this1 = (err, this')"
          by simp
        have ih: "length (joints ?this1) < length (joints this')
            \<and> private_ikJoints this' = private_ikJoints ?this1
            \<and> take (length (joints ?this1)) (joints this') = joints ?this1
            \<and> err \<noteq> Some MalformedChain
            \<and> (err = None \<longrightarrow> private_endEffector this' = Some (length (joints this') - 1))"
          using "1.IH" [OF refl refl \<open>joint = Some j\<close> Inr Some run] .
        have "take ?n (take (Suc ?n) (joints this')) = take ?n (joints this @ [new_IKJoint T (Option.bind joint urdf_of)])"
          using ih by simp
        then have tk: "take ?n (joints this') = joints this"
          by (simp add: min_def)
        show ?thesis using ih tk by simp
      qed
    qed
  qed
qed

lemma createFromURDF_effect:
  "createFromURDF T robot this = (err, this') \<Longrightarrow>
   private_ikJoints this' = private_ikJoints this \<and> err \<noteq> Some MalformedChain
   \<and> (err = None \<longrightarrow>
        length (joints this) < length (joints this')
        \<and> take (length (joints this)) (joints this') = joints this
        \<and> private_endEffector this' = Some (length (joints this') - 1))"
  by (auto simp: createFromURDF_def baseURDFJoint_def split: sum.splits
      dest: find_base_error traverseURDFJoints_effect)

lemma createFromURDF_well_formed:
  "well_formed this \<Longrightarrow> createFromURDF T robot this = (err, this') \<Longrightarrow>
   well_formed this'
   \<and> (err = None \<longrightarrow>
        Object3D_traverse (private_rootJoint this')
          = Object3D_traverse (private_rootJoint this) @ [length (joints this)..<length (joints this')])"
  by (auto simp: createFromURDF_def baseURDFJoint_def split: sum.splits
      dest: traverseURDFJoints_grows [where p = "node_joint (private_rootJoint this)", OF _ disjI1 [OF refl]])

lemma new_IKChain_well_formed: "well_formed (new_IKChain T)"
  by (simp add: well_formed_def new_IKChain_def)

section \<open>Lemmas: runs over the reals\<close>

lemma three_reals_fields:
  "Object3D_worldToLocal three_reals = R_worldToLocal"
  "Object3D_updateWorldMatrix three_reals = R_updateWorldMatrix"
  "Object3D_updateMatrixWorld three_reals = R_updateMatrixWorld"
  "Vector3_setFromMatrixPosition three_reals = R_setFromMatrixPosition"
  "Vector3_normalize three_reals = R_normalize"
  "Vector3_length three_reals = R_length"
  "Vector3_applyQuaternion three_reals = R_applyQuaternion"
  "Quaternion_setFromUnitVectors three_reals = R_setFromUnitVectors"
  "Quaternion_multiply three_reals = R_multiply"
  "Quaternion_invert three_reals = R_invert"
  "Quaternion_setFromAxisAngle three_reals = R_setFromAxisAngle"
  "Quaternion_setFromEuler three_reals = R_setFromEuler"
  "Euler_setFromQuaternion three_reals = R_eulerFromQuaternion"
  by (simp_all add: three_reals_def)

lemma new_root: "new_IKJoint three_reals None =
    \<lparr>urdfJoint = None, position = \<lparr>vx = 0, vy = 0, vz = 0\<rparr>, quaternion = \<lparr>qx = 0, qy = 0, qz = 0, qw = 1\<rparr>\<rparr>"
  by (simp add: new_IKJoint_def)

lemma new_fixed: "new_IKJoint three_reals (Some u_fixed) =
    \<lparr>urdfJoint = Some u_fixed, position = \<lparr>vx = 0, vy = 0, vz = 0\<rparr>, quaternion = \<lparr>qx = 0, qy = 0, qz = 0, qw = 1\<rparr>\<rparr>"
  by (simp add: new_IKJoint_def three_reals_def R_setFromEuler_def u_fixed_def)

lemma new_hinge: "new_IKJoint three_reals (Some u_hinge) =
    \<lparr>urdfJoint = Some u_hinge, position = \<lparr>vx = 0, vy = 0, vz = 1\<rparr>, quaternion = \<lparr>qx = 0, qy = 0, qz = 0, qw = 1\<rparr>\<rparr>"
  by (simp add: new_IKJoint_def three_reals_def R_setFromEuler_def u_hinge_def)

lemma new_zero: "new_IKJoint three_reals (Some u_zero) =
    \<lparr>urdfJoint = Some u_zero, position = \<lparr>vx = 0, vy = 0, vz = 1\<rparr>, quaternion = \<lparr>qx = 0, qy = 0, qz = 0, qw = 1\<rparr>\<rparr>"
  by (simp add: new_IKJoint_def three_reals_def R_setFromEuler_def u_zero_def)

lemma build_arm:
  "createFromURDF three_reals arm_robot (new_IKChain three_reals) =
     (None, \<lparr>joints = ikJoints arm_chain, private_rootJoint = IKNode 0 [IKNode 1 [IKNode 2 []]],
             private_endEffector = Some 2, private_ikJoints = None\<rparr>)"
  by (simp add: createFromURDF_def baseURDFJoint_def nextURDFJoint_def isURDFJoint_def
      arm_robot_def arm_chain_def new_IKChain_def traverseURDFJoints.simps
      new_root new_fixed new_hinge)

lemma build_fork:
  "createFromURDF three_reals fork_robot (new_IKChain three_reals) =
     (None, \<lparr>joints = ikJoints arm_chain, private_rootJoint = IKNode 0 [IKNode 1 [IKNode 2 []]],
             private_endEffector = Some 2, private_ikJoints = None\<rparr>)"
  by (simp add: createFromURDF_def baseURDFJoint_def nextURDFJoint_def isURDFJoint_def
      fork_robot_def arm_chain_def new_IKChain_def traverseURDFJoints.simps
      new_root new_fixed new_hinge)

lemma build_flat:
  "createFromURDF three_reals flat_robot (new_IKChain three_reals) =
     (None, \<lparr>joints = ikJoints flat_chain, private_rootJoint = IKNode 0 [IKNode 1 [IKNode 2 []]],
             private_endEffector = Some 2, private_ikJoints = None\<rparr>)"
  by (simp add: createFromURDF_def baseURDFJoint_def nextURDFJoint_def isURDFJoint_def
      flat_robot_def flat_chain_def new_IKChain_def traverseURDFJoints.simps
      new_root new_fixed new_zero)

lemma build_stub: "fst (createFromURDF three_reals stub_robot (new_IKChain three_reals)) = Some TypeError"
  by (simp add: createFromURDF_def baseURDFJoint_def nextURDFJoint_def isURDFJoint_def stub_robot_def)

lemma build_fork_after_read:
  "createFromURDF three_reals fork_robot (snd (get_ikJoints (new_IKChain three_reals))) =
     (None, \<lparr>joints = ikJoints arm_chain, private_rootJoint = IKNode 0 [IKNode 1 [IKNode 2 []]],
             private_endEffector = Some 2, private_ikJoints = Some [0]\<rparr>)"
  by (simp add: createFromURDF_def baseURDFJoint_def nextURDFJoint_def isURDFJoint_def
      fork_robot_def arm_chain_def new_IKChain_def get_ikJoints_def traverseURDFJoints.simps
      new_root new_fixed new_hinge Let_def)

lemma sqrt25: "sqrt 25 = 5"
  using real_sqrt_abs [of 5] by simp

lemma sqrt16: "sqrt 16 = 4"
  using real_sqrt_abs [of 4] by simp

lemma sqrt4: "sqrt 4 = 2"
  using real_sqrt_abs [of 2] by simp

lemma unit_z: "R_normalize \<lparr>vx = 0, vy = 0, vz = 1\<rparr> = \<lparr>vx = 0, vy = 0, vz = 1\<rparr>"
  by (simp add: R_normalize_def R_length_def R_multiplyScalar_def)

lemma unit_z5: "R_normalize \<lparr>vx = 0, vy = 0, vz = 5\<rparr> = \<lparr>vx = 0, vy = 0, vz = 1\<rparr>"
  by (simp add: R_normalize_def R_length_def R_multiplyScalar_def sqrt25)

lemma same_direction:
  "R_setFromUnitVectors \<lparr>vx = 0, vy = 0, vz = 1\<rparr> \<lparr>vx = 0, vy = 0, vz = 1\<rparr> = \<lparr>qx = 0, qy = 0, qz = 0, qw = 1\<rparr>"
  "R_setFromUnitVectors \<lparr>vx = 0, vy = 1, vz = 0\<rparr> \<lparr>vx = 0, vy = 1, vz = 0\<rparr> = \<lparr>qx = 0, qy = 0, qz = 0, qw = 1\<rparr>"
  by (simp_all add: R_setFromUnitVectors_def R_qnormalize_def Number_EPSILON_def sqrt4 Let_def)

lemma arm_refresh:
  "refresh pose_identity (ikJoints arm_chain) = arm_poses"
  by (simp add: arm_chain_def arm_poses_def pose_identity_def pose_compose_def R_multiply_def
      R_add_def R_applyQuaternion_def u_fixed_def u_hinge_def)

lemma arm_joint0: "ikJoints arm_chain ! 0 = arm_root"
  by (simp add: arm_chain_def arm_root_def)

lemma arm_update0: "(ikJoints arm_chain)[0 := arm_root] = ikJoints arm_chain"
  by (simp add: arm_chain_def arm_root_def)

lemma arm_updateWorldMatrix: "R_updateWorldMatrix arm_poses (ikJoints arm_chain) 2 = arm_poses"
  by (simp add: R_updateWorldMatrix_def arm_chain_def arm_poses_def pose_identity_def pose_compose_def
      R_multiply_def R_add_def R_applyQuaternion_def u_fixed_def u_hinge_def)

lemma arm_updateWorldMatrix0: "R_updateWorldMatrix arm_poses (ikJoints arm_chain) 0 = arm_poses"
  by (simp add: R_updateWorldMatrix_def arm_chain_def arm_poses_def pose_identity_def pose_compose_def
        R_multiply_def R_add_def R_applyQuaternion_def)

lemma arm_worldToLocal0:
  "R_worldToLocal arm_poses (ikJoints arm_chain) 0 v = (R_toLocal arm_poses 0 v, arm_poses)"
  by (simp add: R_worldToLocal_def arm_updateWorldMatrix0)

lemma arm_worldToLocal2:
  "R_worldToLocal arm_poses (ikJoints arm_chain) 2 v = (R_toLocal arm_poses 2 v, arm_poses)"
  by (simp add: R_worldToLocal_def arm_updateWorldMatrix)

lemma arm_updateMatrixWorld0: "R_updateMatrixWorld arm_poses (ikJoints arm_chain) 0 = arm_poses"
  using arm_refresh by (simp add: R_updateMatrixWorld_def)

lemma arm_updateMatrixWorld1: "R_updateMatrixWorld arm_poses (ikJoints arm_chain) (Suc 0) = arm_poses"
  by (simp add: R_updateMatrixWorld_def arm_chain_def arm_poses_def pose_compose_def R_multiply_def
      R_add_def R_applyQuaternion_def u_fixed_def u_hinge_def)

lemma arm_root_aim:
  "R_multiply (quaternion arm_root)
     (R_setFromUnitVectors
        (R_normalize (R_toLocal arm_poses 0 (R_setFromMatrixPosition arm_poses 2)))
        (R_normalize (R_toLocal arm_poses 0 \<lparr>vx = 0, vy = 0, vz = 5\<rparr>)))
   = \<lparr>qx = 0, qy = 0, qz = 0, qw = 1\<rparr>"
proof -
  have 1: "R_toLocal arm_poses 0 (R_setFromMatrixPosition arm_poses 2) = \<lparr>vx = 0, vy = 0, vz = 1\<rparr>"
    by (simp add: R_toLocal_def R_setFromMatrixPosition_def arm_poses_def R_sub_def R_invert_def
        R_applyQuaternion_def)
  have 2: "R_toLocal arm_poses 0 \<lparr>vx = 0, vy = 0, vz = 5\<rparr> = \<lparr>vx = 0, vy = 0, vz = 5\<rparr>"
    by (simp add: R_toLocal_def arm_poses_def R_sub_def R_invert_def R_applyQuaternion_def)
  show ?thesis
    by (simp add: 1 2 unit_z unit_z5 same_direction) (simp add: R_multiply_def arm_root_def)
qed

lemma arm_root_axis:
  "R_multiply (quaternion arm_root)
     (R_setFromUnitVectors (axis arm_root)
        (R_applyQuaternion (axis arm_root) (R_invert (quaternion arm_root))))
   = \<lparr>qx = 0, qy = 0, qz = 0, qw = 1\<rparr>"
proof -
  have 1: "axis arm_root = \<lparr>vx = 0, vy = 1, vz = 0\<rparr>"
    by (simp add: axis_def arm_root_def DEFAULT_AXIS_def)
  have 2: "R_applyQuaternion \<lparr>vx = 0, vy = 1, vz = 0\<rparr> (R_invert (quaternion arm_root)) = \<lparr>vx = 0, vy = 1, vz = 0\<rparr>"
    by (simp add: R_applyQuaternion_def R_invert_def arm_root_def)
  show ?thesis
    by (simp add: 1 2 same_direction) (simp add: R_multiply_def arm_root_def)
qed

lemma arm_root_limitStep: "limitStep T arm_root = arm_root"
  by (simp add: limitStep_def limit_def getIKJointRotationAngle_def asin_argument_def axisName_def
      axis_def DEFAULT_AXIS_def Math_asin_def Quaternion_component_def Vector3_component_def
      clampIKJointRotationAngle_def js_lt_def js_gt_def arm_root_def)

lemma arm_root_same: "arm_root\<lparr>quaternion := \<lparr>qx = 0, qy = 0, qz = 0, qw = 1\<rparr>\<rparr> = arm_root"
  by (simp add: arm_root_def)

lemma far_adjust_fixed:
  assumes "matrixWorld s = arm_poses"
  shows "adjustJoint three_reals 2 0 2 3 (Suc 0) (ikJoints arm_chain, s) = (ikJoints arm_chain, s)"
proof -
  have "isFixed (ikJoints arm_chain ! Suc 0)"
    by (simp add: arm_chain_def isFixed_def u_fixed_def)
  then show ?thesis
    using assms arm_updateMatrixWorld1
    by (simp add: adjustJoint_def updateMatrixWorld_def three_reals_fields)
qed

lemma far_adjust_root:
  assumes mw: "matrixWorld s = arm_poses" and tv: "vectors s ! 0 = \<lparr>vx = 0, vy = 0, vz = 5\<rparr>"
    and len: "3 < length (vectors s)"
  shows "fst (adjustJoint three_reals 2 0 2 3 0 (ikJoints arm_chain, s)) = ikJoints arm_chain
         \<and> matrixWorld (snd (adjustJoint three_reals 2 0 2 3 0 (ikJoints arm_chain, s))) = arm_poses"
proof -
  let ?js = "ikJoints arm_chain"
  obtain j1 s1 where a: "aimJoint three_reals 2 0 2 0 (?js, s) = (j1, s1)"
    by (cases "aimJoint three_reals 2 0 2 0 (?js, s)")
  have l0: "0 < length (vectors s)" and l2: "2 < length (vectors s)" and ne: "(2::nat) \<noteq> 0"
    using len by auto
  have m1: "Object3D_worldToLocal three_reals (Object3D_updateWorldMatrix three_reals (matrixWorld s) ?js 2) ?js 0
              (Vector3_setFromMatrixPosition three_reals
                 (Object3D_updateWorldMatrix three_reals (matrixWorld s) ?js 2) 2)
            = (R_toLocal arm_poses 0 (R_setFromMatrixPosition arm_poses 2), arm_poses)"
    by (simp add: mw three_reals_fields arm_updateWorldMatrix arm_worldToLocal0 arm_worldToLocal2)
  have m2: "Object3D_worldToLocal three_reals arm_poses ?js 0 (vectors s ! 0)
            = (R_toLocal arm_poses 0 \<lparr>vx = 0, vy = 0, vz = 5\<rparr>, arm_poses)"
    by (simp add: tv three_reals_fields arm_worldToLocal0 arm_worldToLocal2)
  have v: "fst (aimJoint three_reals 2 0 2 0 (?js, s)) = arm_root
           \<and> matrixWorld (snd (aimJoint three_reals 2 0 2 0 (?js, s))) = arm_poses"
    using aimJoint_value [OF l0 l2 ne m1 m2]
    by (simp add: arm_joint0 three_reals_fields arm_root_aim arm_root_same)
  then have j1: "j1 = arm_root" and mw1: "matrixWorld s1 = arm_poses"
    using a by simp_all
  have "keeps_vector 0 s s1"
    using aimJoint_keeps_vector [OF l0 ne, of three_reals 2 0 ?js] a by simp
  then have len1: "3 < length (vectors s1)"
    using len by (simp add: keeps_vector_def)
  obtain j2 s2 where c: "axisCorrection three_reals 3 (arm_root, s1) = (j2, s2)"
    by (cases "axisCorrection three_reals 3 (arm_root, s1)")
  have "fst (axisCorrection three_reals 3 (arm_root, s1)) = arm_root
        \<and> matrixWorld (snd (axisCorrection three_reals 3 (arm_root, s1))) = arm_poses"
    using axisCorrection_value [OF len1, of three_reals arm_root]
    by (simp add: mw1 three_reals_fields arm_root_axis arm_root_same)
  then have j2: "j2 = arm_root" and mw2: "matrixWorld s2 = arm_poses"
    using c by simp_all
  have root: "isRootJoint arm_root" and nf: "\<not> isFixed arm_root"
    by (simp_all add: isRootJoint_def isFixed_def arm_root_def)
  have "adjustJoint three_reals 2 0 2 3 0 (?js, s)
          = (?js, updateMatrixWorld three_reals ?js 0 s2)"
    using a c root nf
    by (simp add: adjustJoint_def Let_def arm_joint0 j1 j2 arm_root_limitStep arm_update0)
  then show ?thesis
    by (simp add: updateMatrixWorld_def mw2 three_reals_fields arm_updateMatrixWorld0)
qed

lemma far_sweep:
  assumes mw: "matrixWorld s = arm_poses" and tv: "vectors s ! 0 = \<lparr>vx = 0, vy = 0, vz = 5\<rparr>"
    and len: "3 < length (vectors s)"
  shows "fst (sweep three_reals 2 0 2 3 2 (ikJoints arm_chain, s)) = ikJoints arm_chain
         \<and> matrixWorld (snd (sweep three_reals 2 0 2 3 2 (ikJoints arm_chain, s))) = arm_poses
         \<and> keeps_vector 0 s (snd (sweep three_reals 2 0 2 3 2 (ikJoints arm_chain, s)))"
proof -
  let ?js = "ikJoints arm_chain"
  have sw: "sweep three_reals 2 0 2 3 2 (?js, s) = adjustJoint three_reals 2 0 2 3 0 (?js, s)"
    by (simp only: sweep_two far_adjust_fixed [OF mw])
  have l0: "0 < length (vectors s)" using len by auto
  have "keeps_vector 0 s (snd (adjustJoint three_reals 2 0 2 3 0 (?js, s)))"
    by (rule adjustJoint_keeps_vector [OF l0]) simp_all
  then show ?thesis
    using far_adjust_root [OF mw tv len] by (simp add: sw)
qed

lemma far_distance: "R_length (R_toLocal arm_poses 2 \<lparr>vx = 0, vy = 0, vz = 5\<rparr>) = 4"
  by (simp add: R_toLocal_def arm_poses_def R_sub_def R_invert_def R_applyQuaternion_def
      R_length_def sqrt16)

lemma far_body:
  assumes mw: "matrixWorld s = arm_poses" and tv: "vectors s ! 0 = \<lparr>vx = 0, vy = 0, vz = 5\<rparr>"
    and len: "3 < length (vectors s)"
  shows "\<exists>s'. iteration_body three_reals 2 0 2 3 (ikJoints arm_chain, s) = ((ikJoints arm_chain, s'), 4)
           \<and> matrixWorld s' = arm_poses \<and> vectors s' ! 0 = \<lparr>vx = 0, vy = 0, vz = 5\<rparr>
           \<and> 3 < length (vectors s')"
proof -
  let ?js = "ikJoints arm_chain"
  obtain js1 s1 where sw: "sweep three_reals 2 0 2 3 2 (?js, s) = (js1, s1)"
    by (cases "sweep three_reals 2 0 2 3 2 (?js, s)")
  from far_sweep [OF mw tv len] sw
  have js1: "js1 = ?js" and mw1: "matrixWorld s1 = arm_poses" and k1: "keeps_vector 0 s s1"
    by simp_all
  have tv1: "vectors s1 ! 0 = \<lparr>vx = 0, vy = 0, vz = 5\<rparr>" and len1: "3 < length (vectors s1)"
    using k1 tv len by (simp_all add: keeps_vector_def)
  obtain d s2 where cd: "calcEndEffectorTargetDistance three_reals ?js 2 0 s1 = (d, s2)"
    by (cases "calcEndEffectorTargetDistance three_reals ?js 2 0 s1")
  have fm: "first_measure three_reals ?js 2 0 s1 = (R_toLocal arm_poses 2 \<lparr>vx = 0, vy = 0, vz = 5\<rparr>, arm_poses)"
    by (simp add: first_measure_def mw1 tv1 three_reals_fields arm_worldToLocal0 arm_worldToLocal2)
  have d: "d = 4"
    using calc_distance_value [of three_reals ?js 2 0 s1] cd
    by (simp add: fm three_reals_fields far_distance)
  have mw2: "matrixWorld s2 = arm_poses"
    using calc_distance_matrixWorld [of three_reals ?js 2 0 s1] cd by (simp add: fm)
  have l0: "0 < length (vectors s1)" using len1 by auto
  have "keeps_vector 0 s1 s2"
    using calc_distance_keeps_vector [OF l0, of three_reals ?js 2] cd by simp
  then have tv2: "vectors s2 ! 0 = \<lparr>vx = 0, vy = 0, vz = 5\<rparr>" and len2: "3 < length (vectors s2)"
    using tv1 len1 by (simp_all add: keeps_vector_def)
  have n: "length ?js - Suc 0 = 2" by (simp add: arm_chain_def)
  have "iteration_body three_reals 2 0 2 3 (?js, s) = ((?js, s2), 4)"
    using sw cd by (simp add: iteration_body_def n js1 d)
  with mw2 tv2 len2 show ?thesis by blast
qed

lemma far_after_sweeps:
  "\<exists>s'. after_sweeps three_reals 2 0 far_scene (ikJoints arm_chain) k = ((ikJoints arm_chain, s'), 4)
         \<and> matrixWorld s' = arm_poses \<and> vectors s' ! 0 = \<lparr>vx = 0, vy = 0, vz = 5\<rparr>
         \<and> 3 < length (vectors s')"
proof (induction k)
  case 0
  show ?case
    by (simp add: after_sweeps_def loop_start_def first_measure_def far_scene_def three_reals_fields
        arm_worldToLocal0 arm_worldToLocal2 far_distance)
next
  case (Suc k)
  then obtain s' where s': "after_sweeps three_reals 2 0 far_scene (ikJoints arm_chain) k
                              = ((ikJoints arm_chain, s'), 4)"
    and inv: "matrixWorld s' = arm_poses" "vectors s' ! 0 = \<lparr>vx = 0, vy = 0, vz = 5\<rparr>"
             "3 < length (vectors s')"
    by blast
  have w: "Suc (length (vectors far_scene)) = 2" and q: "Suc (Suc (length (vectors far_scene))) = 3"
    by (simp_all add: far_scene_def)
  have "after_sweeps three_reals 2 0 far_scene (ikJoints arm_chain) (Suc k)
          = iteration_body three_reals 2 0 2 3 (ikJoints arm_chain, s')"
    unfolding after_sweeps_Suc w q s' by simp
  with far_body [OF inv] show ?case by simp
qed

lemma far_distance_after: "distance_after three_reals 2 0 far_scene (ikJoints arm_chain) k = 4"
  using far_after_sweeps [of k] by (auto simp: distance_after_def)

lemma unit_z_back: "R_normalize \<lparr>vx = 0, vy = 0, vz = - 5\<rparr> = \<lparr>vx = 0, vy = 0, vz = - 1\<rparr>"
  by (simp add: R_normalize_def R_length_def R_multiplyScalar_def sqrt25)

lemma opposite_direction:
  "R_setFromUnitVectors \<lparr>vx = 0, vy = 0, vz = 1\<rparr> \<lparr>vx = 0, vy = 0, vz = - 1\<rparr> = \<lparr>qx = 0, qy = - 1, qz = 0, qw = 0\<rparr>"
  by (simp add: R_setFromUnitVectors_def R_qnormalize_def Number_EPSILON_def Let_def)

lemma behind_aim:
  "fst (aimJoint three_reals 2 0 2 0 (ikJoints arm_chain, behind_scene)) = root_aimed"
proof -
  have l0: "0 < length (vectors behind_scene)" and l2: "2 < length (vectors behind_scene)"
    and ne: "(2::nat) \<noteq> 0"
    by (simp_all add: behind_scene_def)
  have mw: "matrixWorld behind_scene = arm_poses" and tv: "vectors behind_scene ! 0 = \<lparr>vx = 0, vy = 0, vz = - 5\<rparr>"
    by (simp_all add: behind_scene_def)
  have 1: "R_toLocal arm_poses 0 (R_setFromMatrixPosition arm_poses 2) = \<lparr>vx = 0, vy = 0, vz = 1\<rparr>"
    by (simp add: R_toLocal_def R_setFromMatrixPosition_def arm_poses_def R_sub_def R_invert_def
        R_applyQuaternion_def)
  have 2: "R_toLocal arm_poses 0 \<lparr>vx = 0, vy = 0, vz = - 5\<rparr> = \<lparr>vx = 0, vy = 0, vz = - 5\<rparr>"
    by (simp add: R_toLocal_def arm_poses_def R_sub_def R_invert_def R_applyQuaternion_def)
  have 3: "R_multiply (quaternion arm_root) \<lparr>qx = 0, qy = - 1, qz = 0, qw = 0\<rparr> = \<lparr>qx = 0, qy = - 1, qz = 0, qw = 0\<rparr>"
    by (simp add: R_multiply_def arm_root_def)
  have m1: "Object3D_worldToLocal three_reals
              (Object3D_updateWorldMatrix three_reals (matrixWorld behind_scene) (ikJoints arm_chain) 2)
              (ikJoints arm_chain) 0
              (Vector3_setFromMatrixPosition three_reals
                 (Object3D_updateWorldMatrix three_reals (matrixWorld behind_scene) (ikJoints arm_chain) 2) 2)
            = (\<lparr>vx = 0, vy = 0, vz = 1\<rparr>, arm_poses)"
    by (simp add: mw three_reals_fields arm_updateWorldMatrix arm_worldToLocal0 arm_worldToLocal2 1)
  have m2: "Object3D_worldToLocal three_reals arm_poses (ikJoints arm_chain) 0 (vectors behind_scene ! 0)
            = (\<lparr>vx = 0, vy = 0, vz = - 5\<rparr>, arm_poses)"
    by (simp add: tv three_reals_fields arm_worldToLocal0 arm_worldToLocal2 2)
  show ?thesis
    using aimJoint_value [OF l0 l2 ne m1 m2]
    by (simp add: arm_joint0 three_reals_fields unit_z unit_z_back opposite_direction 3 root_aimed_def)
qed

lemma behind_axis:
  "fst (axisCorrection three_reals 3 (root_aimed, s)) = root_aimed" if "3 < length (vectors s)"
proof -
  have 1: "axis root_aimed = \<lparr>vx = 0, vy = 1, vz = 0\<rparr>"
    by (simp add: axis_def root_aimed_def arm_root_def DEFAULT_AXIS_def)
  have 2: "R_applyQuaternion \<lparr>vx = 0, vy = 1, vz = 0\<rparr> (R_invert (quaternion root_aimed)) = \<lparr>vx = 0, vy = 1, vz = 0\<rparr>"
    by (simp add: R_applyQuaternion_def R_invert_def root_aimed_def arm_root_def)
  have 3: "R_multiply (quaternion root_aimed) \<lparr>qx = 0, qy = 0, qz = 0, qw = 1\<rparr> = \<lparr>qx = 0, qy = - 1, qz = 0, qw = 0\<rparr>"
    by (simp add: R_multiply_def root_aimed_def arm_root_def)
  show ?thesis
    using axisCorrection_value [OF that, of three_reals root_aimed]
    by (simp add: three_reals_fields 1 2 same_direction 3) (simp add: root_aimed_def)
qed

text \<open>
  Over the reals a target at the world position of the end effector is taken to the zero
  vector, whatever the joints are; and the world position of a joint of the chain does not
  depend on the world matrices cached before.
\<close>

lemma exact_first_measure:
  assumes "vectors r ! t =
     Vector3_setFromMatrixPosition three_reals
       (Object3D_updateWorldMatrix three_reals (matrixWorld r) js e) e"
  shows "fst (first_measure three_reals js e t r) = \<lparr>vx = 0, vy = 0, vz = 0\<rparr>"
  using assms
  by (simp add: first_measure_def three_reals_fields R_worldToLocal_def Let_def R_toLocal_def
      R_setFromMatrixPosition_def R_sub_def R_applyQuaternion_def)

lemma exact_distance:
  assumes "vectors r ! t =
     Vector3_setFromMatrixPosition three_reals
       (Object3D_updateWorldMatrix three_reals (matrixWorld r) js e) e"
  shows "fst (calcEndEffectorTargetDistance three_reals js e t r) = 0"
  by (simp add: calc_distance_value exact_first_measure [OF assms] three_reals_fields R_length_def)

lemma refresh_length: "length (refresh P js) = length js"
  by (induction js arbitrary: P) simp_all

lemma R_updateWorldMatrix_nth:
  "e < length js \<Longrightarrow> R_updateWorldMatrix w js e ! e = R_updateWorldMatrix w' js e ! e"
  by (simp add: R_updateWorldMatrix_def nth_append refresh_length)

lemma exact_again:
  assumes "vectors r ! t =
     Vector3_setFromMatrixPosition three_reals
       (Object3D_updateWorldMatrix three_reals (matrixWorld r) js e) e"
    and "e < length js" and "t < length (vectors r)"
  shows "vectors (loop_start three_reals js e t r) ! t =
     Vector3_setFromMatrixPosition three_reals
       (Object3D_updateWorldMatrix three_reals (matrixWorld (loop_start three_reals js e t r)) js e) e"
  using assms(1,3) R_updateWorldMatrix_nth [OF assms(2), of "matrixWorld (loop_start three_reals js e t r)" "matrixWorld r"]
  by (simp add: loop_start_def nth_append three_reals_fields R_setFromMatrixPosition_def)

section \<open>Lemmas: a run in double precision\<close>

lemma rnd_zero: "rnd 0 = 0"
  by (simp add: rnd_def)

text \<open>
  The rounding of a number whose binary exponent is known: with \<open>2 ^ 52 \<le> \<bar>x\<bar> * 2 ^ k < 2 ^ 53\<close>
  the doubles near \<open>x\<close> are the multiples of \<open>1 / 2 ^ k\<close>.
\<close>

lemma rnd_down:
  assumes "2 ^ 52 \<le> \<bar>x\<bar> * 2 ^ k" and "\<bar>x\<bar> * 2 ^ k < 2 ^ 53"
  shows "rnd x = of_int (round_even (x * 2 ^ k)) / 2 ^ k"
proof -
  have x0: "x \<noteq> 0" using assms(1) by auto
  have p: "(2::real) powr (52 - real k) = 2 ^ 52 / 2 ^ k"
    by (simp add: powr_diff powr_realpow)
  have p': "(2::real) powr (of_int (52 - int k) + 1) = 2 ^ 53 / 2 ^ k"
    by (simp add: powr_diff powr_realpow powr_add)
  have k0: "(0::real) < 2 ^ k" by simp
  have "2 ^ 52 / 2 ^ k \<le> \<bar>x\<bar>"
    using assms(1) by (simp only: pos_divide_le_eq [OF k0])
  then have "2 powr of_int (52 - int k) \<le> \<bar>x\<bar>"
    using p by simp
  moreover have "\<bar>x\<bar> < 2 ^ 53 / 2 ^ k"
    using assms(2) by (simp only: pos_less_divide_eq [OF k0])
  then have "\<bar>x\<bar> < 2 powr (of_int (52 - int k) + 1)"
    using p' by simp
  ultimately have "\<lfloor>log 2 \<bar>x\<bar>\<rfloor> = 52 - int k"
    using x0 by (subst floor_log_eq_powr_iff) simp_all
  moreover have "(2::real) powr (- real k) = 1 / 2 ^ k"
    by (simp add: powr_minus powr_realpow field_simps)
  ultimately show ?thesis
    using x0 by (simp add: rnd_def Let_def)
qed

text \<open>The rounding of a square root, from the squares of the two midpoints around the result.\<close>

lemma rnd_sqrt:
  assumes "2 ^ 52 < m" and "m < 2 ^ 53"
    and "(of_int m - 1 / 2)\<^sup>2 < v * 4 ^ k" and "v * 4 ^ k < (of_int m + 1 / 2)\<^sup>2"
  shows "rnd (sqrt v) = of_int m / 2 ^ k"
proof -
  let ?y = "sqrt v * 2 ^ k"
  have y: "?y = sqrt (v * 4 ^ k)"
  proof -
    have "sqrt ((4::real) ^ k) = 2 ^ k"
      using real_sqrt_power [of 4 k] by simp
    then show ?thesis by (simp add: real_sqrt_mult)
  qed
  have m0: "(0::real) \<le> of_int m - 1 / 2" using assms(1) by simp
  have lo: "of_int m - 1 / 2 < ?y"
    unfolding y using assms(3) m0 by (intro real_less_rsqrt) simp
  have hi: "?y < of_int m + 1 / 2"
    unfolding y using assms(4) m0 by (intro real_less_lsqrt) simp_all
  have fl: "\<lfloor>?y\<rfloor> = m - 1 \<or> \<lfloor>?y\<rfloor> = m"
  proof -
    have "m - 1 \<le> \<lfloor>?y\<rfloor>" using lo by (simp add: le_floor_iff)
    moreover have "\<lfloor>?y\<rfloor> < m + 1"
    proof -
      have "(of_int \<lfloor>?y\<rfloor> :: real) < of_int m + 1"
        using hi of_int_floor_le [of ?y] by linarith
      then have "(of_int \<lfloor>?y\<rfloor> :: real) < of_int (m + 1)" by simp
      then show ?thesis by (simp only: of_int_less_iff)
    qed
    ultimately show ?thesis by arith
  qed
  have r: "round_even ?y = m"
    using fl lo hi by (auto simp: round_even_def Let_def)
  have "0 < v * 4 ^ k"
    using assms(3) zero_le_power2 [of "of_int m - 1 / 2 :: real"] by linarith
  then have "0 < v"
    by (simp add: zero_less_mult_iff)
  then have s0: "\<bar>sqrt v\<bar> = sqrt v" by simp
  have "2 ^ 52 + 1 \<le> m" using assms(1) by simp
  then have "(of_int (2 ^ 52 + 1) :: real) \<le> of_int m" by (simp only: of_int_le_iff)
  then have a: "2 ^ 52 \<le> \<bar>sqrt v\<bar> * 2 ^ k"
    unfolding s0 using lo by simp
  have "m + 1 \<le> 2 ^ 53" using assms(2) by simp
  then have "(of_int (m + 1) :: real) \<le> of_int (2 ^ 53)" by (simp only: of_int_le_iff)
  then have b: "\<bar>sqrt v\<bar> * 2 ^ k < 2 ^ 53"
    unfolding s0 using hi by simp
  show ?thesis
    using rnd_down [OF a b] r by simp
qed

text \<open>The roundings that the run below meets, each checked against \<open>rnd_down\<close>.\<close>

lemma rnd_value_01: "rnd 1 = 1"
  by (subst rnd_down [where k = 52]) (simp_all add: round_even_def)

lemma rnd_value_02: "rnd (6177097751530123 / 9007199254740992) = 6177097751530123 / 9007199254740992"
  by (subst rnd_down [where k = 53]) (simp_all add: round_even_def)

lemma rnd_value_03: "rnd (38156536631958501183387776395129 / 162259276829213363391578010288128) = 4236226550875355 / 18014398509481984"
  by (subst rnd_down [where k = 55]) (simp_all add: round_even_def)

lemma rnd_value_04: "rnd (52265148025888049883908627751005 / 81129638414606681695789005144064) = 725324634047287 / 1125899906842624"
  by (subst rnd_down [where k = 53]) (simp_all add: round_even_def)

lemma rnd_value_05: "rnd (4236226550875355 / 18014398509481984) = 4236226550875355 / 18014398509481984"
  by (subst rnd_down [where k = 55]) (simp_all add: round_even_def)

lemma rnd_value_06: "rnd (13778171958606629 / 18014398509481984) = 3444542989651657 / 4503599627370496"
  by (subst rnd_down [where k = 53]) (simp_all add: round_even_def)

lemma rnd_value_07: "rnd (3444542989651657 / 4503599627370496) = 3444542989651657 / 4503599627370496"
  by (subst rnd_down [where k = 53]) (simp_all add: round_even_def)

lemma rnd_value_08: "rnd (725324634047287 / 1125899906842624) = 725324634047287 / 1125899906842624"
  by (subst rnd_down [where k = 53]) (simp_all add: round_even_def)

lemma rnd_value_09: "rnd (- (725324634047287 / 1125899906842624)) = - (725324634047287 / 1125899906842624)"
  by (subst rnd_down [where k = 53]) (simp_all add: round_even_def)

lemma rnd_value_10: "rnd (- (2498411883429236005370195904559 / 5070602400912917605986812821504)) = - (8876142073536769 / 18014398509481984)"
  by (subst rnd_down [where k = 54]) (simp_all add: round_even_def)

lemma rnd_value_11: "rnd (- (526095824755830807938152060369 / 1267650600228229401496703205376)) = - (7476271331879485 / 18014398509481984)"
  by (subst rnd_down [where k = 54]) (simp_all add: round_even_def)

lemma rnd_value_12: "rnd (11864876407558375222590202845649 / 20282409603651670423947251286016) = 164658237150039 / 281474976710656"
  by (subst rnd_down [where k = 53]) (simp_all add: round_even_def)

lemma rnd_value_13: "rnd (- (7476271331879485 / 18014398509481984)) = - (7476271331879485 / 18014398509481984)"
  by (subst rnd_down [where k = 54]) (simp_all add: round_even_def)

lemma rnd_value_14: "rnd (7476271331879485 / 18014398509481984) = 7476271331879485 / 18014398509481984"
  by (subst rnd_down [where k = 54]) (simp_all add: round_even_def)

lemma rnd_value_15: "rnd (164658237150039 / 281474976710656) = 164658237150039 / 281474976710656"
  by (subst rnd_down [where k = 53]) (simp_all add: round_even_def)

lemma rnd_value_16: "rnd (18014398509481981 / 18014398509481984) = 4503599627370495 / 4503599627370496"
  by (subst rnd_down [where k = 53]) (simp_all add: round_even_def)

lemma rnd_value_17: "rnd (8876142073536769 / 18014398509481984) = 8876142073536769 / 18014398509481984"
  by (subst rnd_down [where k = 54]) (simp_all add: round_even_def)

lemma rnd_value_18: "rnd (- (18014398509481981 / 18014398509481984)) = - (4503599627370495 / 4503599627370496)"
  by (subst rnd_down [where k = 53]) (simp_all add: round_even_def)

lemma rnd_value_19: "rnd (4503599627370495 / 4503599627370496) = 4503599627370495 / 4503599627370496"
  by (subst rnd_down [where k = 53]) (simp_all add: round_even_def)

lemma rnd_value_20: "rnd (4503599627370496 / 4503599627370495) = 4503599627370497 / 4503599627370496"
  by (subst rnd_down [where k = 52]) (simp_all add: round_even_def)

lemma rnd_value_21: "rnd (20282409603651670423947251286015 / 20282409603651670423947251286016) = 1"
  by (subst rnd_down [where k = 53]) (simp_all add: round_even_def)

lemma rnd_value_22: "rnd (15512842524656860169168908963529 / 20282409603651670423947251286016) = 1722271494825829 / 2251799813685248"
  by (subst rnd_down [where k = 53]) (simp_all add: round_even_def)

lemma rnd_value_23: "rnd (- (3266571751618003834502566691639 / 5070602400912917605986812821504)) = - (5802597072378297 / 9007199254740992)"
  by (subst rnd_down [where k = 53]) (simp_all add: round_even_def)

lemma rnd_value_24: "rnd (3266571751618003834502566691639 / 5070602400912917605986812821504) = 5802597072378297 / 9007199254740992"
  by (subst rnd_down [where k = 53]) (simp_all add: round_even_def)

lemma rnd_value_25: "rnd (- (20282409603651670423947251286015 / 20282409603651670423947251286016)) = - 1"
  by (subst rnd_down [where k = 53]) (simp_all add: round_even_def)

lemma rnd_value_26: "rnd (- (1249205941714618365347414975923 / 2535301200456458802993406410752)) = - (2219035518384193 / 4503599627370496)"
  by (subst rnd_down [where k = 54]) (simp_all add: round_even_def)

lemma rnd_value_27: "rnd (- (2219035518384193 / 4503599627370496)) = - (2219035518384193 / 4503599627370496)"
  by (subst rnd_down [where k = 54]) (simp_all add: round_even_def)

lemma rnd_value_28: "rnd (19987295067433891487504556888129 / 40564819207303340847894502572032) = 8876142073536771 / 18014398509481984"
  by (subst rnd_down [where k = 54]) (simp_all add: round_even_def)

lemma rnd_value_29: "rnd (- (1 / 18014398509481984)) = - (1 / 18014398509481984)"
  by (subst rnd_down [where k = 106]) (simp_all add: round_even_def)

lemma rnd_value_30: "rnd (4208766598046647188829850530239 / 10141204801825835211973625643008) = 7476271331879487 / 18014398509481984"
  by (subst rnd_down [where k = 54]) (simp_all add: round_even_def)

lemma rnd_value_31: "rnd (7476271331879487 / 18014398509481984) = 7476271331879487 / 18014398509481984"
  by (subst rnd_down [where k = 54]) (simp_all add: round_even_def)

lemma rnd_value_32: "rnd (5932438203779189333566596248653 / 10141204801825835211973625643008) = 2634531794400625 / 4503599627370496"
  by (subst rnd_down [where k = 53]) (simp_all add: round_even_def)

lemma rnd_value_33: "rnd (18014398509481987 / 18014398509481984) = 4503599627370497 / 4503599627370496"
  by (subst rnd_down [where k = 52]) (simp_all add: round_even_def)

lemma rnd_value_34: "rnd (1 / 4503599627370496) = 1 / 4503599627370496"
  by (subst rnd_down [where k = 104]) (simp_all add: round_even_def)

lemma rnd_value_35: "rnd (1 / 324518553658426726783156020576256) = 1 / 324518553658426726783156020576256"
  by (subst rnd_down [where k = 160]) (simp_all add: round_even_def)

lemma rnd_value_36: "rnd (1 / 20282409603651670423947251286016) = 1 / 20282409603651670423947251286016"
  by (subst rnd_down [where k = 156]) (simp_all add: round_even_def)

lemma rnd_value_37: "rnd (17 / 324518553658426726783156020576256) = 17 / 324518553658426726783156020576256"
  by (subst rnd_down [where k = 156]) (simp_all add: round_even_def)

lemmas rnd_values = rnd_zero
  rnd_value_01 rnd_value_02 rnd_value_03 rnd_value_04 rnd_value_05 rnd_value_06
  rnd_value_07 rnd_value_08 rnd_value_09 rnd_value_10 rnd_value_11 rnd_value_12
  rnd_value_13 rnd_value_14 rnd_value_15 rnd_value_16 rnd_value_17 rnd_value_18
  rnd_value_19 rnd_value_20 rnd_value_21 rnd_value_22 rnd_value_23 rnd_value_24
  rnd_value_25 rnd_value_26 rnd_value_27 rnd_value_28 rnd_value_29 rnd_value_30
  rnd_value_31 rnd_value_32 rnd_value_33 rnd_value_34 rnd_value_35 rnd_value_36
  rnd_value_37

lemma tilt_sqrt: "fsqrt (17 / 324518553658426726783156020576256) = 4642204239785223 / 20282409603651670423947251286016"
  unfolding fsqrt_def
  by (subst rnd_sqrt [where m = 4642204239785223 and k = 104]) (simp_all add: power2_eq_square)

lemma three_doubles_fields:
  "Object3D_worldToLocal three_doubles = D_worldToLocal"
  "Object3D_updateWorldMatrix three_doubles = D_updateWorldMatrix"
  "Object3D_updateMatrixWorld three_doubles = D_updateMatrixWorld"
  "Vector3_setFromMatrixPosition three_doubles = D_setFromMatrixPosition"
  "Vector3_normalize three_doubles = D_normalize"
  "Vector3_length three_doubles = D_length"
  "Vector3_applyQuaternion three_doubles = D_applyQuaternion"
  "Quaternion_setFromUnitVectors three_doubles = D_setFromUnitVectors"
  "Quaternion_multiply three_doubles = D_multiply"
  "Quaternion_invert three_doubles = D_invert"
  "Quaternion_setFromAxisAngle three_doubles = D_setFromAxisAngle"
  "Quaternion_setFromEuler three_doubles = D_setFromEuler"
  "Euler_setFromQuaternion three_doubles = D_eulerFromQuaternion"
  by (simp_all add: three_doubles_def)

lemmas double_arith = fadd_def fsub_def fmul_def fdiv_def rnd_values

lemma tilt_compose_0:
  "D_compose \<lparr>vx = 0, vy = 0, vz = 0\<rparr> \<lparr>qx = 0, qy = 0, qz = 0, qw = 1\<rparr> \<lparr>vx = 1, vy = 1, vz = 1\<rparr> = D_identity"
  by (simp add: D_compose_def D_identity_def Let_def double_arith)

lemma tilt_multiply_0: "D_multiplyMatrices D_identity D_identity = tilt_world_0"
  by (simp add: D_multiplyMatrices_def D_identity_def tilt_world_0_def double_arith)

lemma tilt_compose_1:
  "D_compose \<lparr>vx = 0, vy = 0, vz = 0\<rparr>
     \<lparr>qx = 6177097751530123 / 18014398509481984, qy = 0, qz = 0, qw = 8461117199082935 / 9007199254740992\<rparr>
     \<lparr>vx = 1, vy = 1, vz = 1\<rparr> = tilt_world_1"
  by (simp add: D_compose_def tilt_world_1_def Let_def double_arith)

lemma tilt_multiply_1: "D_multiplyMatrices tilt_world_0 tilt_world_1 = tilt_world_1"
  by (simp add: D_multiplyMatrices_def tilt_world_0_def tilt_world_1_def double_arith)

lemma tilt_compose_2:
  "D_compose \<lparr>vx = 0, vy = 0, vz = 1\<rparr> \<lparr>qx = 0, qy = 0, qz = 0, qw = 1\<rparr> \<lparr>vx = 1, vy = 1, vz = 1\<rparr>
     = D_identity\<lparr>n34 := 1\<rparr>"
  by (simp add: D_compose_def D_identity_def Let_def double_arith)

lemma tilt_multiply_2: "D_multiplyMatrices tilt_world_1 (D_identity\<lparr>n34 := 1\<rparr>) = tilt_world_2"
  by (simp add: D_multiplyMatrices_def D_identity_def tilt_world_1_def tilt_world_2_def double_arith)

lemma tilt_refresh: "D_refresh D_identity (ikJoints tilt_chain) = [tilt_world_0, tilt_world_1, tilt_world_2]"
  by (simp add: tilt_chain_def tilt_compose_0 tilt_compose_1 tilt_compose_2
      tilt_multiply_0 tilt_multiply_1 tilt_multiply_2)

lemma tilt_invert: "D_invertMatrix tilt_world_2 = tilt_inverse"
  by (simp add: D_invertMatrix_def tilt_world_2_def tilt_inverse_def Let_def double_arith)

lemma tilt_apply: "D_applyMatrix4 tilt_target tilt_inverse = \<lparr>vx = 0, vy = - (1 / 18014398509481984), vz = 1 / 4503599627370496\<rparr>"
  by (simp add: D_applyMatrix4_def tilt_target_def tilt_inverse_def Let_def double_arith)

lemma tilt_length: "D_length \<lparr>vx = 0, vy = - (1 / 18014398509481984), vz = 1 / 4503599627370496\<rparr> = 4642204239785223 / 20282409603651670423947251286016"
  by (simp add: D_length_def double_arith tilt_sqrt)

lemma tilt_updateWorldMatrix:
  "D_updateWorldMatrix (matrixWorld tilt_scene) (ikJoints tilt_chain) 2 = [tilt_world_0, tilt_world_1, tilt_world_2]"
proof -
  have "take (Suc 2) (ikJoints tilt_chain) = ikJoints tilt_chain"
    by (simp add: tilt_chain_def)
  then show ?thesis
    by (simp add: D_updateWorldMatrix_def tilt_refresh tilt_scene_def)
qed

lemma tilt_position:
  "Vector3_setFromMatrixPosition three_doubles
     (Object3D_updateWorldMatrix three_doubles (matrixWorld tilt_scene) (ikJoints tilt_chain) 2) 2 = tilt_target"
  by (simp add: three_doubles_fields tilt_updateWorldMatrix D_setFromMatrixPosition_def
      tilt_world_2_def tilt_target_def)

lemma tilt_first_measure:
  "first_measure three_doubles (ikJoints tilt_chain) 2 0 s = (\<lparr>vx = 0, vy = - (1 / 18014398509481984), vz = 1 / 4503599627370496\<rparr>, [tilt_world_0, tilt_world_1, tilt_world_2])"
  if "matrixWorld s = matrixWorld tilt_scene" and "vectors s ! 0 = tilt_target" for s
  using that tilt_updateWorldMatrix
  by (simp add: first_measure_def three_doubles_fields D_worldToLocal_def Let_def tilt_invert tilt_apply)

lemma tilt_distance:
  "fst (calcEndEffectorTargetDistance three_doubles (ikJoints tilt_chain) 2 0 s) = 4642204239785223 / 20282409603651670423947251286016"
  if "matrixWorld s = matrixWorld tilt_scene" and "vectors s ! 0 = tilt_target" for s
  using tilt_first_measure [OF that]
  by (simp add: calc_distance_value three_doubles_fields tilt_length)

text \<open>
  The limit step on the hinge of \<open>tilt_chain\<close>, whatever its quaternion: the derived angle is
  \<open>2 * asin x\<close> for the component \<open>x\<close> of the quaternion. When \<open>x\<close> is not 0 and at most 1 in
  magnitude, the angle lies outside the limit \<open>[0, 0]\<close> and the quaternion is set to the
  rotation by 0, the identity; otherwise the quaternion stays.
\<close>

lemma tilt_setFromAxisAngle:
  "D_setFromAxisAngle \<lparr>vx = 1, vy = 0, vz = 0\<rparr> 0 = \<lparr>qx = 0, qy = 0, qz = 0, qw = 1\<rparr>"
  by (simp add: D_setFromAxisAngle_def Let_def fsin_def fcos_def double_arith)

lemma tilt_limitStep:
  assumes "urdfJoint j = Some u_tilt"
  shows "qx (quaternion (limitStep three_doubles j)) = 0 \<or> 1 < \<bar>qx (quaternion (limitStep three_doubles j))\<bar>"
proof -
  have ax: "axis j = \<lparr>vx = 1, vy = 0, vz = 0\<rparr>" and l: "limit j = Some \<lparr>lower = 0, upper = 0\<rparr>"
    using assms by (simp_all add: axis_def limit_def u_tilt_def)
  have arg: "asin_argument j = Some (qx (quaternion j))"
    using ax by (simp add: asin_argument_def axisName_def Quaternion_component_def Vector3_component_def)
  show ?thesis
  proof (cases "\<bar>qx (quaternion j)\<bar> \<le> 1")
    case False
    then have "getIKJointRotationAngle j = None"
      by (auto simp: getIKJointRotationAngle_def arg Math_asin_def)
    then have "limitStep three_doubles j = j"
      by (simp add: limitStep_def l clampIKJointRotationAngle_def js_lt_def js_gt_def Let_def)
    with False show ?thesis by simp
  next
    case True
    then have a: "getIKJointRotationAngle j = Some (arcsin (qx (quaternion j)) * 2)"
      by (auto simp: getIKJointRotationAngle_def arg Math_asin_def)
    show ?thesis
    proof (cases "qx (quaternion j) = 0")
      case True
      then have "limitStep three_doubles j = j"
        by (simp add: limitStep_def l a clampIKJointRotationAngle_def js_lt_def js_gt_def Let_def)
      with True show ?thesis by simp
    next
      case False
      with \<open>\<bar>qx (quaternion j)\<bar> \<le> 1\<close> have "arcsin (qx (quaternion j)) \<noteq> 0"
        by (simp add: arcsin_zero_iff)
      then have "limitStep three_doubles j = j\<lparr>quaternion := D_setFromAxisAngle (axis j) 0\<rparr>"
        by (auto simp: limitStep_def l a clampIKJointRotationAngle_def js_lt_def js_gt_def
            three_doubles_fields Let_def)
      then show ?thesis by (simp add: ax tilt_setFromAxisAngle)
    qed
  qed
qed

section \<open>The claims\<close>

text \<open>
  C1. The claim: the limit step runs only on joints that declare a limit, and a joint
  without one, the root included, is never clamped. The source tests \<^verbatim>\<open>if (ikJoint.limit)\<close>,
  but the getter \<open>limit\<close> hands a joint without a declared limit the object
  \<^verbatim>\<open>{lower: 0, upper: 0}\<close>, so the test always passes (\<open>limit_never_None\<close>). What the code
  does to the root joint: its limit is \<open>[0, 0]\<close>, and whenever its quaternion has a nonzero
  component along the axis (of size at most 1, as in a unit quaternion), the limit step
  overwrites the quaternion with the rotation by 0 about the axis. On \<open>arm_chain\<close> with the
  target straight behind the arm (\<open>behind_scene\<close>), the first rotation turns the root half a
  turn toward the target, and the limit step sets it back: after the loop body the root is
  as it was before.
\<close>

theorem root_joint_is_clamped:
  assumes "isRootJoint j" and "qy (quaternion j) \<noteq> 0" and "\<bar>qy (quaternion j)\<bar> \<le> 1"
  shows "limit j = Some \<lparr>lower = 0, upper = 0\<rparr>
         \<and> limitStep T j = j\<lparr>quaternion := Quaternion_setFromAxisAngle T DEFAULT_AXIS 0\<rparr>"
proof -
  let ?r = "qy (quaternion j)"
  have lim: "limit j = Some \<lparr>lower = 0, upper = 0\<rparr>"
    using assms(1) by (simp add: limit_def isRootJoint_def)
  have arg: "asin_argument j = Some ?r"
    using root_axisName [OF assms(1)]
    by (simp add: asin_argument_def Quaternion_component_def Vector3_component_def DEFAULT_AXIS_def)
  have ang: "getIKJointRotationAngle j = Some (arcsin ?r * 2)"
    using assms(3) by (simp add: getIKJointRotationAngle_def arg Math_asin_def abs_le_iff)
  have nz: "arcsin ?r * 2 \<noteq> 0"
    using arcsin_zero_iff [OF assms(3)] assms(2) by simp
  have "clampIKJointRotationAngle (Some (arcsin ?r * 2)) \<lparr>lower = 0, upper = 0\<rparr> = (Some 0, True)"
    using nz by (auto simp: clampIKJointRotationAngle_def js_lt_def js_gt_def)
  then show ?thesis
    using lim ang root_axisName [OF assms(1)] by (simp add: limitStep_def)
qed

theorem root_joint_is_clamped_witness:
  "isRootJoint root_aimed \<and> quaternion root_aimed = \<lparr>qx = 0, qy = - 1, qz = 0, qw = 0\<rparr>
   \<and> fst (aimJoint three_reals 2 0 2 0 (ikJoints arm_chain, behind_scene)) = root_aimed
   \<and> limit root_aimed = Some \<lparr>lower = 0, upper = 0\<rparr>
   \<and> limitStep three_reals root_aimed = arm_root
   \<and> fst (adjustJoint three_reals 2 0 2 3 0 (ikJoints arm_chain, behind_scene)) = ikJoints arm_chain"
proof -
  let ?js = "ikJoints arm_chain"
  have root: "isRootJoint root_aimed" and nf: "\<not> isFixed root_aimed"
    and q: "quaternion root_aimed = \<lparr>qx = 0, qy = - 1, qz = 0, qw = 0\<rparr>"
    by (simp_all add: isRootJoint_def isFixed_def root_aimed_def arm_root_def)
  have h2: "qy (quaternion root_aimed) \<noteq> 0" and h3: "\<bar>qy (quaternion root_aimed)\<bar> \<le> 1"
    by (simp_all add: q)
  have "Quaternion_setFromAxisAngle three_reals DEFAULT_AXIS 0 = \<lparr>qx = 0, qy = 0, qz = 0, qw = 1\<rparr>"
    by (simp add: three_reals_fields R_setFromAxisAngle_def DEFAULT_AXIS_def)
  with root_joint_is_clamped [OF root h2 h3, of three_reals]
  have lim: "limit root_aimed = Some \<lparr>lower = 0, upper = 0\<rparr>"
    and step: "limitStep three_reals root_aimed = arm_root"
    by (simp_all add: root_aimed_def arm_root_def)
  obtain j1 s1 where a: "aimJoint three_reals 2 0 2 0 (?js, behind_scene) = (j1, s1)"
    by (cases "aimJoint three_reals 2 0 2 0 (?js, behind_scene)")
  have j1: "j1 = root_aimed" using behind_aim a by simp
  have "keeps_vector 0 behind_scene s1"
    using aimJoint_keeps_vector [of 0 behind_scene 2 three_reals 2 0 ?js] a
    by (simp add: behind_scene_def)
  then have len1: "3 < length (vectors s1)"
    by (simp add: keeps_vector_def behind_scene_def)
  obtain j2 s2 where c: "axisCorrection three_reals 3 (root_aimed, s1) = (j2, s2)"
    by (cases "axisCorrection three_reals 3 (root_aimed, s1)")
  have j2: "j2 = root_aimed" using behind_axis [OF len1] c by simp
  have nf0: "\<not> isFixed (?js ! 0)"
    by (simp add: arm_joint0 isFixed_def arm_root_def)
  have "fst (adjustJoint three_reals 2 0 2 3 0 (?js, behind_scene)) = ?js"
    using a c root nf0
    by (simp add: adjustJoint_def Let_def j1 j2 step arm_update0)
  with root q lim step behind_aim show ?thesis by simp
qed

text \<open>
  C2. The claim: the quotient is clamped into \<open>[-1, 1]\<close> before the inverse sine, so the
  angle is never NaN. The source passes the quotient on as it is. For the joint \<open>j_skew\<close>
  the quotient is \<open>1 / (3/5) = 5/3\<close> and the angle is NaN.
\<close>

theorem asin_argument_counterexample:
  "asin_argument j_skew = Some (5 / 3) \<and> \<not> (5 / 3 \<le> (1::real)) \<and> getIKJointRotationAngle j_skew = None"
  by (simp add: getIKJointRotationAngle_def asin_argument_def axisName_def axis_def j_skew_def
      Math_asin_def Quaternion_component_def Vector3_component_def)

text \<open>
  C2, amended. The quotient goes to the inverse sine unclamped. The angle is a number,
  twice the inverse sine and so within \<open>[-pi, pi]\<close>, exactly when the axis has a nonzero
  component and the quotient lies in \<open>[-1, 1]\<close>; otherwise it is NaN. On NaN the limit
  step leaves the joint as it is.
\<close>

theorem rotation_angle_unclamped:
  "getIKJointRotationAngle j =
     (case asin_argument j of None \<Rightarrow> None
      | Some r \<Rightarrow> if - 1 \<le> r \<and> r \<le> 1 then Some (2 * arcsin r) else None)
   \<and> (\<forall>a. getIKJointRotationAngle j = Some a \<longrightarrow> - pi \<le> a \<and> a \<le> pi)
   \<and> (getIKJointRotationAngle j = None \<longrightarrow> limitStep T j = j)"
proof -
  have 1: "getIKJointRotationAngle j =
     (case asin_argument j of None \<Rightarrow> None
      | Some r \<Rightarrow> if - 1 \<le> r \<and> r \<le> 1 then Some (2 * arcsin r) else None)"
    by (simp add: getIKJointRotationAngle_def Math_asin_def split: option.splits)
  have 2: "- pi \<le> a \<and> a \<le> pi" if "getIKJointRotationAngle j = Some a" for a
  proof -
    from that 1 obtain r where r: "- 1 \<le> r" "r \<le> 1" "a = 2 * arcsin r"
      by (auto split: option.splits if_splits)
    show ?thesis using arcsin_bounded [OF r(1,2)] r(3) by simp
  qed
  have 3: "limitStep T j = j" if "getIKJointRotationAngle j = None"
    using that
    by (auto simp: limitStep_def clampIKJointRotationAngle_def js_lt_def js_gt_def split: option.splits)
  show ?thesis using 1 2 3 by blast
qed

theorem rotation_angle_unclamped_witness:
  "getIKJointRotationAngle j_skew = None \<and> limitStep three_reals j_skew = j_skew"
  using rotation_angle_unclamped [of j_skew three_reals]
  by (simp add: asin_argument_def axisName_def axis_def j_skew_def
      Quaternion_component_def Vector3_component_def)

text \<open>
  C3. The claim: a description that branches, or that has a joint whose axis has no nonzero
  component, makes the build raise MalformedChain. The source has no such check. On a new
  chain, for \<open>fork_robot\<close>, where the base link and the first link each carry two joints,
  the build returns and the chain has the joints of the first branch; for \<open>flat_robot\<close>,
  whose last joint has the zero axis, it returns and the last joint of the chain has the
  empty axis name.
\<close>

theorem createFromURDF_counterexample:
  "fst (createFromURDF three_reals fork_robot (new_IKChain three_reals)) = None
   \<and> map (nth (joints (built fork_robot))) (fst (get_ikJoints (built fork_robot))) = ikJoints arm_chain
   \<and> private_endEffector (built fork_robot) = Some 2
   \<and> fst (createFromURDF three_reals flat_robot (new_IKChain three_reals)) = None
   \<and> map (nth (joints (built flat_robot))) (fst (get_ikJoints (built flat_robot))) = ikJoints flat_chain
   \<and> private_endEffector (built flat_robot) = Some 2
   \<and> axis (ikJoints flat_chain ! 2) = \<lparr>vx = 0, vy = 0, vz = 0\<rparr>
   \<and> axisName (ikJoints flat_chain ! 2) = None"
proof -
  have "map (nth (ikJoints arm_chain)) [0, 1, 2] = ikJoints arm_chain"
    and "map (nth (ikJoints flat_chain)) [0, 1, 2] = ikJoints flat_chain"
    by (simp_all add: arm_chain_def flat_chain_def)
  moreover have "axis (ikJoints flat_chain ! 2) = \<lparr>vx = 0, vy = 0, vz = 0\<rparr>
      \<and> axisName (ikJoints flat_chain ! 2) = None"
    by (simp add: flat_chain_def axisName_def axis_def u_zero_def)
  ultimately show ?thesis
    by (simp add: built_def build_fork build_flat get_ikJoints_def Let_def)
qed

text \<open>
  C3, amended. The build never raises MalformedChain, whether or not the description
  branches and whatever the axes of its joints are: every error it raises is the TypeError
  of the runtime. The build never touches the cached joint list. When it returns, it has
  added at least one joint and the end effector is defined: it is the joint created last.
  So on a chain whose \<^verbatim>\<open>ikJoints\<close> has not been read yet, \<^verbatim>\<open>ikJoints\<close> then reads the joints that
  were under the root before, followed by the joints built, the end effector last; on a
  new chain that is the root joint and the joints built, at least two in all. On a chain
  whose \<^verbatim>\<open>ikJoints\<close> has been read before, \<^verbatim>\<open>ikJoints\<close> still reads the list cached then, which
  has none of the joints built. A chain is well formed when the tree under its root joint
  holds no joint twice and only joints the chain has made; a new chain is, and the build
  keeps a chain so.
\<close>

theorem createFromURDF_builds:
  "fst (createFromURDF T robot this) \<noteq> Some MalformedChain
   \<and> (\<forall>err. fst (createFromURDF T robot this) = Some err \<longrightarrow> err = TypeError)
   \<and> private_ikJoints (snd (createFromURDF T robot this)) = private_ikJoints this
   \<and> (fst (createFromURDF T robot this) = None \<longrightarrow>
        length (joints this) < length (joints (snd (createFromURDF T robot this)))
        \<and> take (length (joints this)) (joints (snd (createFromURDF T robot this))) = joints this
        \<and> private_endEffector (snd (createFromURDF T robot this))
            = Some (length (joints (snd (createFromURDF T robot this))) - 1))
   \<and> (well_formed this \<longrightarrow> well_formed (snd (createFromURDF T robot this)))
   \<and> (well_formed this \<and> private_ikJoints this = None \<and> fst (createFromURDF T robot this) = None \<longrightarrow>
        fst (get_ikJoints (snd (createFromURDF T robot this)))
          = fst (get_ikJoints this) @ [length (joints this)..<length (joints (snd (createFromURDF T robot this)))])
   \<and> (\<forall>l. private_ikJoints this = Some l \<longrightarrow> fst (get_ikJoints (snd (createFromURDF T robot this))) = l)
   \<and> well_formed (new_IKChain T)
   \<and> (fst (createFromURDF T robot (new_IKChain T)) = None \<longrightarrow>
        fst (get_ikJoints (snd (createFromURDF T robot (new_IKChain T))))
          = [0..<length (joints (snd (createFromURDF T robot (new_IKChain T))))]
        \<and> 2 \<le> length (joints (snd (createFromURDF T robot (new_IKChain T))))
        \<and> joints (snd (createFromURDF T robot (new_IKChain T))) ! 0 = new_IKJoint T None)"
proof -
  obtain err this' where r: "createFromURDF T robot this = (err, this')"
    by (cases "createFromURDF T robot this")
  note e = createFromURDF_effect [OF r]
  have 1: "err \<noteq> Some MalformedChain" and 2: "private_ikJoints this' = private_ikJoints this"
    and 3: "err = None \<longrightarrow> length (joints this) < length (joints this')
        \<and> take (length (joints this)) (joints this') = joints this
        \<and> private_endEffector this' = Some (length (joints this') - 1)"
    using e by simp_all
  have 4: "well_formed this \<longrightarrow> well_formed this'"
    using createFromURDF_well_formed [OF _ r] by simp
  have 5: "fst (get_ikJoints this') = fst (get_ikJoints this) @ [length (joints this)..<length (joints this')]"
    if "well_formed this" "private_ikJoints this = None" "err = None"
    using createFromURDF_well_formed [OF that(1) r] that(2,3) 2
    by (simp add: get_ikJoints_def Let_def)
  have 6: "fst (get_ikJoints this') = l" if "private_ikJoints this = Some l" for l
    using that 2 by (simp add: get_ikJoints_def Let_def)
  obtain err0 this0 where r0: "createFromURDF T robot (new_IKChain T) = (err0, this0)"
    by (cases "createFromURDF T robot (new_IKChain T)")
  have 7: "fst (get_ikJoints this0) = [0..<length (joints this0)] \<and> 2 \<le> length (joints this0)
      \<and> joints this0 ! 0 = new_IKJoint T None" if n: "err0 = None"
  proof -
    from createFromURDF_effect [OF r0] n
    have c: "private_ikJoints this0 = None" and l: "1 < length (joints this0)"
      and t: "take 1 (joints this0) = [new_IKJoint T None]"
      by (simp_all add: new_IKChain_def)
    from createFromURDF_well_formed [OF new_IKChain_well_formed r0] n
    have "Object3D_traverse (private_rootJoint this0) = 0 # [Suc 0..<length (joints this0)]"
      by (simp add: new_IKChain_def)
    moreover have "[0..<length (joints this0)] = 0 # [Suc 0..<length (joints this0)]"
      using l by (subst upt_rec) auto
    ultimately have tr: "Object3D_traverse (private_rootJoint this0) = [0..<length (joints this0)]"
      by (simp only:)
    from t l have "joints this0 ! 0 = new_IKJoint T None"
      by (cases "joints this0") simp_all
    with c l tr show ?thesis by (simp add: get_ikJoints_def Let_def)
  qed
  have 8: "e = TypeError" if "err = Some e" for e
    using 1 that by (cases e) simp_all
  show ?thesis
    using 1 2 3 4 5 6 7 8 new_IKChain_well_formed [of T] by (simp add: r r0)
qed

theorem createFromURDF_builds_witness:
  "well_formed (new_IKChain three_reals)
   \<and> private_ikJoints (new_IKChain three_reals) = None
   \<and> fst (createFromURDF three_reals fork_robot (new_IKChain three_reals)) = None
   \<and> private_endEffector (built fork_robot) = Some 2
   \<and> fst (get_ikJoints (built fork_robot)) = [0, 1, 2]
   \<and> well_formed (built fork_robot)
   \<and> private_ikJoints (snd (get_ikJoints (new_IKChain three_reals))) = Some [0]
   \<and> fst (createFromURDF three_reals fork_robot (snd (get_ikJoints (new_IKChain three_reals)))) = None
   \<and> private_endEffector (read_then_built fork_robot) = Some 2
   \<and> fst (get_ikJoints (read_then_built fork_robot)) = [0]
   \<and> fst (createFromURDF three_reals stub_robot (new_IKChain three_reals)) = Some TypeError"
proof -
  have n: "fst (createFromURDF three_reals fork_robot (new_IKChain three_reals)) = None"
    and l: "length (joints (built fork_robot)) = 3"
    by (simp_all add: build_fork built_def arm_chain_def)
  have c: "private_ikJoints (new_IKChain three_reals) = None"
    by (simp add: new_IKChain_def)
  have s: "private_ikJoints (snd (get_ikJoints (new_IKChain three_reals))) = Some [0]"
    by (simp add: new_IKChain_def get_ikJoints_def Let_def)
  have n': "fst (createFromURDF three_reals fork_robot (snd (get_ikJoints (new_IKChain three_reals)))) = None"
    by (simp add: build_fork_after_read)
  have u: "[0..<3] = [0, 1, 2]"
    by (simp add: upt_conv_Cons)
  have "private_endEffector (built fork_robot) = Some 2
      \<and> fst (get_ikJoints (built fork_robot)) = [0, 1, 2] \<and> well_formed (built fork_robot)"
    using createFromURDF_builds [of three_reals fork_robot "new_IKChain three_reals"] n l u
    by (simp add: built_def)
  moreover have "private_endEffector (read_then_built fork_robot) = Some 2
      \<and> fst (get_ikJoints (read_then_built fork_robot)) = [0]"
    using createFromURDF_builds [of three_reals fork_robot "snd (get_ikJoints (new_IKChain three_reals))"] n' s
    by (simp add: read_then_built_def build_fork_after_read arm_chain_def)
  ultimately show ?thesis
    using n c s n' new_IKChain_well_formed [of three_reals] build_stub by simp
qed

text \<open>
  C4. The claim: with \<open>maxIterations > 0\<close> and a target so far that the distance never
  falls to the tolerance, the solver makes exactly \<open>maxIterations\<close> sweeps, raises no error
  and halts. The loop tests \<^verbatim>\<open>iteration <= config.maxIterations\<close> with \<open>iteration\<close> counted
  from 0. What the code does: when the distance measured before each of the first
  \<open>\<lfloor>maxIterations\<rfloor> + 1\<close> sweeps exceeds the tolerance, the solver returns without an error
  after \<open>\<lfloor>maxIterations\<rfloor> + 1\<close> sweeps, one more than the claim says.
\<close>

theorem sweeps_when_out_of_reach:
  assumes "endEffector chain = Some e" and "0 < maxIterations cfg"
    and "\<forall>k. k \<le> nat \<lfloor>maxIterations cfg\<rfloor> \<longrightarrow> tolerance cfg < distance_after T e t s (ikJoints chain) k"
  shows "CCDIKSolver_sweeps T chain t cfg s = Inr (nat \<lfloor>maxIterations cfg\<rfloor> + 1)
         \<and> (\<exists>r. CCDIKSolver T chain t cfg s = Inr r)"
proof -
  let ?w = "Suc (length (vectors s))" and ?q = "Suc (Suc (length (vectors s)))"
  let ?seq = "after_sweeps T e t s (ikJoints chain)"
  let ?n = "nat \<lfloor>maxIterations cfg\<rfloor>"
  have m: "0 \<le> maxIterations cfg" using assms(2) by simp
  have "CCD_while T e t ?w ?q cfg (fst (?seq 0), snd (?seq 0), 0)
          = (fst (?seq (?n + 1)), snd (?seq (?n + 1)), ?n + 1)"
  proof (rule CCD_while_runs_out [OF m])
    show "?seq (Suc k) = iteration_body T e t ?w ?q (fst (?seq k))" for k
      by (rule after_sweeps_Suc)
    show "0 \<le> ?n + 1" by simp
    show "tolerance cfg < snd (?seq k)" if "k \<le> ?n" for k
      using assms(3) that by (simp add: distance_after_def)
  qed
  moreover have "?seq 0 = ((ikJoints chain, loop_start T (ikJoints chain) e t s),
      Vector3_length T (fst (first_measure T (ikJoints chain) e t s)))"
    by (simp add: after_sweeps_def)
  ultimately have "CCDIKSolver_run T chain t cfg s
      = Inr (fst (?seq (?n + 1)), snd (?seq (?n + 1)), ?n + 1)"
    by (simp add: CCDIKSolver_run_unfold [OF assms(1)])
  then show ?thesis
    by (simp add: CCDIKSolver_sweeps_def CCDIKSolver_def split: prod.splits)
qed

theorem sweeps_when_out_of_reach_witness:
  "endEffector arm_chain = Some 2 \<and> 0 < maxIterations default_config
   \<and> maxIterations default_config = 10 \<and> tolerance default_config < 4
   \<and> distance_after three_reals 2 0 far_scene (ikJoints arm_chain) 0 = 4
   \<and> distance_after three_reals 2 0 far_scene (ikJoints arm_chain) 10 = 4
   \<and> CCDIKSolver_sweeps three_reals arm_chain 0 default_config far_scene = Inr 11"
proof -
  have h1: "endEffector arm_chain = Some 2" by (simp add: arm_chain_def)
  have h2: "0 < maxIterations default_config" by (simp add: default_config_def)
  have h3: "\<forall>k. k \<le> nat \<lfloor>maxIterations default_config\<rfloor> \<longrightarrow>
              tolerance default_config < distance_after three_reals 2 0 far_scene (ikJoints arm_chain) k"
    by (simp add: far_distance_after default_config_def)
  have n: "nat \<lfloor>maxIterations default_config\<rfloor> + 1 = 11" by (simp add: default_config_def)
  show ?thesis
    using sweeps_when_out_of_reach [OF h1 h2 h3] h1
    by (simp add: n far_distance_after) (simp add: default_config_def)
qed

text \<open>
  C5. A solve leaves every fixed joint as it was: the joint after the solver is the joint
  before it, quaternion included, and the write-back of the orchestrator changes the
  description's joint, not the quaternion of the chain's joint. The solver returns whenever
  the chain has an end effector.
\<close>

theorem fixed_joint_unchanged:
  assumes "i < length (ikJoints chain)" and "isFixed (ikJoints chain ! i)"
  shows "(\<forall>chain' s'. CCDIKSolver T chain t cfg s = Inr (chain', s') \<longrightarrow>
            ikJoints chain' ! i = ikJoints chain ! i)
         \<and> (\<forall>this this' s'. ikChain this = Some chain \<and> solve T this s = Inr (this', s') \<longrightarrow>
              (\<exists>chain'. ikChain this' = Some chain' \<and> isFixed (ikJoints chain' ! i)
                 \<and> quaternion (ikJoints chain' ! i) = quaternion (ikJoints chain ! i)))
         \<and> (endEffector chain \<noteq> None \<longrightarrow> (\<exists>r. CCDIKSolver T chain t cfg s = Inr r))"
proof -
  have 1: "ikJoints chain' ! i = ikJoints chain ! i \<and> length (ikJoints chain') = length (ikJoints chain)"
    if "CCDIKSolver T chain t cfg s = Inr (chain', s')" for chain' s' t cfg
    using CCDIKSolver_keeps_fixed [OF that] assms(2) by (simp add: keeps_fixed_def)
  have 2: "\<exists>chain'. ikChain this' = Some chain' \<and> isFixed (ikJoints chain' ! i)
                 \<and> quaternion (ikJoints chain' ! i) = quaternion (ikJoints chain ! i)"
    if c: "ikChain this = Some chain" and r: "solve T this s = Inr (this', s')" for this this' s'
  proof (cases "target this")
    case None
    with c r assms(2) show ?thesis by (auto simp: solve_def)
  next
    case (Some tp)
    from c r Some obtain c' where
      c': "CCDIKSolver T chain tp (config this) s = Inr (c', s')" and
      t': "this' = (if updateURDFRobot (config this) then updateURDFRobot_of T (this\<lparr>ikChain := Some c'\<rparr>)
                    else this\<lparr>ikChain := Some c'\<rparr>)"
      by (auto simp: solve_def Let_def split: sum.splits)
    from 1 [OF c'] assms show ?thesis
      by (auto simp: t' updateURDFRobot_of_def writeBack_quaternion)
  qed
  have 3: "\<exists>r. CCDIKSolver T chain t cfg s = Inr r" if "endEffector chain \<noteq> None"
    using that CCDIKSolver_total [of chain _ T t cfg s] by auto
  show ?thesis using 1 2 3 by blast
qed

theorem fixed_joint_unchanged_witness:
  "1 < length (ikJoints arm_chain) \<and> isFixed (ikJoints arm_chain ! 1)
   \<and> (\<exists>chain' s'. CCDIKSolver three_reals arm_chain 0 default_config far_scene = Inr (chain', s')
         \<and> ikJoints chain' ! 1 = ikJoints arm_chain ! 1)"
proof -
  have h1: "1 < length (ikJoints arm_chain)" by (simp add: arm_chain_def)
  have h2: "isFixed (ikJoints arm_chain ! 1)" by (simp add: arm_chain_def isFixed_def u_fixed_def)
  have h3: "endEffector arm_chain \<noteq> None" by (simp add: arm_chain_def)
  show ?thesis
    using fixed_joint_unchanged [OF h1 h2, of three_reals 0 default_config far_scene] h1 h2 h3
    by auto
qed

text \<open>
  C6. \<^verbatim>\<open>solve\<close> with the chain or the target absent returns without an error and leaves
  everything as it was: no joint is changed and nothing is written back, whatever the
  configuration says.
\<close>

theorem solve_missing_operand:
  assumes "ikChain this = None \<or> target this = None"
  shows "solve T this s = Inr (this, s)"
  using assms by (auto simp: solve_def split: option.splits)

theorem solve_missing_operand_witness:
  "target \<lparr>ikChain = Some arm_chain, target = None, config = default_config\<lparr>updateURDFRobot := True\<rparr>\<rparr> = None
   \<and> solve three_reals \<lparr>ikChain = Some arm_chain, target = None, config = default_config\<lparr>updateURDFRobot := True\<rparr>\<rparr> far_scene
       = Inr (\<lparr>ikChain = Some arm_chain, target = None, config = default_config\<lparr>updateURDFRobot := True\<rparr>\<rparr>, far_scene)"
  using solve_missing_operand
    [of "\<lparr>ikChain = Some arm_chain, target = None, config = default_config\<lparr>updateURDFRobot := True\<rparr>\<rparr>"
        three_reals far_scene]
  by simp

text \<open>
  C7. The claim: with a positive tolerance, when the target is at the world position of the
  end effector, the distance is zero and a solve changes no joint orientation. The solver
  does not compare the two positions: it takes the target through the inverse of the end
  effector's world matrix and measures the length of the result, in doubles. For
  \<open>tilt_chain\<close> with the target at the world position of its end effector, that length is
  \<open>sqrt 17 / 2 ^ 54\<close> rounded, about \<open>2.29e-16\<close>; under the tolerance \<open>2 ^ -53\<close> the loop is
  entered, and the limit step leaves the hinge with another quaternion than it had.
\<close>

theorem solve_at_target_counterexample:
  "endEffector tilt_chain = Some 2
   \<and> vectors tilt_scene ! 0 =
       Vector3_setFromMatrixPosition three_doubles
         (Object3D_updateWorldMatrix three_doubles (matrixWorld tilt_scene) (ikJoints tilt_chain) 2) 2
   \<and> 0 < tolerance tilt_config
   \<and> fst (calcEndEffectorTargetDistance three_doubles (ikJoints tilt_chain) 2 0 tilt_scene) = 4642204239785223 / 20282409603651670423947251286016
   \<and> isFixed (ikJoints tilt_chain ! 1) = False
   \<and> isl (CCDIKSolver three_doubles tilt_chain 0 tilt_config tilt_scene) = False
   \<and> qx (quaternion (ikJoints (fst (projr (CCDIKSolver three_doubles tilt_chain 0 tilt_config tilt_scene))) ! 1))
       \<noteq> qx (quaternion (ikJoints tilt_chain ! 1))"
proof -
  let ?js = "ikJoints tilt_chain"
  let ?s = "loop_start three_doubles ?js 2 0 tilt_scene"
  have e: "endEffector tilt_chain = Some 2"
    by (simp add: tilt_chain_def)
  have t: "vectors tilt_scene ! 0 = tilt_target"
    by (simp add: tilt_scene_def)
  have d: "fst (calcEndEffectorTargetDistance three_doubles ?js 2 0 tilt_scene) = 4642204239785223 / 20282409603651670423947251286016"
    using tilt_distance [OF refl t] .
  have tol: "0 < tolerance tilt_config" and gt: "tolerance tilt_config < 4642204239785223 / 20282409603651670423947251286016"
    and it: "real 0 \<le> maxIterations tilt_config"
    by (simp_all add: tilt_config_def)
  have nf: "\<not> isFixed (?js ! 1)" and u: "urdfJoint (?js ! 1) = Some u_tilt" and len: "Suc 1 < length ?js"
    and q0: "qx (quaternion (?js ! Suc 0)) = 6177097751530123 / 18014398509481984"
    by (simp_all add: tilt_chain_def isFixed_def u_tilt_def)
  have dv: "Vector3_length three_doubles (fst (first_measure three_doubles ?js 2 0 tilt_scene)) = 4642204239785223 / 20282409603651670423947251286016"
    using d by (simp only: calc_distance_value)
  have run: "CCDIKSolver_run three_doubles tilt_chain 0 tilt_config tilt_scene =
      Inr (CCD_while three_doubles 2 0 (Suc (length (vectors tilt_scene))) (Suc (Suc (length (vectors tilt_scene))))
             tilt_config ((?js, ?s), 4642204239785223 / 20282409603651670423947251286016, 0))"
    by (rule trans [OF CCDIKSolver_run_unfold [OF e]]) (simp only: dv)
  let ?r = "CCD_while three_doubles 2 0 (Suc (length (vectors tilt_scene))) (Suc (Suc (length (vectors tilt_scene))))
             tilt_config ((?js, ?s), 4642204239785223 / 20282409603651670423947251286016, 0)"
  have p: "qx (quaternion (fst (fst ?r) ! 1)) = 0 \<or> 1 < \<bar>qx (quaternion (fst (fst ?r) ! 1))\<bar>"
    using CCD_while_limitStep
      [where P = "\<lambda>j. qx (quaternion j) = 0 \<or> 1 < \<bar>qx (quaternion j)\<bar>" and u = "Some u_tilt"
         and T = three_doubles and i = 1 and st = "(?js, ?s)" and d = "4642204239785223 / 20282409603651670423947251286016"
         and cfg = tilt_config and it = 0]
      tilt_limitStep len u nf gt it
    by simp
  have res: "CCDIKSolver three_doubles tilt_chain 0 tilt_config tilt_scene
      = Inr (tilt_chain\<lparr>ikJoints := fst (fst ?r)\<rparr>, snd (fst ?r))"
    by (simp add: CCDIKSolver_def run split: prod.splits)
  have "qx (quaternion (ikJoints (fst (projr (CCDIKSolver three_doubles tilt_chain 0 tilt_config tilt_scene))) ! 1))
      \<noteq> qx (quaternion (?js ! 1))"
    using p q0 by (auto simp: res)
  then show ?thesis
    using e t tol d nf res by (simp add: tilt_position)
qed

text \<open>
  C7, amended. For every chain with an end effector and every configuration: when the
  distance that the solver first measures from the end effector to the target is at most
  the tolerance, the solver makes no sweep and returns the chain as it was given, so no
  joint orientation changes. In exact arithmetic, the operations read over the reals, a
  target at the world position of the end effector measures 0: the solve then is such a
  no-op under every tolerance from 0 on, and so is a second solve after it. In
  \<open>near_scene\<close> the target is the end effector's world position, over the reals. For
  \<open>tilt_chain\<close> in doubles the distance measured is about \<open>2.29e-16\<close>, within the default
  tolerance.
\<close>

theorem solve_at_target:
  "(endEffector chain = Some e
      \<and> fst (calcEndEffectorTargetDistance T (ikJoints chain) e t s) \<le> tolerance cfg \<longrightarrow>
      (\<exists>s'. CCDIKSolver T chain t cfg s = Inr (chain, s'))
      \<and> CCDIKSolver_sweeps T chain t cfg s = Inr 0)
   \<and> (endEffector chain = Some e \<and> 0 \<le> tolerance cfg
        \<and> vectors r ! t =
            Vector3_setFromMatrixPosition three_reals
              (Object3D_updateWorldMatrix three_reals (matrixWorld r) (ikJoints chain) e) e \<longrightarrow>
        fst (calcEndEffectorTargetDistance three_reals (ikJoints chain) e t r) = 0
        \<and> CCDIKSolver_sweeps three_reals chain t cfg r = Inr 0
        \<and> (\<exists>r'. CCDIKSolver three_reals chain t cfg r = Inr (chain, r')
               \<and> (e < length (ikJoints chain) \<and> t < length (vectors r) \<longrightarrow>
                    CCDIKSolver_sweeps three_reals chain t cfg r' = Inr 0
                    \<and> (\<exists>r''. CCDIKSolver three_reals chain t cfg r' = Inr (chain, r'')))))"
proof -
  let ?js = "ikJoints chain"
  have 1: "(\<exists>s'. CCDIKSolver T chain t cfg s = Inr (chain, s')) \<and> CCDIKSolver_sweeps T chain t cfg s = Inr 0"
    if "endEffector chain = Some e" "fst (calcEndEffectorTargetDistance T ?js e t s) \<le> tolerance cfg"
    using within_tolerance_no_sweep [OF that] by simp
  have 2: "fst (calcEndEffectorTargetDistance three_reals ?js e t r) = 0
      \<and> CCDIKSolver_sweeps three_reals chain t cfg r = Inr 0
      \<and> (\<exists>r'. CCDIKSolver three_reals chain t cfg r = Inr (chain, r')
             \<and> (e < length ?js \<and> t < length (vectors r) \<longrightarrow>
                  CCDIKSolver_sweeps three_reals chain t cfg r' = Inr 0
                  \<and> (\<exists>r''. CCDIKSolver three_reals chain t cfg r' = Inr (chain, r''))))"
    if e: "endEffector chain = Some e" and tol: "0 \<le> tolerance cfg"
      and at: "vectors r ! t =
            Vector3_setFromMatrixPosition three_reals
              (Object3D_updateWorldMatrix three_reals (matrixWorld r) ?js e) e"
  proof -
    let ?r' = "loop_start three_reals ?js e t r"
    have d: "fst (calcEndEffectorTargetDistance three_reals ?js e t r) = 0"
      using exact_distance [OF at] .
    have first: "CCDIKSolver three_reals chain t cfg r = Inr (chain, ?r')
        \<and> CCDIKSolver_sweeps three_reals chain t cfg r = Inr 0"
      using within_tolerance_no_sweep [OF e, of three_reals t r cfg] d tol by simp
    have second: "CCDIKSolver_sweeps three_reals chain t cfg ?r' = Inr 0
        \<and> (\<exists>r''. CCDIKSolver three_reals chain t cfg ?r' = Inr (chain, r''))"
      if "e < length ?js" "t < length (vectors r)"
    proof -
      have "fst (calcEndEffectorTargetDistance three_reals ?js e t ?r') = 0"
        using exact_distance [OF exact_again [OF at that]] .
      then show ?thesis
        using within_tolerance_no_sweep [OF e, of three_reals t ?r' cfg] tol by simp
    qed
    show ?thesis using d first second by simp
  qed
  show ?thesis using 1 2 by blast
qed

theorem solve_at_target_witness:
  "endEffector arm_chain = Some 2
   \<and> vectors near_scene ! 0 =
       Vector3_setFromMatrixPosition three_reals
         (Object3D_updateWorldMatrix three_reals (matrixWorld near_scene) (ikJoints arm_chain) 2) 2
   \<and> tolerance default_config = 1 / 100
   \<and> 2 < length (ikJoints arm_chain) \<and> 0 < length (vectors near_scene)
   \<and> fst (calcEndEffectorTargetDistance three_reals (ikJoints arm_chain) 2 0 near_scene) = 0
   \<and> CCDIKSolver_sweeps three_reals arm_chain 0 default_config near_scene = Inr 0
   \<and> (\<exists>r'. CCDIKSolver three_reals arm_chain 0 default_config near_scene = Inr (arm_chain, r')
          \<and> CCDIKSolver_sweeps three_reals arm_chain 0 default_config r' = Inr 0
          \<and> (\<exists>r''. CCDIKSolver three_reals arm_chain 0 default_config r' = Inr (arm_chain, r'')))
   \<and> endEffector tilt_chain = Some 2
   \<and> fst (calcEndEffectorTargetDistance three_doubles (ikJoints tilt_chain) 2 0 tilt_scene) = 4642204239785223 / 20282409603651670423947251286016
   \<and> (\<exists>s'. CCDIKSolver three_doubles tilt_chain 0 default_config tilt_scene = Inr (tilt_chain, s'))
   \<and> CCDIKSolver_sweeps three_doubles tilt_chain 0 default_config tilt_scene = Inr 0"
proof -
  have h1: "endEffector arm_chain = Some 2" by (simp add: arm_chain_def)
  have h3: "tolerance default_config = 1 / 100" by (simp add: default_config_def)
  have h4: "vectors near_scene ! 0 =
       Vector3_setFromMatrixPosition three_reals
         (Object3D_updateWorldMatrix three_reals (matrixWorld near_scene) (ikJoints arm_chain) 2) 2"
    by (simp add: three_reals_fields near_scene_def arm_updateWorldMatrix)
       (simp add: arm_poses_def R_setFromMatrixPosition_def)
  have h5: "2 < length (ikJoints arm_chain)" "0 < length (vectors near_scene)"
    by (simp_all add: arm_chain_def near_scene_def)
  have k1: "endEffector tilt_chain = Some 2" by (simp add: tilt_chain_def)
  have k2: "fst (calcEndEffectorTargetDistance three_doubles (ikJoints tilt_chain) 2 0 tilt_scene) = 4642204239785223 / 20282409603651670423947251286016"
    by (rule tilt_distance) (simp_all add: tilt_scene_def)
  have a: "fst (calcEndEffectorTargetDistance three_reals (ikJoints arm_chain) 2 0 near_scene) = 0
      \<and> CCDIKSolver_sweeps three_reals arm_chain 0 default_config near_scene = Inr 0
      \<and> (\<exists>r'. CCDIKSolver three_reals arm_chain 0 default_config near_scene = Inr (arm_chain, r')
             \<and> CCDIKSolver_sweeps three_reals arm_chain 0 default_config r' = Inr 0
             \<and> (\<exists>r''. CCDIKSolver three_reals arm_chain 0 default_config r' = Inr (arm_chain, r'')))"
    using solve_at_target [of arm_chain 2 three_reals 0 near_scene default_config near_scene] h1 h3 h4 h5
    by simp
  have b: "(\<exists>s'. CCDIKSolver three_doubles tilt_chain 0 default_config tilt_scene = Inr (tilt_chain, s'))
      \<and> CCDIKSolver_sweeps three_doubles tilt_chain 0 default_config tilt_scene = Inr 0"
    using solve_at_target [of tilt_chain 2 three_doubles 0 tilt_scene default_config] k1 k2 h3 by simp
  show ?thesis
    using h1 h3 h4 h5 k1 k2 a b by simp
qed

text \<open>
  C8. For a limit with \<open>lower \<le> upper\<close> and an angle \<open>a\<close>, the helper returns \<open>a\<close> clamped
  into \<open>[lower, upper]\<close> and a flag that is set exactly when \<open>a\<close> lies outside; the limit
  step overwrites the quaternion, with the rotation by the clamped angle about the axis,
  exactly when the flag is set.
\<close>

theorem clampIKJointRotationAngle_clamps:
  assumes "lower l \<le> upper l"
  shows "(case clampIKJointRotationAngle (Some a) l of (c, isClamped) \<Rightarrow>
            c = Some (if a < lower l then lower l else if upper l < a then upper l else a)
            \<and> (\<exists>r. c = Some r \<and> lower l \<le> r \<and> r \<le> upper l)
            \<and> isClamped = (a < lower l \<or> upper l < a))
         \<and> (limit j = Some l \<and> getIKJointRotationAngle j = Some a \<longrightarrow>
              limitStep T j =
                (if a < lower l \<or> upper l < a
                 then j\<lparr>quaternion :=
                        Quaternion_setFromAxisAngle T (axis j) (if a < lower l then lower l else upper l)\<rparr>
                 else j))"
  using assms
  by (auto simp: clampIKJointRotationAngle_def js_lt_def js_gt_def limitStep_def)

theorem clampIKJointRotationAngle_clamps_witness:
  "lower \<lparr>lower = 1, upper = 2\<rparr> \<le> upper \<lparr>lower = 1, upper = 2\<rparr>
   \<and> limit j_hinge = Some \<lparr>lower = 1, upper = 2\<rparr> \<and> getIKJointRotationAngle j_hinge = Some 0
   \<and> clampIKJointRotationAngle (Some 0) \<lparr>lower = 1, upper = 2\<rparr> = (Some 1, True)
   \<and> limitStep three_reals j_hinge =
       j_hinge\<lparr>quaternion := Quaternion_setFromAxisAngle three_reals (axis j_hinge) 1\<rparr>"
  using clampIKJointRotationAngle_clamps [of "\<lparr>lower = 1, upper = 2\<rparr>" 0 j_hinge three_reals] j_hinge_angle
  by (auto simp: limit_def j_hinge_def split: prod.splits)

text \<open>
  C9. The solver never writes the target: with the target's position at an address of the
  store, the vector at that address after a solve is the vector before it. The solver
  measures on clones, and its scratch vectors are new.
\<close>

theorem target_unchanged:
  assumes "t < length (vectors s)" and "CCDIKSolver T chain t cfg s = Inr (chain', s')"
  shows "vectors s' ! t = vectors s ! t"
proof -
  obtain e where e: "endEffector chain = Some e"
    using CCDIKSolver_Inr_endEffector [OF assms(2)] by blast
  let ?s0 = "loop_start T (ikJoints chain) e t s"
  let ?x = "((ikJoints chain, ?s0),
             Vector3_length T (fst (first_measure T (ikJoints chain) e t s)), 0::nat)"
  let ?w = "Suc (length (vectors s))" and ?q = "Suc (Suc (length (vectors s)))"
  have s0: "keeps_vector t s ?s0"
    using assms(1) by (simp add: keeps_vector_def loop_start_def nth_append)
  have "keeps_vector t (snd (fst ?x)) (snd (fst (CCD_while T e t ?w ?q cfg ?x)))"
    using assms(1) by (intro CCD_while_keeps_vector) (auto simp: loop_start_def)
  then have "keeps_vector t s (snd (fst (CCD_while T e t ?w ?q cfg ?x)))"
    using s0 by (simp add: keeps_vector_trans)
  then show ?thesis
    using assms(2) CCDIKSolver_run_unfold [OF e, of T t cfg s]
    by (auto simp: CCDIKSolver_def keeps_vector_def split: prod.splits)
qed

theorem target_unchanged_witness:
  "0 < length (vectors far_scene)
   \<and> (\<exists>chain' s'. CCDIKSolver three_reals arm_chain 0 default_config far_scene = Inr (chain', s')
         \<and> vectors s' ! 0 = \<lparr>vx = 0, vy = 0, vz = 5\<rparr>)"
proof -
  have h1: "0 < length (vectors far_scene)" by (simp add: far_scene_def)
  obtain chain' s' where r: "CCDIKSolver three_reals arm_chain 0 default_config far_scene = Inr (chain', s')"
    using CCDIKSolver_total [of arm_chain 2 three_reals 0 default_config far_scene]
    by (auto simp: arm_chain_def)
  have "vectors s' ! 0 = vectors far_scene ! 0"
    by (rule target_unchanged [OF h1 r])
  then show ?thesis using h1 r by (simp add: far_scene_def)
qed

text \<open>
  C10. The constructor fills a field that the caller leaves out with its default
  (tolerance 0.01, maxIterations 10, updateURDFRobot false) and takes every field that the
  caller gives.
\<close>

theorem new_IKSolver_defaults:
  "(p_tolerance cfg = None \<longrightarrow> tolerance (config (new_IKSolver cfg)) = 1 / 100)
   \<and> (p_maxIterations cfg = None \<longrightarrow> maxIterations (config (new_IKSolver cfg)) = 10)
   \<and> (p_updateURDFRobot cfg = None \<longrightarrow> updateURDFRobot (config (new_IKSolver cfg)) = False)
   \<and> (\<forall>v. p_tolerance cfg = Some v \<longrightarrow> tolerance (config (new_IKSolver cfg)) = v)
   \<and> (\<forall>v. p_maxIterations cfg = Some v \<longrightarrow> maxIterations (config (new_IKSolver cfg)) = v)
   \<and> (\<forall>v. p_updateURDFRobot cfg = Some v \<longrightarrow> updateURDFRobot (config (new_IKSolver cfg)) = v)"
  by (simp add: new_IKSolver_def spread_def)

theorem new_IKSolver_defaults_witness:
  "config (new_IKSolver \<lparr>p_tolerance = None, p_maxIterations = Some 25, p_updateURDFRobot = None\<rparr>)
     = \<lparr>tolerance = 1 / 100, maxIterations = 25, updateURDFRobot = False\<rparr>"
  using new_IKSolver_defaults [of "\<lparr>p_tolerance = None, p_maxIterations = Some 25, p_updateURDFRobot = None\<rparr>"]
  by simp

end
